theory Spec2Isabelle
  imports Main
begin

section \<open>Go values, errors and effects\<close>

text \<open>
  A Go pointer is an option (\<open>None\<close> is nil). \<open>StringValue\<close> is the SDK's
  \<^verbatim>\<open>aws.StringValue\<close>: the pointed-to string, or the empty string for nil.
\<close>

definition StringValue :: "string option \<Rightarrow> string" where
  "StringValue p = (case p of None \<Rightarrow> [] | Some s \<Rightarrow> s)"

text \<open>
  The error values the file handles: an AWS API error with its code and message, an error
  built by \<^verbatim>\<open>fmt.Errorf\<close> (its text), and the three error types of the wait library.
  \<open>Error\<close> is the text of an error. For an API error it is the code, a colon and the
  message; the status code and the request id that a request failure prints after them
  are left out, and so are the exact texts of the wait library's errors.
\<close>

datatype error =
    AWSError string string
  | ErrorString string
  | NotFoundError
  | TimeoutError string
  | UnexpectedStateError string

fun Error :: "error \<Rightarrow> string" where
  "Error (AWSError code message) = code @ '': '' @ message"
| "Error (ErrorString s) = s"
| "Error NotFoundError = ''couldn't find resource''"
| "Error (TimeoutError s) = ''timeout while waiting: '' @ s"
| "Error (UnexpectedStateError s) = ''unexpected state '' @ s"

text \<open>\<^verbatim>\<open>strings.Contains\<close>.\<close>

fun Contains :: "string \<Rightarrow> string \<Rightarrow> bool" where
  "Contains [] substr = (substr = [])"
| "Contains (c # s) substr = (take (length substr) (c # s) = substr \<or> Contains s substr)"

text \<open>
  Modelled from the spec: the error classifiers \<^verbatim>\<open>isAWSErr\<close>,
  \<^verbatim>\<open>isResourceNotFoundError\<close> and \<^verbatim>\<open>isResourceTimeoutError\<close> are declared
  elsewhere in the provider. The spec has a not-found error code per resource kind, a
  not-found outcome of a wait and a timeout that is distinguished from a hard API error.
\<close>

definition isAWSErr :: "error option \<Rightarrow> string \<Rightarrow> string \<Rightarrow> bool" where
  "isAWSErr err code message =
     (case err of
        Some (AWSError c m) \<Rightarrow> c = code \<and> Contains m message
      | _ \<Rightarrow> False)"

definition isResourceNotFoundError :: "error option \<Rightarrow> bool" where
  "isResourceNotFoundError err = (case err of Some NotFoundError \<Rightarrow> True | _ \<Rightarrow> False)"

definition isResourceTimeoutError :: "error option \<Rightarrow> bool" where
  "isResourceTimeoutError err = (case err of Some (TimeoutError s) \<Rightarrow> True | _ \<Rightarrow> False)"

text \<open>
  Every remote operation the file issues. The history of a run is the list of the remote
  calls issued and the state waits started so far, oldest first; the remote side answers
  a call from the history and the call's input, so its answers may change over time.
\<close>

datatype operation =
    DescribeTransitGatewaysOp
  | DescribeTransitGatewayRouteTablesOp
  | GetTransitGatewayRouteTableAssociationsOp
  | GetTransitGatewayRouteTablePropagationsOp
  | DescribeTransitGatewayPeeringAttachmentsOp
  | DescribeTransitGatewayVpcAttachmentsOp
  | DescribeTransitGatewayMulticastDomainsOp
  | GetTransitGatewayMulticastDomainAssociationsOp
  | SearchTransitGatewayMulticastGroupsOp
  | AssociateTransitGatewayRouteTableOp
  | DisassociateTransitGatewayRouteTableOp
  | EnableTransitGatewayRouteTablePropagationOp
  | DisableTransitGatewayRouteTablePropagationOp

datatype event =
    Called operation
  | WaitForStateCalled "string list" "string list"

type_synonym history = "event list"

text \<open>
  A call either returns or panics; a loop that never ends has no outcome at all
  (\<open>None\<close>). An effectful function maps the history to its outcome and the new history.
\<close>

datatype 'a go = Return 'a | Panic

type_synonym 'a io = "history \<Rightarrow> ('a go \<times> history) option"

definition io_return :: "'a \<Rightarrow> 'a io" where
  "io_return x = (\<lambda>h. Some (Return x, h))"

definition io_panic :: "'a io" where
  "io_panic = (\<lambda>h. Some (Panic, h))"

definition and_then :: "'a io \<Rightarrow> ('a \<Rightarrow> 'b io) \<Rightarrow> 'b io" where
  "and_then m f =
     (\<lambda>h. case m h of
        None \<Rightarrow> None
      | Some (Panic, h') \<Rightarrow> Some (Panic, h')
      | Some (Return x, h') \<Rightarrow> f x h')"

section \<open>The API's data\<close>

text \<open>The fields of the SDK's structs that the file reads or sets.\<close>

record Filter =
  Name :: "string option"
  Values :: "string option list"

record TransitGateway =
  TransitGatewayId :: "string option"
  State :: "string option"

record TransitGatewayRouteTable =
  TransitGatewayRouteTableId :: "string option"
  State :: "string option"

record TransitGatewayRouteTableAssociation =
  ResourceId :: "string option"
  State :: "string option"

record TransitGatewayRouteTablePropagation =
  ResourceId :: "string option"
  State :: "string option"

record PeeringAttachmentStatus =
  Code :: "string option"
  Message :: "string option"

record TransitGatewayPeeringAttachment =
  TransitGatewayAttachmentId :: "string option"
  State :: "string option"
  Status :: "PeeringAttachmentStatus option"

record TransitGatewayVpcAttachment =
  TransitGatewayAttachmentId :: "string option"
  State :: "string option"

record TransitGatewayMulticastDomain =
  TransitGatewayMulticastDomainId :: "string option"
  State :: "string option"

record SubnetAssociation =
  SubnetId :: "string option"
  State :: "string option"

record TransitGatewayMulticastDomainAssociation =
  Subnet :: "SubnetAssociation option"

record TransitGatewayMulticastGroup =
  NetworkInterfaceId :: "string option"

text \<open>
  One input shape serves every request: the identifier list of a describe call
  (\<^verbatim>\<open>TransitGatewayIds\<close>, \<^verbatim>\<open>TransitGatewayRouteTableIds\<close>,
  \<^verbatim>\<open>TransitGatewayAttachmentIds\<close>, \<^verbatim>\<open>TransitGatewayMulticastDomainIds\<close>), the
  filters, the three single identifiers and the continuation token. A field a request
  does not have stays empty. One output shape serves every paged answer: the items
  (pointers, so each may be nil) and the next token.
\<close>

record Input =
  Ids :: "string option list"
  Filters :: "Filter option list"
  InTransitGatewayRouteTableId :: "string option"
  InTransitGatewayAttachmentId :: "string option"
  InTransitGatewayMulticastDomainId :: "string option"
  NextToken :: "string option"

record 'a Output =
  Items :: "'a option list"
  OutNextToken :: "string option"

definition NewInput :: Input where
  "NewInput = \<lparr>Ids = [], Filters = [], InTransitGatewayRouteTableId = None,
     InTransitGatewayAttachmentId = None, InTransitGatewayMulticastDomainId = None,
     NextToken = None\<rparr>"

text \<open>
  The connection \<^verbatim>\<open>*ec2.EC2\<close>: what the remote side answers to each operation, given
  the history and the input. A read returns the pair (output, error) of the Go call; a
  mutation returns its error only, since every caller discards the output.
\<close>

record EC2 =
  DescribeTransitGateways ::
    "history \<Rightarrow> Input \<Rightarrow> TransitGateway Output option \<times> error option"
  DescribeTransitGatewayRouteTables ::
    "history \<Rightarrow> Input \<Rightarrow> TransitGatewayRouteTable Output option \<times> error option"
  GetTransitGatewayRouteTableAssociations ::
    "history \<Rightarrow> Input \<Rightarrow> TransitGatewayRouteTableAssociation Output option \<times> error option"
  GetTransitGatewayRouteTablePropagations ::
    "history \<Rightarrow> Input \<Rightarrow> TransitGatewayRouteTablePropagation Output option \<times> error option"
  DescribeTransitGatewayPeeringAttachments ::
    "history \<Rightarrow> Input \<Rightarrow> TransitGatewayPeeringAttachment Output option \<times> error option"
  DescribeTransitGatewayVpcAttachments ::
    "history \<Rightarrow> Input \<Rightarrow> TransitGatewayVpcAttachment Output option \<times> error option"
  DescribeTransitGatewayMulticastDomains ::
    "history \<Rightarrow> Input \<Rightarrow> TransitGatewayMulticastDomain Output option \<times> error option"
  GetTransitGatewayMulticastDomainAssociations ::
    "history \<Rightarrow> Input \<Rightarrow> TransitGatewayMulticastDomainAssociation Output option \<times> error option"
  SearchTransitGatewayMulticastGroups ::
    "history \<Rightarrow> Input \<Rightarrow> TransitGatewayMulticastGroup Output option \<times> error option"
  AssociateTransitGatewayRouteTable :: "history \<Rightarrow> Input \<Rightarrow> error option"
  DisassociateTransitGatewayRouteTable :: "history \<Rightarrow> Input \<Rightarrow> error option"
  EnableTransitGatewayRouteTablePropagation :: "history \<Rightarrow> Input \<Rightarrow> error option"
  DisableTransitGatewayRouteTablePropagation :: "history \<Rightarrow> Input \<Rightarrow> error option"

text \<open>
  A method call on the connection. On a nil connection the SDK dereferences the nil
  client and panics before any request leaves; otherwise the call is recorded in the
  history and answered.
\<close>

definition call :: "operation \<Rightarrow> (EC2 \<Rightarrow> history \<Rightarrow> Input \<Rightarrow> 'r) \<Rightarrow> EC2 option \<Rightarrow> Input \<Rightarrow> 'r io" where
  "call op method conn input =
     (\<lambda>h. case conn of
        None \<Rightarrow> Some (Panic, h)
      | Some c \<Rightarrow> Some (Return (method c h input), h @ [Called op]))"

section \<open>Describe helpers\<close>

text \<open>
  \<^verbatim>\<open>ec2DescribeTransitGateway\<close>, \<^verbatim>\<open>ec2DescribeTransitGatewayRouteTable\<close>,
  \<^verbatim>\<open>ec2DescribeTransitGatewayPeeringAttachment\<close> and
  \<^verbatim>\<open>ec2DescribeTransitGatewayVpcAttachment\<close> are the same loop over the pages of
  their describe operation: an error ends it, a nil or empty page ends it with nil, the
  first non-nil item with the wanted identifier is returned, and otherwise the loop goes to
  the next page while the answer carries a token. The loop is written once, over the
  operation and the identifier field.
\<close>

partial_function (option) describeLoop ::
  "operation \<Rightarrow> (EC2 \<Rightarrow> history \<Rightarrow> Input \<Rightarrow> 'a Output option \<times> error option) \<Rightarrow>
   ('a \<Rightarrow> string option) \<Rightarrow> EC2 option \<Rightarrow> string \<Rightarrow> Input \<Rightarrow> history \<Rightarrow>
   (('a option \<times> error option) go \<times> history) option" where
  "describeLoop op method idOf conn wantedID input h =
     (case call op method conn input h of
        None \<Rightarrow> None
      | Some (Panic, h') \<Rightarrow> Some (Panic, h')
      | Some (Return (output, err), h') \<Rightarrow>
          if err \<noteq> None then Some (Return (None, err), h')
          else (case output of
                  None \<Rightarrow> Some (Return (None, None), h')
                | Some out \<Rightarrow>
                    if Items out = [] then Some (Return (None, None), h')
                    else (case find (\<lambda>item. case item of
                                              None \<Rightarrow> False
                                            | Some x \<Rightarrow> StringValue (idOf x) = wantedID)
                                 (Items out) of
                            Some item \<Rightarrow> Some (Return (item, None), h')
                          | None \<Rightarrow>
                              if StringValue (OutNextToken out) = []
                              then Some (Return (None, None), h')
                              else describeLoop op method idOf conn wantedID
                                     (input\<lparr>NextToken := OutNextToken out\<rparr>) h')))"

definition ec2DescribeTransitGateway ::
  "EC2 option \<Rightarrow> string \<Rightarrow> (TransitGateway option \<times> error option) io" where
  "ec2DescribeTransitGateway conn transitGatewayID =
     describeLoop DescribeTransitGatewaysOp DescribeTransitGateways TransitGatewayId
       conn transitGatewayID (NewInput\<lparr>Ids := [Some transitGatewayID]\<rparr>)"

definition ec2DescribeTransitGatewayRouteTable ::
  "EC2 option \<Rightarrow> string \<Rightarrow> (TransitGatewayRouteTable option \<times> error option) io" where
  "ec2DescribeTransitGatewayRouteTable conn transitGatewayRouteTableID =
     describeLoop DescribeTransitGatewayRouteTablesOp DescribeTransitGatewayRouteTables
       TransitGatewayRouteTableId conn transitGatewayRouteTableID
       (NewInput\<lparr>Ids := [Some transitGatewayRouteTableID]\<rparr>)"

definition ec2DescribeTransitGatewayPeeringAttachment ::
  "EC2 option \<Rightarrow> string \<Rightarrow> (TransitGatewayPeeringAttachment option \<times> error option) io" where
  "ec2DescribeTransitGatewayPeeringAttachment conn transitGatewayAttachmentID =
     describeLoop DescribeTransitGatewayPeeringAttachmentsOp
       DescribeTransitGatewayPeeringAttachments
       TransitGatewayPeeringAttachment.TransitGatewayAttachmentId conn
       transitGatewayAttachmentID (NewInput\<lparr>Ids := [Some transitGatewayAttachmentID]\<rparr>)"

definition ec2DescribeTransitGatewayVpcAttachment ::
  "EC2 option \<Rightarrow> string \<Rightarrow> (TransitGatewayVpcAttachment option \<times> error option) io" where
  "ec2DescribeTransitGatewayVpcAttachment conn transitGatewayAttachmentID =
     describeLoop DescribeTransitGatewayVpcAttachmentsOp DescribeTransitGatewayVpcAttachments
       TransitGatewayVpcAttachment.TransitGatewayAttachmentId conn
       transitGatewayAttachmentID (NewInput\<lparr>Ids := [Some transitGatewayAttachmentID]\<rparr>)"

text \<open>
  The two route-table helpers guard against an empty route table identifier only, issue
  one call and return the first item of the answer.
\<close>

definition attachmentFilter :: "string \<Rightarrow> Filter option list" where
  "attachmentFilter transitGatewayAttachmentID =
     [Some \<lparr>Name = Some ''transit-gateway-attachment-id'',
             Values = [Some transitGatewayAttachmentID]\<rparr>]"

definition ec2DescribeTransitGatewayRouteTableAssociation ::
  "EC2 option \<Rightarrow> string \<Rightarrow> string \<Rightarrow>
   (TransitGatewayRouteTableAssociation option \<times> error option) io" where
  "ec2DescribeTransitGatewayRouteTableAssociation conn transitGatewayRouteTableID
       transitGatewayAttachmentID =
     (if transitGatewayRouteTableID = [] then io_return (None, None)
      else and_then
        (call GetTransitGatewayRouteTableAssociationsOp GetTransitGatewayRouteTableAssociations
           conn
           (NewInput\<lparr>Filters := attachmentFilter transitGatewayAttachmentID,
              InTransitGatewayRouteTableId := Some transitGatewayRouteTableID\<rparr>))
        (\<lambda>(output, err).
           if err \<noteq> None then io_return (None, err)
           else (case output of
                   None \<Rightarrow> io_return (None, None)
                 | Some out \<Rightarrow>
                     (case Items out of
                        [] \<Rightarrow> io_return (None, None)
                      | first # rest \<Rightarrow> io_return (first, None)))))"

definition ec2DescribeTransitGatewayRouteTablePropagation ::
  "EC2 option \<Rightarrow> string \<Rightarrow> string \<Rightarrow>
   (TransitGatewayRouteTablePropagation option \<times> error option) io" where
  "ec2DescribeTransitGatewayRouteTablePropagation conn transitGatewayRouteTableID
       transitGatewayAttachmentID =
     (if transitGatewayRouteTableID = [] then io_return (None, None)
      else and_then
        (call GetTransitGatewayRouteTablePropagationsOp GetTransitGatewayRouteTablePropagations
           conn
           (NewInput\<lparr>Filters := attachmentFilter transitGatewayAttachmentID,
              InTransitGatewayRouteTableId := Some transitGatewayRouteTableID\<rparr>))
        (\<lambda>(output, err).
           if err \<noteq> None then io_return (None, err)
           else (case output of
                   None \<Rightarrow> io_return (None, None)
                 | Some out \<Rightarrow>
                     (case Items out of
                        [] \<Rightarrow> io_return (None, None)
                      | first # rest \<Rightarrow> io_return (first, None)))))"

text \<open>The multicast helpers guard against a nil connection and an empty domain identifier.\<close>

definition ec2DescribeTransitGatewayMulticastDomain ::
  "EC2 option \<Rightarrow> string \<Rightarrow> (TransitGatewayMulticastDomain option \<times> error option) io" where
  "ec2DescribeTransitGatewayMulticastDomain conn domainID =
     (if conn = None \<or> domainID = [] then io_return (None, None)
      else and_then
        (call DescribeTransitGatewayMulticastDomainsOp DescribeTransitGatewayMulticastDomains
           conn
           (NewInput\<lparr>Filters := [Some \<lparr>Name = Some ''transit-gateway-multicast-domain-id'',
                                        Values = [Some domainID]\<rparr>],
              Ids := [Some domainID]\<rparr>))
        (\<lambda>(output, err).
           if err \<noteq> None then io_return (None, err)
           else (case output of
                   None \<Rightarrow> io_return (None, None)
                 | Some out \<Rightarrow>
                     (case Items out of
                        [] \<Rightarrow> io_return (None, None)
                      | first # rest \<Rightarrow> io_return (first, None)))))"

text \<open>
  \<^verbatim>\<open>ec2GetTransitGatewayMulticastDomainAssociations\<close> and
  \<^verbatim>\<open>ec2SearchTransitGatewayMulticastDomainGroups\<close> collect the items of every page.
  A slice is a list; the nil slice is the empty list (the loop never builds an empty
  slice that is not nil).
\<close>

partial_function (option) collectLoop ::
  "operation \<Rightarrow> (EC2 \<Rightarrow> history \<Rightarrow> Input \<Rightarrow> 'a Output option \<times> error option) \<Rightarrow>
   EC2 option \<Rightarrow> Input \<Rightarrow> 'a option list \<Rightarrow> history \<Rightarrow>
   (('a option list \<times> error option) go \<times> history) option" where
  "collectLoop op method conn input collected h =
     (case call op method conn input h of
        None \<Rightarrow> None
      | Some (Panic, h') \<Rightarrow> Some (Panic, h')
      | Some (Return (output, err), h') \<Rightarrow>
          if err \<noteq> None then Some (Return ([], err), h')
          else (case output of
                  None \<Rightarrow> Some (Return ([], None), h')
                | Some out \<Rightarrow>
                    if StringValue (OutNextToken out) = []
                    then Some (Return (collected @ Items out, None), h')
                    else collectLoop op method conn (input\<lparr>NextToken := OutNextToken out\<rparr>)
                           (collected @ Items out) h'))"

definition ec2GetTransitGatewayMulticastDomainAssociations ::
  "EC2 option \<Rightarrow> string \<Rightarrow>
   (TransitGatewayMulticastDomainAssociation option list \<times> error option) io" where
  "ec2GetTransitGatewayMulticastDomainAssociations conn domainID =
     (if conn = None \<or> domainID = [] then io_return ([], None)
      else collectLoop GetTransitGatewayMulticastDomainAssociationsOp
             GetTransitGatewayMulticastDomainAssociations conn
             (NewInput\<lparr>InTransitGatewayMulticastDomainId := Some domainID\<rparr>) [])"

definition ec2SearchTransitGatewayMulticastDomainGroups ::
  "EC2 option \<Rightarrow> string \<Rightarrow> Filter option list \<Rightarrow>
   (TransitGatewayMulticastGroup option list \<times> error option) io" where
  "ec2SearchTransitGatewayMulticastDomainGroups conn domainID filters =
     (if conn = None \<or> domainID = [] then io_return ([], None)
      else collectLoop SearchTransitGatewayMulticastGroupsOp
             SearchTransitGatewayMulticastGroups conn
             (NewInput\<lparr>Filters := filters,
                InTransitGatewayMulticastDomainId := Some domainID\<rparr>) [])"

definition ec2SearchTransitGatewayMulticastDomainGroupsTypeFilter ::
  "bool \<Rightarrow> Filter option list" where
  "ec2SearchTransitGatewayMulticastDomainGroupsTypeFilter member =
     (if member then [Some \<lparr>Name = Some ''is-group-member'', Values = [Some ''true'']\<rparr>]
      else [Some \<lparr>Name = Some ''is-group-source'', Values = [Some ''true'']\<rparr>])"

definition ec2SearchTransitGatewayMulticastDomainGroupIpFilters ::
  "bool \<Rightarrow> string \<Rightarrow> Filter option list" where
  "ec2SearchTransitGatewayMulticastDomainGroupIpFilters member groupIP =
     ec2SearchTransitGatewayMulticastDomainGroupsTypeFilter member
       @ [Some \<lparr>Name = Some ''group-ip-address'', Values = [Some groupIP]\<rparr>]"

section \<open>State labels\<close>

text \<open>
  Modelled from the spec: the state labels are string constants of the SDK's
  \<^verbatim>\<open>ec2\<close> package, which is not among the sources. The spec names the labels
  "associated", "disassociated" and "associating" and a "deleted" sentinel per resource
  kind; the others carry the SDK's spelling.
\<close>

definition TransitGatewayStateAvailable :: string where
  "TransitGatewayStateAvailable = ''available''"

definition TransitGatewayStateDeleting :: string where
  "TransitGatewayStateDeleting = ''deleting''"

definition TransitGatewayStateDeleted :: string where
  "TransitGatewayStateDeleted = ''deleted''"

definition TransitGatewayRouteTableStateAvailable :: string where
  "TransitGatewayRouteTableStateAvailable = ''available''"

definition TransitGatewayRouteTableStateDeleting :: string where
  "TransitGatewayRouteTableStateDeleting = ''deleting''"

definition TransitGatewayRouteTableStateDeleted :: string where
  "TransitGatewayRouteTableStateDeleted = ''deleted''"

definition TransitGatewayAssociationStateAssociating :: string where
  "TransitGatewayAssociationStateAssociating = ''associating''"

definition TransitGatewayAssociationStateAssociated :: string where
  "TransitGatewayAssociationStateAssociated = ''associated''"

definition TransitGatewayAssociationStateDisassociating :: string where
  "TransitGatewayAssociationStateDisassociating = ''disassociating''"

definition TransitGatewayAttachmentStateAvailable :: string where
  "TransitGatewayAttachmentStateAvailable = ''available''"

definition TransitGatewayAttachmentStateDeleting :: string where
  "TransitGatewayAttachmentStateDeleting = ''deleting''"

definition TransitGatewayAttachmentStateDeleted :: string where
  "TransitGatewayAttachmentStateDeleted = ''deleted''"

definition TransitGatewayAttachmentStateFailed :: string where
  "TransitGatewayAttachmentStateFailed = ''failed''"

definition TransitGatewayAttachmentStatePendingAcceptance :: string where
  "TransitGatewayAttachmentStatePendingAcceptance = ''pendingAcceptance''"

definition TransitGatewayAttachmentStateRejected :: string where
  "TransitGatewayAttachmentStateRejected = ''rejected''"

definition TransitGatewayAttachmentStatePending :: string where
  "TransitGatewayAttachmentStatePending = ''pending''"

definition TransitGatewayAttachmentStateFailing :: string where
  "TransitGatewayAttachmentStateFailing = ''failing''"

definition TransitGatewayMulticastDomainStateAvailable :: string where
  "TransitGatewayMulticastDomainStateAvailable = ''available''"

definition TransitGatewayMulticastDomainStateDeleting :: string where
  "TransitGatewayMulticastDomainStateDeleting = ''deleting''"

definition TransitGatewayMulticastDomainStateDeleted :: string where
  "TransitGatewayMulticastDomainStateDeleted = ''deleted''"

definition AssociationStatusCodeAssociating :: string where
  "AssociationStatusCodeAssociating = ''associating''"

definition AssociationStatusCodeAssociated :: string where
  "AssociationStatusCodeAssociated = ''associated''"

definition AssociationStatusCodeAssociationFailed :: string where
  "AssociationStatusCodeAssociationFailed = ''association-failed''"

definition AssociationStatusCodeDisassociating :: string where
  "AssociationStatusCodeDisassociating = ''disassociating''"

definition AssociationStatusCodeDisassociated :: string where
  "AssociationStatusCodeDisassociated = ''disassociated''"

section \<open>Refresh functions\<close>

text \<open>
  A refresh function returns the triple (payload, state label, error) of
  \<^verbatim>\<open>resource.StateRefreshFunc\<close>. The payload is an \<^verbatim>\<open>interface{}\<close>: nil, or one
  of the values the refresh functions of this file put into it.
\<close>

datatype payload =
    TransitGatewayPayload TransitGateway
  | RouteTablePayload TransitGatewayRouteTable
  | RouteTableAssociationPayload TransitGatewayRouteTableAssociation
  | PeeringAttachmentPayload TransitGatewayPeeringAttachment
  | VpcAttachmentPayload TransitGatewayVpcAttachment
  | MulticastDomainPayload TransitGatewayMulticastDomain
  | AssociationsPayload "TransitGatewayMulticastDomainAssociation option list"

type_synonym StateRefreshFunc = "(payload option \<times> string \<times> error option) io"

definition ec2TransitGatewayRefreshFunc :: "EC2 option \<Rightarrow> string \<Rightarrow> StateRefreshFunc" where
  "ec2TransitGatewayRefreshFunc conn transitGatewayID =
     and_then (ec2DescribeTransitGateway conn transitGatewayID)
       (\<lambda>(transitGateway, err).
          if isAWSErr err ''InvalidTransitGatewayID.NotFound'' []
          then io_return (None, TransitGatewayStateDeleted, None)
          else (case err of
                  Some e \<Rightarrow>
                    io_return (None, [],
                      Some (ErrorString (''error reading EC2 Transit Gateway (''
                        @ transitGatewayID @ ''): '' @ Error e)))
                | None \<Rightarrow>
                    (case transitGateway of
                       None \<Rightarrow> io_return (None, TransitGatewayStateDeleted, None)
                     | Some tgw \<Rightarrow>
                         io_return (Some (TransitGatewayPayload tgw),
                           StringValue (TransitGateway.State tgw), None))))"

definition ec2TransitGatewayRouteTableRefreshFunc ::
  "EC2 option \<Rightarrow> string \<Rightarrow> StateRefreshFunc" where
  "ec2TransitGatewayRouteTableRefreshFunc conn transitGatewayRouteTableID =
     and_then (ec2DescribeTransitGatewayRouteTable conn transitGatewayRouteTableID)
       (\<lambda>(transitGatewayRouteTable, err).
          if isAWSErr err ''InvalidRouteTableID.NotFound'' []
          then io_return (None, TransitGatewayRouteTableStateDeleted, None)
          else (case err of
                  Some e \<Rightarrow>
                    io_return (None, [],
                      Some (ErrorString (''error reading EC2 Transit Gateway Route Table (''
                        @ transitGatewayRouteTableID @ ''): '' @ Error e)))
                | None \<Rightarrow>
                    (case transitGatewayRouteTable of
                       None \<Rightarrow> io_return (None, TransitGatewayRouteTableStateDeleted, None)
                     | Some rtb \<Rightarrow>
                         io_return (Some (RouteTablePayload rtb),
                           StringValue (TransitGatewayRouteTable.State rtb), None))))"

definition ec2TransitGatewayRouteTableAssociationRefreshFunc ::
  "EC2 option \<Rightarrow> string \<Rightarrow> string \<Rightarrow> StateRefreshFunc" where
  "ec2TransitGatewayRouteTableAssociationRefreshFunc conn transitGatewayRouteTableID
       transitGatewayAttachmentID =
     and_then
       (ec2DescribeTransitGatewayRouteTableAssociation conn transitGatewayRouteTableID
          transitGatewayAttachmentID)
       (\<lambda>(transitGatewayAssociation, err).
          if isAWSErr err ''InvalidRouteTableID.NotFound'' []
          then io_return (None, TransitGatewayRouteTableStateDeleted, None)
          else (case err of
                  Some e \<Rightarrow>
                    io_return (None, [],
                      Some (ErrorString (''error reading EC2 Transit Gateway Route Table (''
                        @ transitGatewayRouteTableID @ '') Association for (''
                        @ transitGatewayAttachmentID @ ''): '' @ Error e)))
                | None \<Rightarrow>
                    (case transitGatewayAssociation of
                       None \<Rightarrow> io_return (None, TransitGatewayRouteTableStateDeleted, None)
                     | Some assoc \<Rightarrow>
                         io_return (Some (RouteTableAssociationPayload assoc),
                           StringValue (TransitGatewayRouteTableAssociation.State assoc),
                           None))))"

definition ec2TransitGatewayPeeringAttachmentRefreshFunc ::
  "EC2 option \<Rightarrow> string \<Rightarrow> StateRefreshFunc" where
  "ec2TransitGatewayPeeringAttachmentRefreshFunc conn transitGatewayAttachmentID =
     and_then (ec2DescribeTransitGatewayPeeringAttachment conn transitGatewayAttachmentID)
       (\<lambda>(transitGatewayPeeringAttachment, err).
          if isAWSErr err ''InvalidTransitGatewayAttachmentID.NotFound'' []
          then io_return (None, TransitGatewayAttachmentStateDeleted, None)
          else (case err of
                  Some e \<Rightarrow>
                    io_return (None, [],
                      Some (ErrorString (''error reading EC2 Transit Gateway Peering Attachment (''
                        @ transitGatewayAttachmentID @ ''): '' @ Error e)))
                | None \<Rightarrow>
                    (case transitGatewayPeeringAttachment of
                       None \<Rightarrow> io_return (None, TransitGatewayAttachmentStateDeleted, None)
                     | Some att \<Rightarrow>
                         (case (StringValue (TransitGatewayPeeringAttachment.State att)
                                  = TransitGatewayAttachmentStateFailed, Status att) of
                            (True, Some status) \<Rightarrow>
                              io_return (Some (PeeringAttachmentPayload att),
                                StringValue (TransitGatewayPeeringAttachment.State att),
                                Some (ErrorString (StringValue (Code status) @ '': ''
                                  @ StringValue (Message status))))
                          | _ \<Rightarrow>
                              io_return (Some (PeeringAttachmentPayload att),
                                StringValue (TransitGatewayPeeringAttachment.State att),
                                None)))))"

definition ec2TransitGatewayVpcAttachmentRefreshFunc ::
  "EC2 option \<Rightarrow> string \<Rightarrow> StateRefreshFunc" where
  "ec2TransitGatewayVpcAttachmentRefreshFunc conn transitGatewayAttachmentID =
     and_then (ec2DescribeTransitGatewayVpcAttachment conn transitGatewayAttachmentID)
       (\<lambda>(transitGatewayVpcAttachment, err).
          if isAWSErr err ''InvalidTransitGatewayAttachmentID.NotFound'' []
          then io_return (None, TransitGatewayAttachmentStateDeleted, None)
          else (case err of
                  Some e \<Rightarrow>
                    io_return (None, [],
                      Some (ErrorString (''error reading EC2 Transit Gateway VPC Attachment (''
                        @ transitGatewayAttachmentID @ ''): '' @ Error e)))
                | None \<Rightarrow>
                    (case transitGatewayVpcAttachment of
                       None \<Rightarrow> io_return (None, TransitGatewayAttachmentStateDeleted, None)
                     | Some att \<Rightarrow>
                         io_return (Some (VpcAttachmentPayload att),
                           StringValue (TransitGatewayVpcAttachment.State att), None))))"

definition ec2TransitGatewayMulticastDomainRefreshFunc ::
  "EC2 option \<Rightarrow> string \<Rightarrow> StateRefreshFunc" where
  "ec2TransitGatewayMulticastDomainRefreshFunc conn domainID =
     and_then (ec2DescribeTransitGatewayMulticastDomain conn domainID)
       (\<lambda>(multicastDomain, err).
          if isAWSErr err ''InvalidTransitGatewayMulticastDomainId.NotFound'' []
          then io_return (None, TransitGatewayMulticastDomainStateDeleted, None)
          else (case err of
                  Some e \<Rightarrow>
                    io_return (None, [],
                      Some (ErrorString (''error reading EC2 Transit Gateway Multicast Domain (''
                        @ domainID @ ''): '' @ Error e)))
                | None \<Rightarrow>
                    (case multicastDomain of
                       None \<Rightarrow> io_return (None, TransitGatewayMulticastDomainStateDeleted, None)
                     | Some domain \<Rightarrow>
                         io_return (Some (MulticastDomainPayload domain),
                           StringValue (TransitGatewayMulticastDomain.State domain), None))))"

text \<open>
  What the claims call a resource reported absent: the describe helper ends with the
  not-found error code of the resource kind, or with a nil result and a nil error.
\<close>

definition reports_absent :: "string \<Rightarrow> 'a option \<Rightarrow> error option \<Rightarrow> bool" where
  "reports_absent code result err \<longleftrightarrow> isAWSErr err code [] \<or> (result = None \<and> err = None)"

section \<open>The multicast domain association refresh function\<close>

text \<open>
  \<^verbatim>\<open>subnetStates\<close> is a Go map from subnet identifier to state label. The body of
  \<^verbatim>\<open>ec2TransitGatewayMulticastDomainAssociationRefreshFunc\<close> runs four loops over it,
  each a function here, in the order of the source.

  First loop: every tracked subnet identifier gets the empty label.
\<close>

fun subnetStates_init ::
  "(string \<rightharpoonup> string) \<Rightarrow> string option list \<Rightarrow> (string \<rightharpoonup> string)" where
  "subnetStates_init subnetStates [] = subnetStates"
| "subnetStates_init subnetStates (subnetID # subnetIDs) =
     subnetStates_init (subnetStates(StringValue subnetID \<mapsto> [])) subnetIDs"

text \<open>
  Second loop, over the associations returned by the poll: a nil association is skipped,
  a nil \<^verbatim>\<open>Subnet\<close> is dereferenced (a panic), and the state of a subnet that is a
  key of the map is stored.
\<close>

fun subnetStates_observe ::
  "(string \<rightharpoonup> string) \<Rightarrow> TransitGatewayMulticastDomainAssociation option list \<Rightarrow>
   (string \<rightharpoonup> string) go" where
  "subnetStates_observe subnetStates [] = Return subnetStates"
| "subnetStates_observe subnetStates (association # associations) =
     (case association of
        None \<Rightarrow> subnetStates_observe subnetStates associations
      | Some a \<Rightarrow>
          (case Subnet a of
             None \<Rightarrow> Panic
           | Some subnet \<Rightarrow>
               if subnetStates (StringValue (SubnetId subnet)) \<noteq> None
               then subnetStates_observe
                      (subnetStates(StringValue (SubnetId subnet) \<mapsto>
                         StringValue (SubnetAssociation.State subnet)))
                      associations
               else subnetStates_observe subnetStates associations))"

text \<open>
  Third loop, a \<^verbatim>\<open>range\<close> over the map: a key whose label is still empty is marked
  disassociated. Go leaves the iteration order of a map open, so the order in which the
  keys are visited is an argument: a list of the keys of the map.
\<close>

fun subnetStates_mark :: "string list \<Rightarrow> (string \<rightharpoonup> string) \<Rightarrow> (string \<rightharpoonup> string)" where
  "subnetStates_mark [] subnetStates = subnetStates"
| "subnetStates_mark (subnetID # order) subnetStates =
     (case subnetStates subnetID of
        None \<Rightarrow> subnetStates_mark order subnetStates
      | Some subnetState \<Rightarrow>
          if subnetState = []
          then subnetStates_mark order
                 (subnetStates(subnetID \<mapsto> AssociationStatusCodeDisassociated))
          else subnetStates_mark order subnetStates)"

text \<open>
  Fourth loop, a second \<^verbatim>\<open>range\<close> over the map, again in a given order. The first
  label becomes the compound state. A Go \<^verbatim>\<open>switch\<close> does not fall through: the cases
  \<^verbatim>\<open>AssociationFailed\<close>, \<^verbatim>\<open>Disassociating\<close> and \<^verbatim>\<open>Disassociated\<close> have empty
  bodies, \<^verbatim>\<open>Associating\<close> returns the label and \<^verbatim>\<open>Associated\<close> compares with the
  compound state.
\<close>

fun compoundState_loop ::
  "TransitGatewayMulticastDomainAssociation option list \<Rightarrow> (string \<rightharpoonup> string) \<Rightarrow>
   string list \<Rightarrow> string \<Rightarrow> payload option \<times> string \<times> error option" where
  "compoundState_loop associations subnetStates [] compoundState =
     (Some (AssociationsPayload associations), compoundState, None)"
| "compoundState_loop associations subnetStates (subnetID # order) compoundState =
     (case subnetStates subnetID of
        None \<Rightarrow> compoundState_loop associations subnetStates order compoundState
      | Some state \<Rightarrow>
          if compoundState = []
          then compoundState_loop associations subnetStates order state
          else if state = AssociationStatusCodeAssociationFailed
          then compoundState_loop associations subnetStates order compoundState
          else if state = AssociationStatusCodeDisassociating
          then compoundState_loop associations subnetStates order compoundState
          else if state = AssociationStatusCodeAssociating
          then (Some (AssociationsPayload associations), state, None)
          else if state = AssociationStatusCodeDisassociated
          then compoundState_loop associations subnetStates order compoundState
          else if state = AssociationStatusCodeAssociated
          then (if compoundState \<noteq> state
                then (None, [], Some (ErrorString ''received conflicting association states''))
                else compoundState_loop associations subnetStates order compoundState)
          else (None, [], Some (ErrorString (''unhandled association state: '' @ state))))"

text \<open>
  The map as it stands when the fourth loop starts: the first three loops, with the order
  \<open>order1\<close> in which the first \<^verbatim>\<open>range\<close> visits the keys.
\<close>

definition subnetStates_of_poll ::
  "string option list \<Rightarrow> TransitGatewayMulticastDomainAssociation option list \<Rightarrow>
   string list \<Rightarrow> (string \<rightharpoonup> string) go" where
  "subnetStates_of_poll subnetIDs associations order1 =
     (case subnetStates_observe (subnetStates_init Map.empty subnetIDs) associations of
        Panic \<Rightarrow> Panic
      | Return subnetStates \<Rightarrow> Return (subnetStates_mark order1 subnetStates))"

text \<open>
  The refresh function. \<open>order1\<close> and \<open>order2\<close> are the orders in which the two
  \<^verbatim>\<open>range\<close> loops visit the keys of the map.
\<close>

definition ec2TransitGatewayMulticastDomainAssociationRefreshFunc ::
  "EC2 option \<Rightarrow> string \<Rightarrow> string option list \<Rightarrow> string list \<Rightarrow> string list \<Rightarrow>
   StateRefreshFunc" where
  "ec2TransitGatewayMulticastDomainAssociationRefreshFunc conn domainID subnetIDs
       order1 order2 =
     and_then (ec2GetTransitGatewayMulticastDomainAssociations conn domainID)
       (\<lambda>(associations, err).
          case err of
            Some e \<Rightarrow>
              io_return (None, [],
                Some (ErrorString
                  (''error reading EC2 Transit Gateway Multicast Domain associations: ''
                     @ Error e)))
          | None \<Rightarrow>
              (case subnetStates_of_poll subnetIDs associations order1 of
                 Panic \<Rightarrow> io_panic
               | Return subnetStates \<Rightarrow>
                   io_return (compoundState_loop associations subnetStates order2 [])))"

text \<open>
  An order is an iteration order of a map when it lists every key of the map once.
\<close>

definition iteration_order :: "string list \<Rightarrow> (string \<rightharpoonup> string) \<Rightarrow> bool" where
  "iteration_order order subnetStates \<longleftrightarrow> distinct order \<and> set order = dom subnetStates"

text \<open>
  A subnet is listed by a poll when a non-nil association of the returned list carries
  its identifier.
\<close>

fun listed :: "string \<Rightarrow> TransitGatewayMulticastDomainAssociation option list \<Rightarrow> bool" where
  "listed subnetID [] = False"
| "listed subnetID (association # associations) =
     ((case association of
         None \<Rightarrow> False
       | Some a \<Rightarrow>
           (case Subnet a of
              None \<Rightarrow> False
            | Some subnet \<Rightarrow> StringValue (SubnetId subnet) = subnetID))
      \<or> listed subnetID associations)"

text \<open>
  The keys of an order carry \<open>label\<close> until one carries \<open>state\<close>: the second
  \<^verbatim>\<open>range\<close> meets \<open>state\<close> after labels that all agree.
\<close>

fun agree_until :: "(string \<rightharpoonup> string) \<Rightarrow> string \<Rightarrow> string \<Rightarrow> string list \<Rightarrow> bool" where
  "agree_until subnetStates label state [] = False"
| "agree_until subnetStates label state (subnetID # order) =
     (subnetStates subnetID = Some state
      \<or> (subnetStates subnetID = Some label \<and> agree_until subnetStates label state order))"

text \<open>The labels the claims call in-progress, terminal and recognized.\<close>

definition in_progress :: "string \<Rightarrow> bool" where
  "in_progress state \<longleftrightarrow>
     state = AssociationStatusCodeAssociating \<or> state = AssociationStatusCodeDisassociating"

definition terminal :: "string \<Rightarrow> bool" where
  "terminal state \<longleftrightarrow>
     state = AssociationStatusCodeAssociated \<or> state = AssociationStatusCodeDisassociated"

definition recognized :: "string \<Rightarrow> bool" where
  "recognized state \<longleftrightarrow>
     state = AssociationStatusCodeAssociated \<or> state = AssociationStatusCodeDisassociated
     \<or> state = AssociationStatusCodeAssociating \<or> state = AssociationStatusCodeDisassociating
     \<or> state = AssociationStatusCodeAssociationFailed"

section \<open>State waits\<close>

text \<open>
  \<^verbatim>\<open>resource.StateChangeConf\<close> with the fields the file sets; a field left out in the
  source has Go's zero value. Durations are counted in seconds.
\<close>

definition Minute :: nat where
  "Minute = 60"

record StateChangeConf =
  Pending :: "string list"
  Target :: "string list"
  Refresh :: StateRefreshFunc
  Timeout :: nat
  NotFoundChecks :: nat

text \<open>
  \<^verbatim>\<open>WaitForState\<close> belongs to the plugin SDK and is not among the sources, so the wait
  functions take it as an argument: a function from the configuration and the history to
  the returned pair (result, error), a panic, or no return. Starting a wait is recorded
  in the history with its pending and target labels.
\<close>

type_synonym engine =
  "StateChangeConf \<Rightarrow> history \<Rightarrow> (payload option \<times> error option) go option"

definition WaitForState :: "engine \<Rightarrow> StateChangeConf \<Rightarrow> (payload option \<times> error option) io" where
  "WaitForState engine stateConf =
     (\<lambda>h. case engine stateConf
                 (h @ [WaitForStateCalled (Pending stateConf) (Target stateConf)]) of
        None \<Rightarrow> None
      | Some outcome \<Rightarrow>
          Some (outcome, h @ [WaitForStateCalled (Pending stateConf) (Target stateConf)]))"

text \<open>
  Modelled from the spec: the Convergence Engine (section 4.2), which is what the plugin
  SDK's \<^verbatim>\<open>WaitForState\<close> is in the spec, is not among the sources. Every tick calls the
  poller and moves the state machine:
  \<^item> a non-nil error of the poll is fatal and is propagated at once, with no further poll
    (4.2, and 7: a request error is surfaced immediately);
  \<^item> when the configuration tolerates not-found (one check or more) and the resource is
    absent (a nil payload), the wait has succeeded;
  \<^item> a label of the target set: succeeded, with the payload;
  \<^item> a label of the pending set: the engine stays polling;
  \<^item> any other label: failed, with an unexpected-state error.
  The first poll is made at once; one more poll is made per second while the label is
  pending, and when the timeout is over the wait ends with a timeout error.
\<close>

datatype engine_state = Polling | Succeeded "payload option" | Failed error

definition ConvergenceEngine_transition ::
  "StateChangeConf \<Rightarrow> payload option \<times> string \<times> error option \<Rightarrow> engine_state" where
  "ConvergenceEngine_transition stateConf observed =
     (case observed of
        (result, label, err) \<Rightarrow>
          (case err of
             Some e \<Rightarrow> Failed e
           | None \<Rightarrow>
               if result = None \<and> 1 \<le> NotFoundChecks stateConf then Succeeded None
               else if label \<in> set (Target stateConf) then Succeeded result
               else if label \<in> set (Pending stateConf) then Polling
               else Failed (UnexpectedStateError label)))"

text \<open>
  The polling loop, with the number of polls that still fit into the timeout after this
  one. It returns the outcome of the wait and the history after its last poll.
\<close>

fun ConvergenceEngine_poll ::
  "nat \<Rightarrow> StateChangeConf \<Rightarrow> (payload option \<times> error option) io" where
  "ConvergenceEngine_poll 0 stateConf h =
     (case Refresh stateConf h of
        None \<Rightarrow> None
      | Some (Panic, h') \<Rightarrow> Some (Panic, h')
      | Some (Return observed, h') \<Rightarrow>
          (case ConvergenceEngine_transition stateConf observed of
             Failed e \<Rightarrow> Some (Return (None, Some e), h')
           | Succeeded result \<Rightarrow> Some (Return (result, None), h')
           | Polling \<Rightarrow> Some (Return (None, Some (TimeoutError (fst (snd observed)))), h')))"
| "ConvergenceEngine_poll (Suc n) stateConf h =
     (case Refresh stateConf h of
        None \<Rightarrow> None
      | Some (Panic, h') \<Rightarrow> Some (Panic, h')
      | Some (Return observed, h') \<Rightarrow>
          (case ConvergenceEngine_transition stateConf observed of
             Failed e \<Rightarrow> Some (Return (None, Some e), h')
           | Succeeded result \<Rightarrow> Some (Return (result, None), h')
           | Polling \<Rightarrow> ConvergenceEngine_poll n stateConf h'))"

text \<open>
  As an engine the loop starts with the polls of the configured timeout and returns its
  outcome; the calls of its polls stay its own.
\<close>

definition ConvergenceEngine :: engine where
  "ConvergenceEngine stateConf h =
     (case ConvergenceEngine_poll (Timeout stateConf - 1) stateConf h of
        None \<Rightarrow> None
      | Some (outcome, h') \<Rightarrow> Some outcome)"

text \<open>
  Each wait function builds its configuration (the local \<^verbatim>\<open>stateConf\<close>, a definition
  of its own here), runs the wait and maps the error.
\<close>

definition waitForEc2TransitGatewayDeletion_stateConf ::
  "EC2 option \<Rightarrow> string \<Rightarrow> StateChangeConf" where
  "waitForEc2TransitGatewayDeletion_stateConf conn transitGatewayID =
     \<lparr>Pending = [TransitGatewayStateAvailable, TransitGatewayStateDeleting],
      Target = [TransitGatewayStateDeleted],
      Refresh = ec2TransitGatewayRefreshFunc conn transitGatewayID,
      Timeout = 10 * Minute,
      NotFoundChecks = 1\<rparr>"

definition waitForEc2TransitGatewayDeletion ::
  "engine \<Rightarrow> EC2 option \<Rightarrow> string \<Rightarrow> error option io" where
  "waitForEc2TransitGatewayDeletion engine conn transitGatewayID =
     and_then
       (WaitForState engine (waitForEc2TransitGatewayDeletion_stateConf conn transitGatewayID))
       (\<lambda>(result, err). if isResourceNotFoundError err then io_return None else io_return err)"

definition waitForEc2TransitGatewayRouteTableDeletion_stateConf ::
  "EC2 option \<Rightarrow> string \<Rightarrow> StateChangeConf" where
  "waitForEc2TransitGatewayRouteTableDeletion_stateConf conn transitGatewayRouteTableID =
     \<lparr>Pending = [TransitGatewayRouteTableStateAvailable, TransitGatewayRouteTableStateDeleting],
      Target = [TransitGatewayRouteTableStateDeleted],
      Refresh = ec2TransitGatewayRouteTableRefreshFunc conn transitGatewayRouteTableID,
      Timeout = 10 * Minute,
      NotFoundChecks = 1\<rparr>"

definition waitForEc2TransitGatewayRouteTableDeletion ::
  "engine \<Rightarrow> EC2 option \<Rightarrow> string \<Rightarrow> error option io" where
  "waitForEc2TransitGatewayRouteTableDeletion engine conn transitGatewayRouteTableID =
     and_then
       (WaitForState engine
          (waitForEc2TransitGatewayRouteTableDeletion_stateConf conn transitGatewayRouteTableID))
       (\<lambda>(result, err). if isResourceNotFoundError err then io_return None else io_return err)"

definition waitForEc2TransitGatewayRouteTableAssociationCreation_stateConf ::
  "EC2 option \<Rightarrow> string \<Rightarrow> string \<Rightarrow> StateChangeConf" where
  "waitForEc2TransitGatewayRouteTableAssociationCreation_stateConf conn
       transitGatewayRouteTableID transitGatewayAttachmentID =
     \<lparr>Pending = [TransitGatewayAssociationStateAssociating],
      Target = [TransitGatewayAssociationStateAssociated],
      Refresh = ec2TransitGatewayRouteTableAssociationRefreshFunc conn
                  transitGatewayRouteTableID transitGatewayAttachmentID,
      Timeout = 5 * Minute,
      NotFoundChecks = 0\<rparr>"

definition waitForEc2TransitGatewayRouteTableAssociationCreation ::
  "engine \<Rightarrow> EC2 option \<Rightarrow> string \<Rightarrow> string \<Rightarrow> error option io" where
  "waitForEc2TransitGatewayRouteTableAssociationCreation engine conn
       transitGatewayRouteTableID transitGatewayAttachmentID =
     and_then
       (WaitForState engine
          (waitForEc2TransitGatewayRouteTableAssociationCreation_stateConf conn
             transitGatewayRouteTableID transitGatewayAttachmentID))
       (\<lambda>(result, err). io_return err)"

definition waitForEc2TransitGatewayRouteTableAssociationDeletion_stateConf ::
  "EC2 option \<Rightarrow> string \<Rightarrow> string \<Rightarrow> StateChangeConf" where
  "waitForEc2TransitGatewayRouteTableAssociationDeletion_stateConf conn
       transitGatewayRouteTableID transitGatewayAttachmentID =
     \<lparr>Pending = [TransitGatewayAssociationStateAssociated,
                 TransitGatewayAssociationStateDisassociating],
      Target = [[]],
      Refresh = ec2TransitGatewayRouteTableAssociationRefreshFunc conn
                  transitGatewayRouteTableID transitGatewayAttachmentID,
      Timeout = 5 * Minute,
      NotFoundChecks = 1\<rparr>"

definition waitForEc2TransitGatewayRouteTableAssociationDeletion ::
  "engine \<Rightarrow> EC2 option \<Rightarrow> string \<Rightarrow> string \<Rightarrow> error option io" where
  "waitForEc2TransitGatewayRouteTableAssociationDeletion engine conn
       transitGatewayRouteTableID transitGatewayAttachmentID =
     and_then
       (WaitForState engine
          (waitForEc2TransitGatewayRouteTableAssociationDeletion_stateConf conn
             transitGatewayRouteTableID transitGatewayAttachmentID))
       (\<lambda>(result, err). if isResourceNotFoundError err then io_return None else io_return err)"

definition waitForEc2TransitGatewayPeeringAttachmentAcceptance_stateConf ::
  "EC2 option \<Rightarrow> string \<Rightarrow> StateChangeConf" where
  "waitForEc2TransitGatewayPeeringAttachmentAcceptance_stateConf conn
       transitGatewayAttachmentID =
     \<lparr>Pending = [TransitGatewayAttachmentStatePending,
                 TransitGatewayAttachmentStatePendingAcceptance],
      Target = [TransitGatewayAttachmentStateAvailable],
      Refresh = ec2TransitGatewayPeeringAttachmentRefreshFunc conn transitGatewayAttachmentID,
      Timeout = 10 * Minute,
      NotFoundChecks = 0\<rparr>"

definition waitForEc2TransitGatewayPeeringAttachmentAcceptance ::
  "engine \<Rightarrow> EC2 option \<Rightarrow> string \<Rightarrow> error option io" where
  "waitForEc2TransitGatewayPeeringAttachmentAcceptance engine conn transitGatewayAttachmentID =
     and_then
       (WaitForState engine
          (waitForEc2TransitGatewayPeeringAttachmentAcceptance_stateConf conn
             transitGatewayAttachmentID))
       (\<lambda>(result, err). io_return err)"

definition waitForEc2TransitGatewayPeeringAttachmentCreation_stateConf ::
  "EC2 option \<Rightarrow> string \<Rightarrow> StateChangeConf" where
  "waitForEc2TransitGatewayPeeringAttachmentCreation_stateConf conn transitGatewayAttachmentID =
     \<lparr>Pending = [TransitGatewayAttachmentStateFailing, TransitGatewayAttachmentStatePending,
                 ''initiatingRequest''],
      Target = [TransitGatewayAttachmentStateAvailable,
                TransitGatewayAttachmentStatePendingAcceptance],
      Refresh = ec2TransitGatewayPeeringAttachmentRefreshFunc conn transitGatewayAttachmentID,
      Timeout = 10 * Minute,
      NotFoundChecks = 0\<rparr>"

definition waitForEc2TransitGatewayPeeringAttachmentCreation ::
  "engine \<Rightarrow> EC2 option \<Rightarrow> string \<Rightarrow> error option io" where
  "waitForEc2TransitGatewayPeeringAttachmentCreation engine conn transitGatewayAttachmentID =
     and_then
       (WaitForState engine
          (waitForEc2TransitGatewayPeeringAttachmentCreation_stateConf conn
             transitGatewayAttachmentID))
       (\<lambda>(result, err). io_return err)"

definition waitForEc2TransitGatewayPeeringAttachmentDeletion_stateConf ::
  "EC2 option \<Rightarrow> string \<Rightarrow> StateChangeConf" where
  "waitForEc2TransitGatewayPeeringAttachmentDeletion_stateConf conn transitGatewayAttachmentID =
     \<lparr>Pending = [TransitGatewayAttachmentStateAvailable, TransitGatewayAttachmentStateDeleting,
                 TransitGatewayAttachmentStatePendingAcceptance,
                 TransitGatewayAttachmentStateRejected],
      Target = [TransitGatewayAttachmentStateDeleted],
      Refresh = ec2TransitGatewayPeeringAttachmentRefreshFunc conn transitGatewayAttachmentID,
      Timeout = 10 * Minute,
      NotFoundChecks = 0\<rparr>"

definition waitForEc2TransitGatewayPeeringAttachmentDeletion ::
  "engine \<Rightarrow> EC2 option \<Rightarrow> string \<Rightarrow> error option io" where
  "waitForEc2TransitGatewayPeeringAttachmentDeletion engine conn transitGatewayAttachmentID =
     and_then
       (WaitForState engine
          (waitForEc2TransitGatewayPeeringAttachmentDeletion_stateConf conn
             transitGatewayAttachmentID))
       (\<lambda>(result, err). if isResourceNotFoundError err then io_return None else io_return err)"

definition waitForEc2TransitGatewayVpcAttachmentDeletion_stateConf ::
  "EC2 option \<Rightarrow> string \<Rightarrow> StateChangeConf" where
  "waitForEc2TransitGatewayVpcAttachmentDeletion_stateConf conn transitGatewayAttachmentID =
     \<lparr>Pending = [TransitGatewayAttachmentStateAvailable, TransitGatewayAttachmentStateDeleting],
      Target = [TransitGatewayAttachmentStateDeleted],
      Refresh = ec2TransitGatewayVpcAttachmentRefreshFunc conn transitGatewayAttachmentID,
      Timeout = 10 * Minute,
      NotFoundChecks = 1\<rparr>"

definition waitForEc2TransitGatewayVpcAttachmentDeletion ::
  "engine \<Rightarrow> EC2 option \<Rightarrow> string \<Rightarrow> error option io" where
  "waitForEc2TransitGatewayVpcAttachmentDeletion engine conn transitGatewayAttachmentID =
     and_then
       (WaitForState engine
          (waitForEc2TransitGatewayVpcAttachmentDeletion_stateConf conn
             transitGatewayAttachmentID))
       (\<lambda>(result, err). if isResourceNotFoundError err then io_return None else io_return err)"

definition waitForEc2TransitGatewayMulticastDomainDeletion_stateConf ::
  "EC2 option \<Rightarrow> string \<Rightarrow> StateChangeConf" where
  "waitForEc2TransitGatewayMulticastDomainDeletion_stateConf conn domainID =
     \<lparr>Pending = [TransitGatewayMulticastDomainStateAvailable,
                 TransitGatewayMulticastDomainStateDeleting],
      Target = [TransitGatewayMulticastDomainStateDeleted],
      Refresh = ec2TransitGatewayMulticastDomainRefreshFunc conn domainID,
      Timeout = 10 * Minute,
      NotFoundChecks = 1\<rparr>"

definition waitForEc2TransitGatewayMulticastDomainDeletion ::
  "engine \<Rightarrow> EC2 option \<Rightarrow> string \<Rightarrow> error option io" where
  "waitForEc2TransitGatewayMulticastDomainDeletion engine conn domainID =
     and_then
       (WaitForState engine
          (waitForEc2TransitGatewayMulticastDomainDeletion_stateConf conn domainID))
       (\<lambda>(result, err). if isResourceNotFoundError err then io_return None else io_return err)"

text \<open>
  The refresh function of the disassociation wait ranges over its map at every poll, each
  time in an order of Go's choosing: \<open>orders\<close> gives the two orders of the poll made at
  a history.
\<close>

definition waitForEc2TransitGatewayMulticastDomainDisassociation_stateConf ::
  "(history \<Rightarrow> string list \<times> string list) \<Rightarrow> EC2 option \<Rightarrow> string \<Rightarrow> string option list \<Rightarrow>
   StateChangeConf" where
  "waitForEc2TransitGatewayMulticastDomainDisassociation_stateConf orders conn domainID
       subnetIDs =
     \<lparr>Pending = [AssociationStatusCodeAssociated, AssociationStatusCodeDisassociating],
      Target = [AssociationStatusCodeDisassociated],
      Refresh = (\<lambda>h. ec2TransitGatewayMulticastDomainAssociationRefreshFunc conn domainID
                        subnetIDs (fst (orders h)) (snd (orders h)) h),
      Timeout = 10 * Minute,
      NotFoundChecks = 1\<rparr>"

definition waitForEc2TransitGatewayMulticastDomainDisassociation ::
  "engine \<Rightarrow> (history \<Rightarrow> string list \<times> string list) \<Rightarrow> EC2 option \<Rightarrow> string \<Rightarrow>
   string option list \<Rightarrow> error option io" where
  "waitForEc2TransitGatewayMulticastDomainDisassociation engine orders conn domainID
       subnetIDs =
     and_then
       (WaitForState engine
          (waitForEc2TransitGatewayMulticastDomainDisassociation_stateConf orders conn
             domainID subnetIDs))
       (\<lambda>(result, err). if isResourceNotFoundError err then io_return None else io_return err)"

section \<open>Route table association and propagation updates\<close>

definition routeTableInput :: "string \<Rightarrow> string \<Rightarrow> Input" where
  "routeTableInput transitGatewayRouteTableID transitGatewayAttachmentID =
     NewInput\<lparr>InTransitGatewayAttachmentId := Some transitGatewayAttachmentID,
       InTransitGatewayRouteTableId := Some transitGatewayRouteTableID\<rparr>"

definition ec2TransitGatewayRouteTableAssociationUpdate ::
  "engine \<Rightarrow> EC2 option \<Rightarrow> string \<Rightarrow> string \<Rightarrow> bool \<Rightarrow> error option io" where
  "ec2TransitGatewayRouteTableAssociationUpdate engine conn transitGatewayRouteTableID
       transitGatewayAttachmentID associate =
     and_then
       (ec2DescribeTransitGatewayRouteTableAssociation conn transitGatewayRouteTableID
          transitGatewayAttachmentID)
       (\<lambda>(transitGatewayAssociation, err).
          case err of
            Some e \<Rightarrow>
              io_return (Some (ErrorString
                (''error determining EC2 Transit Gateway Attachment Route Table (''
                   @ transitGatewayRouteTableID @ '') association (''
                   @ transitGatewayAttachmentID @ ''): '' @ Error e)))
          | None \<Rightarrow>
              if associate \<and> transitGatewayAssociation = None
              then and_then
                (call AssociateTransitGatewayRouteTableOp AssociateTransitGatewayRouteTable conn
                   (routeTableInput transitGatewayRouteTableID transitGatewayAttachmentID))
                (\<lambda>err. case err of
                   Some e \<Rightarrow>
                     io_return (Some (ErrorString
                       (''error associating EC2 Transit Gateway Route Table (''
                          @ transitGatewayRouteTableID @ '') association (''
                          @ transitGatewayAttachmentID @ ''): '' @ Error e)))
                 | None \<Rightarrow>
                     and_then
                       (waitForEc2TransitGatewayRouteTableAssociationCreation engine conn
                          transitGatewayRouteTableID transitGatewayAttachmentID)
                       (\<lambda>err. case err of
                          Some e \<Rightarrow>
                            io_return (Some (ErrorString
                              (''error waiting for EC2 Transit Gateway Route Table (''
                                 @ transitGatewayRouteTableID @ '') association (''
                                 @ transitGatewayAttachmentID @ ''): '' @ Error e)))
                        | None \<Rightarrow> io_return None))
              else if \<not> associate \<and> transitGatewayAssociation \<noteq> None
              then and_then
                (call DisassociateTransitGatewayRouteTableOp DisassociateTransitGatewayRouteTable
                   conn (routeTableInput transitGatewayRouteTableID transitGatewayAttachmentID))
                (\<lambda>err. case err of
                   Some e \<Rightarrow>
                     io_return (Some (ErrorString
                       (''error disassociating EC2 Transit Gateway Route Table (''
                          @ transitGatewayRouteTableID @ '') disassociation (''
                          @ transitGatewayAttachmentID @ ''): '' @ Error e)))
                 | None \<Rightarrow>
                     and_then
                       (waitForEc2TransitGatewayRouteTableAssociationDeletion engine conn
                          transitGatewayRouteTableID transitGatewayAttachmentID)
                       (\<lambda>err. case err of
                          Some e \<Rightarrow>
                            io_return (Some (ErrorString
                              (''error waiting for EC2 Transit Gateway Route Table (''
                                 @ transitGatewayRouteTableID @ '') disassociation (''
                                 @ transitGatewayAttachmentID @ ''): '' @ Error e)))
                        | None \<Rightarrow> io_return None))
              else io_return None)"

definition ec2TransitGatewayRouteTablePropagationUpdate ::
  "EC2 option \<Rightarrow> string \<Rightarrow> string \<Rightarrow> bool \<Rightarrow> error option io" where
  "ec2TransitGatewayRouteTablePropagationUpdate conn transitGatewayRouteTableID
       transitGatewayAttachmentID enablePropagation =
     and_then
       (ec2DescribeTransitGatewayRouteTablePropagation conn transitGatewayRouteTableID
          transitGatewayAttachmentID)
       (\<lambda>(transitGatewayRouteTablePropagation, err).
          case err of
            Some e \<Rightarrow>
              io_return (Some (ErrorString
                (''error determining EC2 Transit Gateway Attachment (''
                   @ transitGatewayAttachmentID @ '') propagation to Route Table (''
                   @ transitGatewayRouteTableID @ ''): '' @ Error e)))
          | None \<Rightarrow>
              if enablePropagation \<and> transitGatewayRouteTablePropagation = None
              then and_then
                (call EnableTransitGatewayRouteTablePropagationOp
                   EnableTransitGatewayRouteTablePropagation conn
                   (routeTableInput transitGatewayRouteTableID transitGatewayAttachmentID))
                (\<lambda>err. case err of
                   Some e \<Rightarrow>
                     io_return (Some (ErrorString
                       (''error enabling EC2 Transit Gateway Attachment (''
                          @ transitGatewayAttachmentID @ '') propagation to Route Table (''
                          @ transitGatewayRouteTableID @ ''): '' @ Error e)))
                 | None \<Rightarrow> io_return None)
              else if \<not> enablePropagation \<and> transitGatewayRouteTablePropagation \<noteq> None
              then and_then
                (call DisableTransitGatewayRouteTablePropagationOp
                   DisableTransitGatewayRouteTablePropagation conn
                   (routeTableInput transitGatewayRouteTableID transitGatewayAttachmentID))
                (\<lambda>err. case err of
                   Some e \<Rightarrow>
                     io_return (Some (ErrorString
                       (''error disabling EC2 Transit Gateway Attachment (''
                          @ transitGatewayAttachmentID @ '') propagation to Route Table (''
                          @ transitGatewayRouteTableID @ ''): '' @ Error e)))
                 | None \<Rightarrow> io_return None)
              else io_return None)"

text \<open>
  What a run added to the history, and the two properties of it the claims speak of: the
  mutations issued, and a state wait started after every one of them.
\<close>

definition issued :: "history \<Rightarrow> history \<Rightarrow> event list" where
  "issued h h' = drop (length h) h'"

definition is_mutation :: "event \<Rightarrow> bool" where
  "is_mutation e \<longleftrightarrow>
     e = Called AssociateTransitGatewayRouteTableOp
     \<or> e = Called DisassociateTransitGatewayRouteTableOp
     \<or> e = Called EnableTransitGatewayRouteTablePropagationOp
     \<or> e = Called DisableTransitGatewayRouteTablePropagationOp"

fun is_wait :: "event \<Rightarrow> bool" where
  "is_wait (WaitForStateCalled pending target) = True"
| "is_wait (Called op) = False"

text \<open>
  The state wait that belongs to a mutation: the pending and target labels of the wait
  function the association update runs after it. No wait belongs to the two propagation
  mutations.
\<close>

definition awaited_by :: "event \<Rightarrow> event \<Rightarrow> bool" where
  "awaited_by mutation wait \<longleftrightarrow>
     (mutation = Called AssociateTransitGatewayRouteTableOp
      \<and> wait = WaitForStateCalled [TransitGatewayAssociationStateAssociating]
                  [TransitGatewayAssociationStateAssociated])
     \<or> (mutation = Called DisassociateTransitGatewayRouteTableOp
      \<and> wait = WaitForStateCalled [TransitGatewayAssociationStateAssociated,
                   TransitGatewayAssociationStateDisassociating] [[]])"

fun wait_after_every_mutation :: "event list \<Rightarrow> bool" where
  "wait_after_every_mutation [] = True"
| "wait_after_every_mutation (e # es) =
     ((if is_mutation e
       then (case es of [] \<Rightarrow> False | next_event # later \<Rightarrow> awaited_by e next_event)
       else True)
      \<and> wait_after_every_mutation es)"

section \<open>Waiting for a multicast group to become visible\<close>

text \<open>
  Modelled from the spec: \<^verbatim>\<open>resource.Retry\<close>, the retry-until-visible helper of the
  plugin SDK, is not among the sources. By the spec it evaluates the predicate repeatedly;
  a retryable outcome is tried again, any other failure is fatal at once and returned as
  it is, and when the timeout is over it reports a timeout error that names what was
  awaited. One evaluation is made per second of the timeout.
\<close>

datatype RetryError = RetryableError error | NonRetryableError error

fun RetryLoop ::
  "nat \<Rightarrow> string \<Rightarrow> RetryError option io \<Rightarrow> history \<Rightarrow> (error option go \<times> history) option" where
  "RetryLoop 0 awaited f h = Some (Return (Some (TimeoutError awaited)), h)"
| "RetryLoop (Suc n) awaited f h =
     (case f h of
        None \<Rightarrow> None
      | Some (Panic, h') \<Rightarrow> Some (Panic, h')
      | Some (Return None, h') \<Rightarrow> Some (Return None, h')
      | Some (Return (Some (NonRetryableError e)), h') \<Rightarrow> Some (Return (Some e), h')
      | Some (Return (Some (RetryableError e)), h') \<Rightarrow> RetryLoop n (Error e) f h')"

definition Retry :: "nat \<Rightarrow> RetryError option io \<Rightarrow> error option io" where
  "Retry timeout f = RetryLoop timeout [] f"

text \<open>
  \<^verbatim>\<open>groupData\<close> is a \<^verbatim>\<open>map[string]interface{}\<close>: its values are strings, sets of
  strings (\<^verbatim>\<open>*schema.Set\<close>, listed in the set's order) or something else. A type
  assertion on a value of another type, or on a missing key, panics.
\<close>

datatype fieldValue = StringVal string | SetVal "string list" | OtherVal

fun Sprint_value :: "fieldValue option \<Rightarrow> string" where
  "Sprint_value None = ''<nil>''"
| "Sprint_value (Some (StringVal s)) = s"
| "Sprint_value (Some (SetVal ids)) = ''%!s(*schema.Set)''"
| "Sprint_value (Some OtherVal) = ''?''"

text \<open>
  The text \<^verbatim>\<open>%s\<close> prints for the group data, and for an error that may be nil. A
  \<^verbatim>\<open>*schema.Set\<close> is no string, so \<^verbatim>\<open>%s\<close> prints it as a bad verb with the
  type; the dump of the set's fields that follows the type is left out.
\<close>

definition Sprint_groupData :: "(string \<rightharpoonup> fieldValue) \<Rightarrow> string" where
  "Sprint_groupData groupData =
     ''map[group_ip_address:'' @ Sprint_value (groupData ''group_ip_address'')
       @ '' network_interface_ids:'' @ Sprint_value (groupData ''network_interface_ids'')
       @ '']''"

definition Sprint_error :: "error option \<Rightarrow> string" where
  "Sprint_error err = (case err of None \<Rightarrow> ''%!s(<nil>)'' | Some e \<Rightarrow> Error e)"

text \<open>
  The inner loop of both closures: is the network interface among the groups? A nil
  group is dereferenced.
\<close>

fun netIDFound :: "TransitGatewayMulticastGroup option list \<Rightarrow> string \<Rightarrow> bool go" where
  "netIDFound [] netID = Return False"
| "netIDFound (multicastGroup # groups) netID =
     (case multicastGroup of
        None \<Rightarrow> Panic
      | Some g \<Rightarrow>
          if StringValue (NetworkInterfaceId g) = netID then Return True
          else netIDFound groups netID)"

text \<open>The outer loop of the register closure stops at the first interface not found.\<close>

fun allNetIDsFound :: "string list \<Rightarrow> TransitGatewayMulticastGroup option list \<Rightarrow> bool go" where
  "allNetIDsFound [] groups = Return True"
| "allNetIDsFound (netID # netIDs) groups =
     (case netIDFound groups netID of
        Panic \<Rightarrow> Panic
      | Return False \<Rightarrow> Return False
      | Return True \<Rightarrow> allNetIDsFound netIDs groups)"

text \<open>The outer loop of the deregister closure stops at the first interface found.\<close>

fun someNetIDFound :: "string list \<Rightarrow> TransitGatewayMulticastGroup option list \<Rightarrow> bool go" where
  "someNetIDFound [] groups = Return False"
| "someNetIDFound (netID # netIDs) groups =
     (case netIDFound groups netID of
        Panic \<Rightarrow> Panic
      | Return True \<Rightarrow> Return True
      | Return False \<Rightarrow> someNetIDFound netIDs groups)"

text \<open>The closure \<^verbatim>\<open>waitForEc2TransitGatewayMulticastDomainGroupRegister\<close> retries.\<close>

definition registerCheck ::
  "EC2 option \<Rightarrow> string \<Rightarrow> (string \<rightharpoonup> fieldValue) \<Rightarrow> Filter option list \<Rightarrow> string list \<Rightarrow>
   RetryError option io" where
  "registerCheck conn domainID groupData filters netIDs =
     and_then (ec2SearchTransitGatewayMulticastDomainGroups conn domainID filters)
       (\<lambda>(groups, err).
          case err of
            Some e \<Rightarrow> io_return (Some (NonRetryableError e))
          | None \<Rightarrow>
              (case allNetIDsFound netIDs groups of
                 Panic \<Rightarrow> io_panic
               | Return False \<Rightarrow>
                   io_return (Some (RetryableError (ErrorString
                     (''EC2 Transit Gateway Multicast Domain ('' @ domainID
                        @ '') group not available: '' @ Sprint_groupData groupData))))
               | Return True \<Rightarrow> io_return None))"

definition waitForEc2TransitGatewayMulticastDomainGroupRegister ::
  "EC2 option \<Rightarrow> string \<Rightarrow> (string \<rightharpoonup> fieldValue) \<Rightarrow> bool \<Rightarrow> error option io" where
  "waitForEc2TransitGatewayMulticastDomainGroupRegister conn domainID groupData member =
     (case groupData ''group_ip_address'' of
        Some (StringVal groupIP) \<Rightarrow>
          (case groupData ''network_interface_ids'' of
             Some (SetVal netIDs) \<Rightarrow>
               and_then
                 (Retry (2 * Minute)
                    (registerCheck conn domainID groupData
                       (ec2SearchTransitGatewayMulticastDomainGroupIpFilters member groupIP)
                       netIDs))
                 (\<lambda>err.
                    if isResourceTimeoutError err
                    then io_return (Some (ErrorString
                      (''error validating that EC2 Transit Gateway Multicast Domain (''
                         @ domainID @ '') group was successfully registered: ''
                         @ Sprint_error err)))
                    else io_return None)
           | _ \<Rightarrow> io_panic)
      | _ \<Rightarrow> io_panic)"

text \<open>The closure \<^verbatim>\<open>waitForEc2TransitGatewayMulticastDomainGroupDeregister\<close> retries.\<close>

definition deregisterCheck ::
  "EC2 option \<Rightarrow> string \<Rightarrow> (string \<rightharpoonup> fieldValue) \<Rightarrow> Filter option list \<Rightarrow> string list \<Rightarrow>
   RetryError option io" where
  "deregisterCheck conn domainID groupData filters netIDs =
     and_then (ec2SearchTransitGatewayMulticastDomainGroups conn domainID filters)
       (\<lambda>(groups, err).
          case err of
            Some e \<Rightarrow> io_return (Some (NonRetryableError e))
          | None \<Rightarrow>
              (case someNetIDFound netIDs groups of
                 Panic \<Rightarrow> io_panic
               | Return True \<Rightarrow>
                   io_return (Some (RetryableError (ErrorString
                     (''EC2 Transit Gateway Multicast Domain ('' @ domainID
                        @ '') still available: '' @ Sprint_groupData groupData))))
               | Return False \<Rightarrow> io_return None))"

definition waitForEc2TransitGatewayMulticastDomainGroupDeregister ::
  "EC2 option \<Rightarrow> string \<Rightarrow> (string \<rightharpoonup> fieldValue) \<Rightarrow> bool \<Rightarrow> error option io" where
  "waitForEc2TransitGatewayMulticastDomainGroupDeregister conn domainID groupData member =
     (case groupData ''group_ip_address'' of
        Some (StringVal groupIP) \<Rightarrow>
          (case groupData ''network_interface_ids'' of
             Some (SetVal netIDs) \<Rightarrow>
               and_then
                 (Retry (2 * Minute)
                    (deregisterCheck conn domainID groupData
                       (ec2SearchTransitGatewayMulticastDomainGroupIpFilters member groupIP)
                       netIDs))
                 (\<lambda>err.
                    if isResourceTimeoutError err
                    then io_return (Some (ErrorString
                      (''error validating that EC2 Transit Gateway Multicast Domain (''
                         @ domainID @ '') group was successfully deregistered: ''
                         @ Sprint_error err)))
                    else io_return None)
           | _ \<Rightarrow> io_panic)
      | _ \<Rightarrow> io_panic)"

section \<open>Remote sides used in the examples\<close>

text \<open>
  A remote side that answers every read with one empty page and accepts every mutation.
\<close>

definition emptyPage :: "'a Output" where
  "emptyPage = \<lparr>Items = [], OutNextToken = None\<rparr>"

definition quietEC2 :: EC2 where
  "quietEC2 =
     \<lparr>DescribeTransitGateways = (\<lambda>h input. (Some emptyPage, None)),
      DescribeTransitGatewayRouteTables = (\<lambda>h input. (Some emptyPage, None)),
      GetTransitGatewayRouteTableAssociations = (\<lambda>h input. (Some emptyPage, None)),
      GetTransitGatewayRouteTablePropagations = (\<lambda>h input. (Some emptyPage, None)),
      DescribeTransitGatewayPeeringAttachments = (\<lambda>h input. (Some emptyPage, None)),
      DescribeTransitGatewayVpcAttachments = (\<lambda>h input. (Some emptyPage, None)),
      DescribeTransitGatewayMulticastDomains = (\<lambda>h input. (Some emptyPage, None)),
      GetTransitGatewayMulticastDomainAssociations = (\<lambda>h input. (Some emptyPage, None)),
      SearchTransitGatewayMulticastGroups = (\<lambda>h input. (Some emptyPage, None)),
      AssociateTransitGatewayRouteTable = (\<lambda>h input. None),
      DisassociateTransitGatewayRouteTable = (\<lambda>h input. None),
      EnableTransitGatewayRouteTablePropagation = (\<lambda>h input. None),
      DisableTransitGatewayRouteTablePropagation = (\<lambda>h input. None)\<rparr>"

text \<open>A remote side whose multicast domain has the given subnet associations.\<close>

definition subnetIn :: "string \<Rightarrow> string \<Rightarrow> TransitGatewayMulticastDomainAssociation option" where
  "subnetIn subnetID state =
     Some \<lparr>Subnet = Some \<lparr>SubnetId = Some subnetID, State = Some state\<rparr>\<rparr>"

definition domainWith :: "TransitGatewayMulticastDomainAssociation option list \<Rightarrow> EC2" where
  "domainWith associations =
     quietEC2\<lparr>GetTransitGatewayMulticastDomainAssociations :=
       (\<lambda>h input. (Some \<lparr>Items = associations, OutNextToken = None\<rparr>, None))\<rparr>"

text \<open>A remote side with one peering attachment, and a failed attachment with its status.\<close>

definition peeringWith :: "TransitGatewayPeeringAttachment \<Rightarrow> EC2" where
  "peeringWith attachment =
     quietEC2\<lparr>DescribeTransitGatewayPeeringAttachments :=
       (\<lambda>h input. (Some \<lparr>Items = [Some attachment], OutNextToken = None\<rparr>, None))\<rparr>"

definition failedPeering :: TransitGatewayPeeringAttachment where
  "failedPeering =
     \<lparr>TransitGatewayPeeringAttachment.TransitGatewayAttachmentId = Some ''tgw-attach-1'',
      TransitGatewayPeeringAttachment.State = Some ''failed'',
      TransitGatewayPeeringAttachment.Status = Some \<lparr>Code = Some ''invalidPeer'',
                      Message = Some ''the peer transit gateway does not exist''\<rparr>\<rparr>"

text \<open>A remote side that answers every transit gateway read with the not-found code.\<close>

definition gatewayGone :: EC2 where
  "gatewayGone =
     quietEC2\<lparr>DescribeTransitGateways :=
       (\<lambda>h input. (None, Some (AWSError ''InvalidTransitGatewayID.NotFound''
                                 ''The transitGateway ID does not exist'')))\<rparr>"

text \<open>
  A remote side that keeps track of one route table association and one propagation: each
  exists when the last call that switches it, among the calls of the history, switched
  it on. An association that exists is in the state "associated".
\<close>

definition switched_on :: "operation \<Rightarrow> operation \<Rightarrow> history \<Rightarrow> bool" where
  "switched_on opOn opOff h =
     (case filter (\<lambda>e. e = Called opOn \<or> e = Called opOff) h of
        [] \<Rightarrow> False
      | e # es \<Rightarrow> last (e # es) = Called opOn)"

definition association1 :: TransitGatewayRouteTableAssociation where
  "association1 =
     \<lparr>TransitGatewayRouteTableAssociation.ResourceId = Some ''vpc-1'',
      TransitGatewayRouteTableAssociation.State = Some ''associated''\<rparr>"

definition propagation1 :: TransitGatewayRouteTablePropagation where
  "propagation1 =
     \<lparr>TransitGatewayRouteTablePropagation.ResourceId = Some ''vpc-1'',
      TransitGatewayRouteTablePropagation.State = Some ''enabled''\<rparr>"

definition tracking :: EC2 where
  "tracking =
     quietEC2\<lparr>GetTransitGatewayRouteTableAssociations :=
       (\<lambda>h input.
          if switched_on AssociateTransitGatewayRouteTableOp
               DisassociateTransitGatewayRouteTableOp h
          then (Some \<lparr>Items = [Some association1], OutNextToken = None\<rparr>, None)
          else (Some emptyPage, None)),
      GetTransitGatewayRouteTablePropagations :=
       (\<lambda>h input.
          if switched_on EnableTransitGatewayRouteTablePropagationOp
               DisableTransitGatewayRouteTablePropagationOp h
          then (Some \<lparr>Items = [Some propagation1], OutNextToken = None\<rparr>, None)
          else (Some emptyPage, None))\<rparr>"

text \<open>The same remote side, refusing the two association mutations.\<close>

definition refusing :: EC2 where
  "refusing =
     tracking\<lparr>AssociateTransitGatewayRouteTable :=
       (\<lambda>h input. Some (AWSError ''UnauthorizedOperation''
                          ''You are not authorized to perform this operation.'')),
      DisassociateTransitGatewayRouteTable :=
       (\<lambda>h input. Some (AWSError ''UnauthorizedOperation''
                          ''You are not authorized to perform this operation.''))\<rparr>"

text \<open>A state wait that ends at once with the not-found error.\<close>

definition alreadyGone :: engine where
  "alreadyGone = (\<lambda>stateConf h. Some (Return (None, Some NotFoundError)))"

text \<open>A remote side that refuses every group search with an authorization error.\<close>

definition unauthorized :: error where
  "unauthorized = AWSError ''UnauthorizedOperation''
     ''You are not authorized to perform this operation.''"

definition searchRefused :: EC2 where
  "searchRefused =
     quietEC2\<lparr>SearchTransitGatewayMulticastGroups := (\<lambda>h input. (None, Some unauthorized))\<rparr>"

definition groupData1 :: "string \<rightharpoonup> fieldValue" where
  "groupData1 = [''group_ip_address'' \<mapsto> StringVal ''224.0.0.1'',
                 ''network_interface_ids'' \<mapsto> SetVal [''eni-1'']]"

section \<open>Evaluating the effects\<close>

lemma Contains_empty: "Contains s [] = True"
  by (cases s) simp_all

lemma isAWSErr_code: "isAWSErr (Some (AWSError code message)) code [] = True"
  by (simp add: isAWSErr_def Contains_empty)

lemma isAWSErr_None: "isAWSErr None code message = False"
  by (simp add: isAWSErr_def)

section \<open>The label map of a poll\<close>

lemma Disassociated_not_empty: "AssociationStatusCodeDisassociated \<noteq> []"
  by (simp add: AssociationStatusCodeDisassociated_def)

lemma subnetStates_init_lookup:
  "subnetStates_init m ids k = (if k \<in> StringValue ` set ids then Some [] else m k)"
  by (induction ids arbitrary: m) auto

lemma subnetStates_observe_unlisted:
  "subnetStates_observe m associations = Return m' \<Longrightarrow> \<not> listed k associations \<Longrightarrow>
   m' k = m k"
proof (induction associations arbitrary: m)
  case Nil
  then show ?case by simp
next
  case (Cons a as)
  from Cons.prems(2) have rest: "\<not> listed k as" by simp
  show ?case
  proof (cases a)
    case None
    with Cons.prems(1) have "subnetStates_observe m as = Return m'" by simp
    from Cons.IH [OF this rest] show ?thesis .
  next
    case (Some x)
    show ?thesis
    proof (cases "Subnet x")
      case None
      with Some Cons.prems(1) show ?thesis by simp
    next
      case (Some subnet)
      with \<open>a = Some x\<close> Cons.prems(2) have other: "StringValue (SubnetId subnet) \<noteq> k"
        by simp
      show ?thesis
      proof (cases "m (StringValue (SubnetId subnet)) = None")
        case True
        with Some \<open>a = Some x\<close> Cons.prems(1) have "subnetStates_observe m as = Return m'"
          by simp
        from Cons.IH [OF this rest] show ?thesis .
      next
        case False
        with Some \<open>a = Some x\<close> Cons.prems(1)
        have "subnetStates_observe
                (m(StringValue (SubnetId subnet) \<mapsto> StringValue (SubnetAssociation.State subnet)))
                as = Return m'"
          by simp
        from Cons.IH [OF this rest] other show ?thesis by simp
      qed
    qed
  qed
qed

lemma subnetStates_mark_lookup:
  "subnetStates_mark order m k =
     (if k \<in> set order \<and> m k = Some [] then Some AssociationStatusCodeDisassociated
      else m k)"
  by (induction order arbitrary: m) (auto split: option.splits simp: Disassociated_not_empty)


section \<open>The reduction\<close>

lemma compoundState_loop_first:
  "m k = Some state \<Longrightarrow>
   compoundState_loop a m (k # order) [] = compoundState_loop a m order state"
  by simp

lemma terminal_step:
  "terminal label \<Longrightarrow> m k = Some label \<Longrightarrow>
   compoundState_loop a m (k # order) label = compoundState_loop a m order label"
  by (auto simp: terminal_def AssociationStatusCodeAssociated_def
      AssociationStatusCodeDisassociated_def AssociationStatusCodeAssociating_def
      AssociationStatusCodeDisassociating_def AssociationStatusCodeAssociationFailed_def)

lemma terminal_then_associating:
  "terminal label \<Longrightarrow> m k = Some AssociationStatusCodeAssociating \<Longrightarrow>
   compoundState_loop a m (k # order) label
     = (Some (AssociationsPayload a), AssociationStatusCodeAssociating, None)"
  by (auto simp: terminal_def AssociationStatusCodeAssociated_def
      AssociationStatusCodeDisassociated_def AssociationStatusCodeAssociating_def
      AssociationStatusCodeDisassociating_def AssociationStatusCodeAssociationFailed_def)

lemma terminal_then_unrecognized:
  "terminal label \<Longrightarrow> m k = Some state \<Longrightarrow> \<not> recognized state \<Longrightarrow>
   compoundState_loop a m (k # order) label
     = (None, [], Some (ErrorString (''unhandled association state: '' @ state)))"
  by (auto simp: terminal_def recognized_def AssociationStatusCodeAssociated_def
      AssociationStatusCodeDisassociated_def)

lemma agree_until_associating:
  "terminal label \<Longrightarrow> agree_until m label AssociationStatusCodeAssociating order \<Longrightarrow>
   compoundState_loop a m order label
     = (Some (AssociationsPayload a), AssociationStatusCodeAssociating, None)"
proof (induction order)
  case Nil
  then show ?case by simp
next
  case (Cons k order)
  show ?case
  proof (cases "m k = Some AssociationStatusCodeAssociating")
    case True
    from Cons.prems(1) True show ?thesis by (rule terminal_then_associating)
  next
    case False
    with Cons.prems have k: "m k = Some label" and rest: "agree_until m label AssociationStatusCodeAssociating order"
      by auto
    from Cons.prems(1) k have "compoundState_loop a m (k # order) label = compoundState_loop a m order label"
      by (rule terminal_step)
    with Cons.IH [OF Cons.prems(1) rest] show ?thesis by simp
  qed
qed

lemma agree_until_unrecognized:
  "terminal label \<Longrightarrow> \<not> recognized state \<Longrightarrow> agree_until m label state order \<Longrightarrow>
   compoundState_loop a m order label
     = (None, [], Some (ErrorString (''unhandled association state: '' @ state)))"
proof (induction order)
  case Nil
  then show ?case by simp
next
  case (Cons k order)
  show ?case
  proof (cases "m k = Some state")
    case True
    from Cons.prems(1) True Cons.prems(2) show ?thesis by (rule terminal_then_unrecognized)
  next
    case False
    with Cons.prems have k: "m k = Some label" and rest: "agree_until m label state order"
      by auto
    from Cons.prems(1) k have "compoundState_loop a m (k # order) label = compoundState_loop a m order label"
      by (rule terminal_step)
    with Cons.IH [OF Cons.prems(1) Cons.prems(2) rest] show ?thesis by simp
  qed
qed

lemma same_label_step:
  "terminal label \<or> in_progress label \<Longrightarrow> list_all (\<lambda>k. m k = Some label) order \<Longrightarrow>
   compoundState_loop a m order label = (Some (AssociationsPayload a), label, None)"
proof (induction order)
  case Nil
  then show ?case by simp
next
  case (Cons k order)
  then show ?case
    by (auto simp: terminal_def in_progress_def AssociationStatusCodeAssociated_def
      AssociationStatusCodeDisassociated_def AssociationStatusCodeAssociating_def
      AssociationStatusCodeDisassociating_def AssociationStatusCodeAssociationFailed_def)
qed

lemma same_label_everywhere:
  assumes "terminal label \<or> in_progress label" and "order \<noteq> []"
    and "list_all (\<lambda>k. m k = Some label) order"
  shows "compoundState_loop a m order [] = (Some (AssociationsPayload a), label, None)"
proof (cases order)
  case Nil
  with assms(2) show ?thesis by simp
next
  case (Cons k rest)
  with assms(3) have k: "m k = Some label" and rest: "list_all (\<lambda>k. m k = Some label) rest"
    by simp_all
  from k have "compoundState_loop a m (k # rest) [] = compoundState_loop a m rest label"
    by (rule compoundState_loop_first)
  with same_label_step [OF assms(1) rest] Cons show ?thesis by simp
qed

lemma refresh_of_poll:
  assumes "ec2GetTransitGatewayMulticastDomainAssociations conn domainID h
             = Some (Return (associations, None), h')"
    and "subnetStates_of_poll subnetIDs associations order1 = Return subnetStates"
  shows "ec2TransitGatewayMulticastDomainAssociationRefreshFunc conn domainID subnetIDs
           order1 order2 h
         = Some (Return (compoundState_loop associations subnetStates order2 []), h')"
  using assms
  by (simp add: ec2TransitGatewayMulticastDomainAssociationRefreshFunc_def and_then_def
      io_return_def)

lemma associations_of_domainWith:
  "domainID \<noteq> [] \<Longrightarrow>
   ec2GetTransitGatewayMulticastDomainAssociations (Some (domainWith associations)) domainID h
     = Some (Return (associations, None),
             h @ [Called GetTransitGatewayMulticastDomainAssociationsOp])"
  apply (simp add: ec2GetTransitGatewayMulticastDomainAssociations_def)
  apply (subst collectLoop.simps)
  apply (simp add: call_def domainWith_def quietEC2_def StringValue_def)
  done


lemmas label_defs =
  AssociationStatusCodeAssociated_def AssociationStatusCodeDisassociated_def
  AssociationStatusCodeAssociating_def AssociationStatusCodeDisassociating_def
  AssociationStatusCodeAssociationFailed_def

section \<open>The claims about the association refresh function\<close>

lemma subnetStates_init_dom:
  "dom (subnetStates_init Map.empty ids) = StringValue ` set ids"
  by (auto simp: subnetStates_init_lookup dom_def)

text \<open>
  Claim C7. In every poll whose association read returns without error and whose second
  loop does not panic, a tracked subnet identifier that no association of the returned
  list carries has the label "disassociated" in the map the reduction runs on.
\<close>

theorem unlisted_subnet_is_disassociated:
  assumes poll: "ec2GetTransitGatewayMulticastDomainAssociations conn domainID h
                   = Some (Return (associations, None), h')"
    and states: "subnetStates_of_poll subnetIDs associations order1 = Return subnetStates"
    and order: "iteration_order order1 (subnetStates_init Map.empty subnetIDs)"
    and tracked: "subnetID \<in> set subnetIDs"
    and unlisted: "\<not> listed (StringValue subnetID) associations"
  shows "subnetStates (StringValue subnetID) = Some AssociationStatusCodeDisassociated
         \<and> ec2TransitGatewayMulticastDomainAssociationRefreshFunc conn domainID subnetIDs
             order1 order2 h
           = Some (Return (compoundState_loop associations subnetStates order2 []), h')"
proof -
  from states obtain observed where
    observed: "subnetStates_observe (subnetStates_init Map.empty subnetIDs) associations
                 = Return observed"
    and marked: "subnetStates = subnetStates_mark order1 observed"
    by (auto simp: subnetStates_of_poll_def split: go.splits)
  from tracked have key: "StringValue subnetID \<in> StringValue ` set subnetIDs"
    by simp
  from subnetStates_observe_unlisted [OF observed unlisted] key
  have empty: "observed (StringValue subnetID) = Some []"
    by (simp add: subnetStates_init_lookup)
  from order key have visited: "StringValue subnetID \<in> set order1"
    by (simp add: iteration_order_def subnetStates_init_dom)
  from marked empty visited
  have "subnetStates (StringValue subnetID) = Some AssociationStatusCodeDisassociated"
    by (simp add: subnetStates_mark_lookup)
  with refresh_of_poll [OF poll states] show ?thesis by simp
qed

text \<open>
  Two tracked subnets, one of them listed as associated: the other is marked
  disassociated, and the reduction, started at it, reports the conflict.
\<close>

theorem unlisted_subnet_is_disassociated_witness:
  "\<exists>subnetStates.
     subnetStates_of_poll [Some ''subnet-a'', Some ''subnet-b'']
       [subnetIn ''subnet-a'' ''associated''] [''subnet-a'', ''subnet-b''] = Return subnetStates
     \<and> iteration_order [''subnet-a'', ''subnet-b'']
         (subnetStates_init Map.empty [Some ''subnet-a'', Some ''subnet-b''])
     \<and> \<not> listed ''subnet-b'' [subnetIn ''subnet-a'' ''associated'']
     \<and> subnetStates ''subnet-b'' = Some ''disassociated''
     \<and> ec2TransitGatewayMulticastDomainAssociationRefreshFunc
         (Some (domainWith [subnetIn ''subnet-a'' ''associated''])) ''tgw-mcast-domain-1''
         [Some ''subnet-a'', Some ''subnet-b''] [''subnet-a'', ''subnet-b'']
         [''subnet-b'', ''subnet-a''] []
       = Some (Return (None, [], Some (ErrorString ''received conflicting association states'')),
               [Called GetTransitGatewayMulticastDomainAssociationsOp])"
proof -
  let ?associations = "[subnetIn ''subnet-a'' ''associated'']"
  let ?ids = "[Some ''subnet-a'', Some ''subnet-b'']"
  have poll: "ec2GetTransitGatewayMulticastDomainAssociations
                (Some (domainWith ?associations)) ''tgw-mcast-domain-1'' []
              = Some (Return (?associations, None),
                      [] @ [Called GetTransitGatewayMulticastDomainAssociationsOp])"
    by (rule associations_of_domainWith) simp
  obtain subnetStates where
    states: "subnetStates_of_poll ?ids ?associations [''subnet-a'', ''subnet-b'']
               = Return subnetStates"
    and a: "subnetStates ''subnet-a'' = Some ''associated''"
    by (simp add: subnetStates_of_poll_def subnetIn_def StringValue_def label_defs)
  have order: "iteration_order [''subnet-a'', ''subnet-b''] (subnetStates_init Map.empty ?ids)"
    by (auto simp: iteration_order_def StringValue_def)
  have tracked: "Some ''subnet-b'' \<in> set ?ids" by simp
  have unlisted: "\<not> listed (StringValue (Some ''subnet-b'')) ?associations"
    by (simp add: subnetIn_def StringValue_def)
  from unlisted_subnet_is_disassociated [OF poll states order tracked unlisted,
      of "[''subnet-b'', ''subnet-a'']"] a
  have "subnetStates ''subnet-b'' = Some ''disassociated''
        \<and> ec2TransitGatewayMulticastDomainAssociationRefreshFunc
            (Some (domainWith ?associations)) ''tgw-mcast-domain-1'' ?ids
            [''subnet-a'', ''subnet-b''] [''subnet-b'', ''subnet-a''] []
          = Some (Return (None, [], Some (ErrorString ''received conflicting association states'')),
                  [Called GetTransitGatewayMulticastDomainAssociationsOp])"
    by (simp add: StringValue_def label_defs)
  with states order unlisted show ?thesis
    by (auto simp: StringValue_def)
qed


text \<open>
  Claim C2 says that a poll whose labels are all terminal but disagree fails with
  "received conflicting association states" under every iteration order. The code does so
  only when the first label met is "disassociated": the case of the label "disassociated"
  has an empty body, so with "associated" first the disagreement goes unnoticed. Here
  subnet-a is associated, subnet-b is disassociated, the map is ranged in the order
  subnet-a, subnet-b, and the poll returns "associated" with a nil error.
\<close>

theorem conflict_missed_when_associated_comes_first:
  "(case subnetStates_of_poll [Some ''subnet-a'', Some ''subnet-b'']
           [subnetIn ''subnet-a'' ''associated'', subnetIn ''subnet-b'' ''disassociated'']
           [''subnet-a'', ''subnet-b''] of
      Panic \<Rightarrow> False
    | Return subnetStates \<Rightarrow>
        subnetStates ''subnet-a'' = Some AssociationStatusCodeAssociated
        \<and> subnetStates ''subnet-b'' = Some AssociationStatusCodeDisassociated
        \<and> iteration_order [''subnet-a'', ''subnet-b''] subnetStates)
   \<and> ec2TransitGatewayMulticastDomainAssociationRefreshFunc
       (Some (domainWith [subnetIn ''subnet-a'' ''associated'',
                          subnetIn ''subnet-b'' ''disassociated'']))
       ''tgw-mcast-domain-1'' [Some ''subnet-a'', Some ''subnet-b'']
       [''subnet-a'', ''subnet-b''] [''subnet-a'', ''subnet-b''] []
     = Some (Return (Some (AssociationsPayload [subnetIn ''subnet-a'' ''associated'',
                                                subnetIn ''subnet-b'' ''disassociated'']),
                     AssociationStatusCodeAssociated, None),
             [Called GetTransitGatewayMulticastDomainAssociationsOp])"
proof -
  let ?associations = "[subnetIn ''subnet-a'' ''associated'',
                        subnetIn ''subnet-b'' ''disassociated'']"
  have poll: "ec2GetTransitGatewayMulticastDomainAssociations
                (Some (domainWith ?associations)) ''tgw-mcast-domain-1'' []
              = Some (Return (?associations, None),
                      [] @ [Called GetTransitGatewayMulticastDomainAssociationsOp])"
    by (rule associations_of_domainWith) simp
  have states: "(case subnetStates_of_poll [Some ''subnet-a'', Some ''subnet-b'']
           ?associations [''subnet-a'', ''subnet-b''] of
      Panic \<Rightarrow> False
    | Return subnetStates \<Rightarrow>
        subnetStates ''subnet-a'' = Some AssociationStatusCodeAssociated
        \<and> subnetStates ''subnet-b'' = Some AssociationStatusCodeDisassociated
        \<and> iteration_order [''subnet-a'', ''subnet-b''] subnetStates)"
    by (auto simp: subnetStates_of_poll_def subnetIn_def StringValue_def label_defs
        iteration_order_def)
  have "ec2TransitGatewayMulticastDomainAssociationRefreshFunc
       (Some (domainWith ?associations)) ''tgw-mcast-domain-1''
       [Some ''subnet-a'', Some ''subnet-b''] [''subnet-a'', ''subnet-b'']
       [''subnet-a'', ''subnet-b''] []
     = Some (Return (Some (AssociationsPayload ?associations),
                     AssociationStatusCodeAssociated, None),
             [Called GetTransitGatewayMulticastDomainAssociationsOp])"
    using poll
    by (simp add: ec2TransitGatewayMulticastDomainAssociationRefreshFunc_def and_then_def
        io_return_def subnetStates_of_poll_def subnetIn_def StringValue_def label_defs)
  with states show ?thesis by simp
qed

text \<open>
  Claim C1, as amended. A poll returns an in-progress label as the compound state, with a
  nil error and the association list as payload, (a) when every subnet the reduction
  visits carries that one in-progress label, and (b) for the label "associating", when
  it is met after the first position and every label met before it is one and the same
  terminal label, whatever labels follow it.
\<close>

theorem in_progress_label_returned:
  assumes poll: "ec2GetTransitGatewayMulticastDomainAssociations conn domainID h
                   = Some (Return (associations, None), h')"
    and states: "subnetStates_of_poll subnetIDs associations order1 = Return subnetStates"
  shows "(order2 \<noteq> [] \<and> in_progress state
            \<and> list_all (\<lambda>subnetID. subnetStates subnetID = Some state) order2 \<longrightarrow>
          ec2TransitGatewayMulticastDomainAssociationRefreshFunc conn domainID subnetIDs
              order1 order2 h
            = Some (Return (Some (AssociationsPayload associations), state, None), h'))
       \<and> (terminal label \<and> subnetStates first = Some label
            \<and> agree_until subnetStates label AssociationStatusCodeAssociating rest \<longrightarrow>
          ec2TransitGatewayMulticastDomainAssociationRefreshFunc conn domainID subnetIDs
              order1 (first # rest) h
            = Some (Return (Some (AssociationsPayload associations),
                            AssociationStatusCodeAssociating, None), h'))"
proof (intro conjI impI)
  assume all: "order2 \<noteq> [] \<and> in_progress state
                 \<and> list_all (\<lambda>subnetID. subnetStates subnetID = Some state) order2"
  then have "compoundState_loop associations subnetStates order2 []
               = (Some (AssociationsPayload associations), state, None)"
    by (intro same_label_everywhere) simp_all
  with refresh_of_poll [OF poll states, of order2]
  show "ec2TransitGatewayMulticastDomainAssociationRefreshFunc conn domainID subnetIDs
          order1 order2 h
        = Some (Return (Some (AssociationsPayload associations), state, None), h')"
    by simp
next
  assume met: "terminal label \<and> subnetStates first = Some label
                 \<and> agree_until subnetStates label AssociationStatusCodeAssociating rest"
  then have "compoundState_loop associations subnetStates (first # rest) []
               = compoundState_loop associations subnetStates rest label"
    by (intro compoundState_loop_first) simp
  also from met have "\<dots> = (Some (AssociationsPayload associations),
                              AssociationStatusCodeAssociating, None)"
    by (intro agree_until_associating) simp_all
  finally show "ec2TransitGatewayMulticastDomainAssociationRefreshFunc conn domainID
          subnetIDs order1 (first # rest) h
        = Some (Return (Some (AssociationsPayload associations),
                        AssociationStatusCodeAssociating, None), h')"
    using refresh_of_poll [OF poll states, of "first # rest"] by simp
qed

text \<open>
  Both cases at concrete polls: two subnets that are both disassociating, and an
  associated subnet followed by an associating one.
\<close>

theorem in_progress_label_returned_witness:
  "ec2TransitGatewayMulticastDomainAssociationRefreshFunc
     (Some (domainWith [subnetIn ''subnet-a'' ''disassociating'',
                        subnetIn ''subnet-b'' ''disassociating'']))
     ''tgw-mcast-domain-1'' [Some ''subnet-a'', Some ''subnet-b'']
     [''subnet-a'', ''subnet-b''] [''subnet-b'', ''subnet-a''] []
   = Some (Return (Some (AssociationsPayload [subnetIn ''subnet-a'' ''disassociating'',
                                              subnetIn ''subnet-b'' ''disassociating'']),
                   ''disassociating'', None),
           [Called GetTransitGatewayMulticastDomainAssociationsOp])
   \<and> ec2TransitGatewayMulticastDomainAssociationRefreshFunc
     (Some (domainWith [subnetIn ''subnet-a'' ''associated'',
                        subnetIn ''subnet-b'' ''associating'',
                        subnetIn ''subnet-c'' ''disassociating'']))
     ''tgw-mcast-domain-1'' [Some ''subnet-a'', Some ''subnet-b'', Some ''subnet-c'']
     [''subnet-a'', ''subnet-b'', ''subnet-c''] [''subnet-a'', ''subnet-b'', ''subnet-c''] []
   = Some (Return (Some (AssociationsPayload [subnetIn ''subnet-a'' ''associated'',
                                              subnetIn ''subnet-b'' ''associating'',
                                              subnetIn ''subnet-c'' ''disassociating'']),
                   ''associating'', None),
           [Called GetTransitGatewayMulticastDomainAssociationsOp])"
proof -
  let ?both = "[subnetIn ''subnet-a'' ''disassociating'', subnetIn ''subnet-b'' ''disassociating'']"
  let ?three = "[subnetIn ''subnet-a'' ''associated'', subnetIn ''subnet-b'' ''associating'',
                 subnetIn ''subnet-c'' ''disassociating'']"
  have poll1: "ec2GetTransitGatewayMulticastDomainAssociations
                (Some (domainWith ?both)) ''tgw-mcast-domain-1'' []
              = Some (Return (?both, None),
                      [] @ [Called GetTransitGatewayMulticastDomainAssociationsOp])"
    by (rule associations_of_domainWith) simp
  obtain states1 where
    states1: "subnetStates_of_poll [Some ''subnet-a'', Some ''subnet-b''] ?both
                [''subnet-a'', ''subnet-b''] = Return states1"
    and all1: "list_all (\<lambda>subnetID. states1 subnetID = Some ''disassociating'')
                 [''subnet-b'', ''subnet-a'']"
    by (simp add: subnetStates_of_poll_def subnetIn_def StringValue_def label_defs)
  have first: "[''subnet-b'', ''subnet-a''] \<noteq> [] \<and> in_progress ''disassociating''
                 \<and> list_all (\<lambda>subnetID. states1 subnetID = Some ''disassociating'')
                      [''subnet-b'', ''subnet-a'']"
    using all1 by (simp add: in_progress_def label_defs)
  have poll2: "ec2GetTransitGatewayMulticastDomainAssociations
                (Some (domainWith ?three)) ''tgw-mcast-domain-1'' []
              = Some (Return (?three, None),
                      [] @ [Called GetTransitGatewayMulticastDomainAssociationsOp])"
    by (rule associations_of_domainWith) simp
  obtain states2 where
    states2: "subnetStates_of_poll [Some ''subnet-a'', Some ''subnet-b'', Some ''subnet-c'']
                ?three [''subnet-a'', ''subnet-b'', ''subnet-c''] = Return states2"
    and a2: "states2 ''subnet-a'' = Some ''associated''"
    and b2: "states2 ''subnet-b'' = Some ''associating''"
    by (simp add: subnetStates_of_poll_def subnetIn_def StringValue_def label_defs)
  have second: "terminal ''associated'' \<and> states2 ''subnet-a'' = Some ''associated''
                 \<and> agree_until states2 ''associated'' AssociationStatusCodeAssociating
                      [''subnet-b'', ''subnet-c'']"
    using a2 b2 by (simp add: terminal_def label_defs)
  from in_progress_label_returned [OF poll1 states1, THEN conjunct1, rule_format, OF first]
    in_progress_label_returned [OF poll2 states2, THEN conjunct2, rule_format, OF second]
  show ?thesis by (simp add: label_defs)
qed

text \<open>
  Claim C1 as stated fails: subnet-c is associating, but the range meets the
  disassociated subnet-a and the associated subnet-b first, and the poll ends with the
  conflict error before it reaches subnet-c.
\<close>

theorem in_progress_label_loses_to_earlier_conflict:
  "(case subnetStates_of_poll [Some ''subnet-a'', Some ''subnet-b'', Some ''subnet-c'']
           [subnetIn ''subnet-b'' ''associated'', subnetIn ''subnet-c'' ''associating'']
           [''subnet-a'', ''subnet-b'', ''subnet-c''] of
      Panic \<Rightarrow> False
    | Return subnetStates \<Rightarrow>
        subnetStates ''subnet-c'' = Some AssociationStatusCodeAssociating
        \<and> iteration_order [''subnet-a'', ''subnet-b'', ''subnet-c''] subnetStates)
   \<and> in_progress AssociationStatusCodeAssociating
   \<and> ec2TransitGatewayMulticastDomainAssociationRefreshFunc
       (Some (domainWith [subnetIn ''subnet-b'' ''associated'',
                          subnetIn ''subnet-c'' ''associating'']))
       ''tgw-mcast-domain-1'' [Some ''subnet-a'', Some ''subnet-b'', Some ''subnet-c'']
       [''subnet-a'', ''subnet-b'', ''subnet-c''] [''subnet-a'', ''subnet-b'', ''subnet-c''] []
     = Some (Return (None, [], Some (ErrorString ''received conflicting association states'')),
             [Called GetTransitGatewayMulticastDomainAssociationsOp])"
proof -
  let ?associations = "[subnetIn ''subnet-b'' ''associated'', subnetIn ''subnet-c'' ''associating'']"
  have poll: "ec2GetTransitGatewayMulticastDomainAssociations
                (Some (domainWith ?associations)) ''tgw-mcast-domain-1'' []
              = Some (Return (?associations, None),
                      [] @ [Called GetTransitGatewayMulticastDomainAssociationsOp])"
    by (rule associations_of_domainWith) simp
  have states: "(case subnetStates_of_poll [Some ''subnet-a'', Some ''subnet-b'', Some ''subnet-c'']
           ?associations [''subnet-a'', ''subnet-b'', ''subnet-c''] of
      Panic \<Rightarrow> False
    | Return subnetStates \<Rightarrow>
        subnetStates ''subnet-c'' = Some AssociationStatusCodeAssociating
        \<and> iteration_order [''subnet-a'', ''subnet-b'', ''subnet-c''] subnetStates)"
    by (auto simp: subnetStates_of_poll_def subnetIn_def StringValue_def label_defs
        iteration_order_def)
  have "ec2TransitGatewayMulticastDomainAssociationRefreshFunc
       (Some (domainWith ?associations))
       ''tgw-mcast-domain-1'' [Some ''subnet-a'', Some ''subnet-b'', Some ''subnet-c'']
       [''subnet-a'', ''subnet-b'', ''subnet-c''] [''subnet-a'', ''subnet-b'', ''subnet-c''] []
     = Some (Return (None, [], Some (ErrorString ''received conflicting association states'')),
             [Called GetTransitGatewayMulticastDomainAssociationsOp])"
    using poll
    by (simp add: ec2TransitGatewayMulticastDomainAssociationRefreshFunc_def and_then_def
        io_return_def subnetStates_of_poll_def subnetIn_def StringValue_def label_defs)
  with states show ?thesis by (simp add: in_progress_def)
qed

text \<open>
  Claim C3, as amended. When a label outside the recognized set is met after the first
  position and every label met before it is one and the same terminal label, the poll
  fails with "unhandled association state" and the label.
\<close>

theorem unrecognized_label_after_agreeing_terminals:
  assumes poll: "ec2GetTransitGatewayMulticastDomainAssociations conn domainID h
                   = Some (Return (associations, None), h')"
    and states: "subnetStates_of_poll subnetIDs associations order1 = Return subnetStates"
    and label: "terminal label"
    and first: "subnetStates first = Some label"
    and met: "agree_until subnetStates label state rest"
    and unrecognized: "\<not> recognized state"
  shows "ec2TransitGatewayMulticastDomainAssociationRefreshFunc conn domainID subnetIDs
           order1 (first # rest) h
         = Some (Return (None, [],
                   Some (ErrorString (''unhandled association state: '' @ state))), h')"
proof -
  from first have "compoundState_loop associations subnetStates (first # rest) []
                     = compoundState_loop associations subnetStates rest label"
    by (rule compoundState_loop_first)
  also from label unrecognized met
  have "\<dots> = (None, [], Some (ErrorString (''unhandled association state: '' @ state)))"
    by (rule agree_until_unrecognized)
  finally show ?thesis
    using refresh_of_poll [OF poll states, of "first # rest"] by simp
qed

text \<open>
  An associated subnet followed by one in the state "pendingAcceptance".
\<close>

theorem unrecognized_label_after_agreeing_terminals_witness:
  "terminal ''associated'' \<and> \<not> recognized ''pendingAcceptance''
   \<and> ec2TransitGatewayMulticastDomainAssociationRefreshFunc
       (Some (domainWith [subnetIn ''subnet-a'' ''associated'',
                          subnetIn ''subnet-b'' ''pendingAcceptance'']))
       ''tgw-mcast-domain-1'' [Some ''subnet-a'', Some ''subnet-b'']
       [''subnet-a'', ''subnet-b''] [''subnet-a'', ''subnet-b''] []
     = Some (Return (None, [],
               Some (ErrorString ''unhandled association state: pendingAcceptance'')),
             [Called GetTransitGatewayMulticastDomainAssociationsOp])"
proof -
  let ?associations = "[subnetIn ''subnet-a'' ''associated'',
                        subnetIn ''subnet-b'' ''pendingAcceptance'']"
  have poll: "ec2GetTransitGatewayMulticastDomainAssociations
                (Some (domainWith ?associations)) ''tgw-mcast-domain-1'' []
              = Some (Return (?associations, None),
                      [] @ [Called GetTransitGatewayMulticastDomainAssociationsOp])"
    by (rule associations_of_domainWith) simp
  obtain subnetStates where
    states: "subnetStates_of_poll [Some ''subnet-a'', Some ''subnet-b''] ?associations
               [''subnet-a'', ''subnet-b''] = Return subnetStates"
    and a: "subnetStates ''subnet-a'' = Some ''associated''"
    and b: "subnetStates ''subnet-b'' = Some ''pendingAcceptance''"
    by (simp add: subnetStates_of_poll_def subnetIn_def StringValue_def label_defs)
  have label: "terminal ''associated''"
    by (simp add: terminal_def label_defs)
  have met: "agree_until subnetStates ''associated'' ''pendingAcceptance'' [''subnet-b'']"
    using b by simp
  have unrecognized: "\<not> recognized ''pendingAcceptance''"
    by (simp add: recognized_def label_defs)
  from unrecognized_label_after_agreeing_terminals [OF poll states label a met unrecognized]
    label unrecognized
  show ?thesis by simp
qed

text \<open>
  Claim C3 as stated fails: subnet-c carries the unrecognized label
  "pendingAcceptance", but the range meets the associating subnet-b first and the poll
  returns "associating" with a nil error.
\<close>

theorem unrecognized_label_loses_to_earlier_associating:
  "(case subnetStates_of_poll [Some ''subnet-a'', Some ''subnet-b'', Some ''subnet-c'']
           [subnetIn ''subnet-a'' ''associated'', subnetIn ''subnet-b'' ''associating'',
            subnetIn ''subnet-c'' ''pendingAcceptance'']
           [''subnet-a'', ''subnet-b'', ''subnet-c''] of
      Panic \<Rightarrow> False
    | Return subnetStates \<Rightarrow>
        subnetStates ''subnet-c'' = Some ''pendingAcceptance''
        \<and> iteration_order [''subnet-a'', ''subnet-b'', ''subnet-c''] subnetStates)
   \<and> \<not> recognized ''pendingAcceptance''
   \<and> ec2TransitGatewayMulticastDomainAssociationRefreshFunc
       (Some (domainWith [subnetIn ''subnet-a'' ''associated'',
                          subnetIn ''subnet-b'' ''associating'',
                          subnetIn ''subnet-c'' ''pendingAcceptance'']))
       ''tgw-mcast-domain-1'' [Some ''subnet-a'', Some ''subnet-b'', Some ''subnet-c'']
       [''subnet-a'', ''subnet-b'', ''subnet-c''] [''subnet-a'', ''subnet-b'', ''subnet-c''] []
     = Some (Return (Some (AssociationsPayload
                       [subnetIn ''subnet-a'' ''associated'',
                        subnetIn ''subnet-b'' ''associating'',
                        subnetIn ''subnet-c'' ''pendingAcceptance'']),
                     AssociationStatusCodeAssociating, None),
             [Called GetTransitGatewayMulticastDomainAssociationsOp])"
proof -
  let ?associations = "[subnetIn ''subnet-a'' ''associated'',
                        subnetIn ''subnet-b'' ''associating'',
                        subnetIn ''subnet-c'' ''pendingAcceptance'']"
  have poll: "ec2GetTransitGatewayMulticastDomainAssociations
                (Some (domainWith ?associations)) ''tgw-mcast-domain-1'' []
              = Some (Return (?associations, None),
                      [] @ [Called GetTransitGatewayMulticastDomainAssociationsOp])"
    by (rule associations_of_domainWith) simp
  have states: "(case subnetStates_of_poll [Some ''subnet-a'', Some ''subnet-b'', Some ''subnet-c'']
           ?associations [''subnet-a'', ''subnet-b'', ''subnet-c''] of
      Panic \<Rightarrow> False
    | Return subnetStates \<Rightarrow>
        subnetStates ''subnet-c'' = Some ''pendingAcceptance''
        \<and> iteration_order [''subnet-a'', ''subnet-b'', ''subnet-c''] subnetStates)"
    by (auto simp: subnetStates_of_poll_def subnetIn_def StringValue_def label_defs
        iteration_order_def)
  have "ec2TransitGatewayMulticastDomainAssociationRefreshFunc
       (Some (domainWith ?associations))
       ''tgw-mcast-domain-1'' [Some ''subnet-a'', Some ''subnet-b'', Some ''subnet-c'']
       [''subnet-a'', ''subnet-b'', ''subnet-c''] [''subnet-a'', ''subnet-b'', ''subnet-c''] []
     = Some (Return (Some (AssociationsPayload ?associations),
                     AssociationStatusCodeAssociating, None),
             [Called GetTransitGatewayMulticastDomainAssociationsOp])"
    using poll
    by (simp add: ec2TransitGatewayMulticastDomainAssociationRefreshFunc_def and_then_def
        io_return_def subnetStates_of_poll_def subnetIn_def StringValue_def label_defs)
  with states show ?thesis by (simp add: recognized_def label_defs)
qed

section \<open>The claim about the group visibility waits\<close>

lemma RetryLoop_pos:
  "0 < n \<Longrightarrow> RetryLoop n awaited f h =
     (case f h of
        None \<Rightarrow> None
      | Some (Panic, h') \<Rightarrow> Some (Panic, h')
      | Some (Return None, h') \<Rightarrow> Some (Return None, h')
      | Some (Return (Some (NonRetryableError e)), h') \<Rightarrow> Some (Return (Some e), h')
      | Some (Return (Some (RetryableError e)), h') \<Rightarrow> RetryLoop (n - 1) (Error e) f h')"
  by (cases n) (auto split: option.splits prod.splits go.splits RetryError.splits)

lemma search_refused:
  "domainID \<noteq> [] \<Longrightarrow>
   ec2SearchTransitGatewayMulticastDomainGroups (Some searchRefused) domainID filters h
    = Some (Return ([], Some unauthorized), h @ [Called SearchTransitGatewayMulticastGroupsOp])"
  apply (simp add: ec2SearchTransitGatewayMulticastDomainGroups_def)
  apply (subst collectLoop.simps)
  apply (simp add: call_def searchRefused_def quietEC2_def)
  done

text \<open>
  Claim C4 says that a hard API error of the group search reaches the caller of the
  register and deregister waits. The closure hands the error to the retry helper as not
  retryable and the helper returns it, but the wait function returns an error only when
  that error is a timeout, and nil otherwise: here the search is refused with an
  authorization error and both waits return nil.
\<close>

theorem hard_search_error_is_dropped:
  "ec2SearchTransitGatewayMulticastDomainGroups (Some searchRefused) ''tgw-mcast-domain-1''
      (ec2SearchTransitGatewayMulticastDomainGroupIpFilters True ''224.0.0.1'') []
     = Some (Return ([], Some unauthorized), [Called SearchTransitGatewayMulticastGroupsOp])
   \<and> \<not> isResourceTimeoutError (Some unauthorized)
   \<and> waitForEc2TransitGatewayMulticastDomainGroupRegister (Some searchRefused)
      ''tgw-mcast-domain-1'' groupData1 True []
     = Some (Return None, [Called SearchTransitGatewayMulticastGroupsOp])
   \<and> waitForEc2TransitGatewayMulticastDomainGroupDeregister (Some searchRefused)
      ''tgw-mcast-domain-1'' groupData1 True []
     = Some (Return None, [Called SearchTransitGatewayMulticastGroupsOp])"
  by (simp add: waitForEc2TransitGatewayMulticastDomainGroupRegister_def
      waitForEc2TransitGatewayMulticastDomainGroupDeregister_def groupData1_def
      Retry_def Minute_def RetryLoop_pos registerCheck_def deregisterCheck_def and_then_def
      search_refused io_return_def isResourceTimeoutError_def unauthorized_def)


section \<open>The claims about the refresh functions\<close>

lemma refresh_absent_TransitGateway:
  "ec2DescribeTransitGateway conn transitGatewayID h = Some (Return (result, err), h') \<Longrightarrow>
   reports_absent ''InvalidTransitGatewayID.NotFound'' result err \<Longrightarrow>
   ec2TransitGatewayRefreshFunc conn transitGatewayID h
     = Some (Return (None, TransitGatewayStateDeleted, None), h')"
  by (auto simp: ec2TransitGatewayRefreshFunc_def and_then_def io_return_def
      reports_absent_def isAWSErr_None)

lemma refresh_absent_RouteTable:
  "ec2DescribeTransitGatewayRouteTable conn transitGatewayRouteTableID h
     = Some (Return (result, err), h') \<Longrightarrow>
   reports_absent ''InvalidRouteTableID.NotFound'' result err \<Longrightarrow>
   ec2TransitGatewayRouteTableRefreshFunc conn transitGatewayRouteTableID h
     = Some (Return (None, TransitGatewayRouteTableStateDeleted, None), h')"
  by (auto simp: ec2TransitGatewayRouteTableRefreshFunc_def and_then_def io_return_def
      reports_absent_def isAWSErr_None)

lemma refresh_absent_RouteTableAssociation:
  "ec2DescribeTransitGatewayRouteTableAssociation conn transitGatewayRouteTableID
       transitGatewayAttachmentID h = Some (Return (result, err), h') \<Longrightarrow>
   reports_absent ''InvalidRouteTableID.NotFound'' result err \<Longrightarrow>
   ec2TransitGatewayRouteTableAssociationRefreshFunc conn transitGatewayRouteTableID
       transitGatewayAttachmentID h
     = Some (Return (None, TransitGatewayRouteTableStateDeleted, None), h')"
  by (auto simp: ec2TransitGatewayRouteTableAssociationRefreshFunc_def and_then_def
      io_return_def reports_absent_def isAWSErr_None)

lemma refresh_absent_PeeringAttachment:
  "ec2DescribeTransitGatewayPeeringAttachment conn transitGatewayAttachmentID h
     = Some (Return (result, err), h') \<Longrightarrow>
   reports_absent ''InvalidTransitGatewayAttachmentID.NotFound'' result err \<Longrightarrow>
   ec2TransitGatewayPeeringAttachmentRefreshFunc conn transitGatewayAttachmentID h
     = Some (Return (None, TransitGatewayAttachmentStateDeleted, None), h')"
  by (auto simp: ec2TransitGatewayPeeringAttachmentRefreshFunc_def and_then_def
      io_return_def reports_absent_def isAWSErr_None)

lemma refresh_absent_VpcAttachment:
  "ec2DescribeTransitGatewayVpcAttachment conn transitGatewayAttachmentID h
     = Some (Return (result, err), h') \<Longrightarrow>
   reports_absent ''InvalidTransitGatewayAttachmentID.NotFound'' result err \<Longrightarrow>
   ec2TransitGatewayVpcAttachmentRefreshFunc conn transitGatewayAttachmentID h
     = Some (Return (None, TransitGatewayAttachmentStateDeleted, None), h')"
  by (auto simp: ec2TransitGatewayVpcAttachmentRefreshFunc_def and_then_def
      io_return_def reports_absent_def isAWSErr_None)

lemma refresh_absent_MulticastDomain:
  "ec2DescribeTransitGatewayMulticastDomain conn domainID h
     = Some (Return (result, err), h') \<Longrightarrow>
   reports_absent ''InvalidTransitGatewayMulticastDomainId.NotFound'' result err \<Longrightarrow>
   ec2TransitGatewayMulticastDomainRefreshFunc conn domainID h
     = Some (Return (None, TransitGatewayMulticastDomainStateDeleted, None), h')"
  by (auto simp: ec2TransitGatewayMulticastDomainRefreshFunc_def and_then_def
      io_return_def reports_absent_def isAWSErr_None)

text \<open>
  Claim C5. For each of the six refresh functions (transit gateway, route table, route
  table association, peering attachment, VPC attachment, multicast domain): when its
  describe helper ends with the not-found error code of the resource kind, or with a nil
  result and a nil error, the refresh function returns a nil payload, the "deleted" label
  of the kind and a nil error.
\<close>

theorem absent_resource_is_deleted_state:
  "(ec2DescribeTransitGateway conn transitGatewayID h = Some (Return (tgw, err1), h1)
      \<and> reports_absent ''InvalidTransitGatewayID.NotFound'' tgw err1 \<longrightarrow>
    ec2TransitGatewayRefreshFunc conn transitGatewayID h
      = Some (Return (None, TransitGatewayStateDeleted, None), h1))
   \<and> (ec2DescribeTransitGatewayRouteTable conn routeTableID h = Some (Return (rtb, err2), h2)
      \<and> reports_absent ''InvalidRouteTableID.NotFound'' rtb err2 \<longrightarrow>
    ec2TransitGatewayRouteTableRefreshFunc conn routeTableID h
      = Some (Return (None, TransitGatewayRouteTableStateDeleted, None), h2))
   \<and> (ec2DescribeTransitGatewayRouteTableAssociation conn routeTableID attachmentID h
        = Some (Return (assoc, err3), h3)
      \<and> reports_absent ''InvalidRouteTableID.NotFound'' assoc err3 \<longrightarrow>
    ec2TransitGatewayRouteTableAssociationRefreshFunc conn routeTableID attachmentID h
      = Some (Return (None, TransitGatewayRouteTableStateDeleted, None), h3))
   \<and> (ec2DescribeTransitGatewayPeeringAttachment conn attachmentID h
        = Some (Return (peering, err4), h4)
      \<and> reports_absent ''InvalidTransitGatewayAttachmentID.NotFound'' peering err4 \<longrightarrow>
    ec2TransitGatewayPeeringAttachmentRefreshFunc conn attachmentID h
      = Some (Return (None, TransitGatewayAttachmentStateDeleted, None), h4))
   \<and> (ec2DescribeTransitGatewayVpcAttachment conn attachmentID h
        = Some (Return (vpc, err5), h5)
      \<and> reports_absent ''InvalidTransitGatewayAttachmentID.NotFound'' vpc err5 \<longrightarrow>
    ec2TransitGatewayVpcAttachmentRefreshFunc conn attachmentID h
      = Some (Return (None, TransitGatewayAttachmentStateDeleted, None), h5))
   \<and> (ec2DescribeTransitGatewayMulticastDomain conn domainID h
        = Some (Return (domain, err6), h6)
      \<and> reports_absent ''InvalidTransitGatewayMulticastDomainId.NotFound'' domain err6 \<longrightarrow>
    ec2TransitGatewayMulticastDomainRefreshFunc conn domainID h
      = Some (Return (None, TransitGatewayMulticastDomainStateDeleted, None), h6))"
  by (intro conjI impI; elim conjE)
    (erule (1) refresh_absent_TransitGateway refresh_absent_RouteTable
       refresh_absent_RouteTableAssociation refresh_absent_PeeringAttachment
       refresh_absent_VpcAttachment refresh_absent_MulticastDomain)+

text \<open>
  A remote side that answers the transit gateway read with the not-found code and every
  other read with an empty page: all six refresh functions report "deleted".
\<close>

theorem absent_resource_is_deleted_state_witness:
  "ec2TransitGatewayRefreshFunc (Some gatewayGone) ''tgw-1'' []
     = Some (Return (None, ''deleted'', None), [Called DescribeTransitGatewaysOp])
   \<and> ec2TransitGatewayRouteTableRefreshFunc (Some gatewayGone) ''tgw-rtb-1'' []
     = Some (Return (None, ''deleted'', None), [Called DescribeTransitGatewayRouteTablesOp])
   \<and> ec2TransitGatewayRouteTableAssociationRefreshFunc (Some gatewayGone) ''tgw-rtb-1''
       ''tgw-attach-1'' []
     = Some (Return (None, ''deleted'', None), [Called GetTransitGatewayRouteTableAssociationsOp])
   \<and> ec2TransitGatewayPeeringAttachmentRefreshFunc (Some gatewayGone) ''tgw-attach-1'' []
     = Some (Return (None, ''deleted'', None), [Called DescribeTransitGatewayPeeringAttachmentsOp])
   \<and> ec2TransitGatewayVpcAttachmentRefreshFunc (Some gatewayGone) ''tgw-attach-1'' []
     = Some (Return (None, ''deleted'', None), [Called DescribeTransitGatewayVpcAttachmentsOp])
   \<and> ec2TransitGatewayMulticastDomainRefreshFunc (Some gatewayGone) ''tgw-mcast-domain-1'' []
     = Some (Return (None, ''deleted'', None), [Called DescribeTransitGatewayMulticastDomainsOp])"
proof -
  let ?gone = "AWSError ''InvalidTransitGatewayID.NotFound'' ''The transitGateway ID does not exist''"
  have d1: "ec2DescribeTransitGateway (Some gatewayGone) ''tgw-1'' []
              = Some (Return (None, Some ?gone), [] @ [Called DescribeTransitGatewaysOp])
            \<and> reports_absent ''InvalidTransitGatewayID.NotFound'' None (Some ?gone)"
    unfolding ec2DescribeTransitGateway_def
    by (subst describeLoop.simps)
       (simp add: gatewayGone_def quietEC2_def call_def reports_absent_def isAWSErr_code)
  have d2: "ec2DescribeTransitGatewayRouteTable (Some gatewayGone) ''tgw-rtb-1'' []
              = Some (Return (None, None), [] @ [Called DescribeTransitGatewayRouteTablesOp])
            \<and> reports_absent ''InvalidRouteTableID.NotFound''
                (None :: TransitGatewayRouteTable option) None"
    unfolding ec2DescribeTransitGatewayRouteTable_def
    by (subst describeLoop.simps)
       (simp add: gatewayGone_def quietEC2_def call_def reports_absent_def emptyPage_def)
  have d3: "ec2DescribeTransitGatewayRouteTableAssociation (Some gatewayGone) ''tgw-rtb-1''
              ''tgw-attach-1'' []
              = Some (Return (None, None), [] @ [Called GetTransitGatewayRouteTableAssociationsOp])
            \<and> reports_absent ''InvalidRouteTableID.NotFound''
                (None :: TransitGatewayRouteTableAssociation option) None"
    by (simp add: ec2DescribeTransitGatewayRouteTableAssociation_def and_then_def
        gatewayGone_def quietEC2_def call_def reports_absent_def emptyPage_def io_return_def)
  have d4: "ec2DescribeTransitGatewayPeeringAttachment (Some gatewayGone) ''tgw-attach-1'' []
              = Some (Return (None, None), [] @ [Called DescribeTransitGatewayPeeringAttachmentsOp])
            \<and> reports_absent ''InvalidTransitGatewayAttachmentID.NotFound''
                (None :: TransitGatewayPeeringAttachment option) None"
    unfolding ec2DescribeTransitGatewayPeeringAttachment_def
    by (subst describeLoop.simps)
       (simp add: gatewayGone_def quietEC2_def call_def reports_absent_def emptyPage_def)
  have d5: "ec2DescribeTransitGatewayVpcAttachment (Some gatewayGone) ''tgw-attach-1'' []
              = Some (Return (None, None), [] @ [Called DescribeTransitGatewayVpcAttachmentsOp])
            \<and> reports_absent ''InvalidTransitGatewayAttachmentID.NotFound''
                (None :: TransitGatewayVpcAttachment option) None"
    unfolding ec2DescribeTransitGatewayVpcAttachment_def
    by (subst describeLoop.simps)
       (simp add: gatewayGone_def quietEC2_def call_def reports_absent_def emptyPage_def)
  have d6: "ec2DescribeTransitGatewayMulticastDomain (Some gatewayGone) ''tgw-mcast-domain-1'' []
              = Some (Return (None, None), [] @ [Called DescribeTransitGatewayMulticastDomainsOp])
            \<and> reports_absent ''InvalidTransitGatewayMulticastDomainId.NotFound''
                (None :: TransitGatewayMulticastDomain option) None"
    by (simp add: ec2DescribeTransitGatewayMulticastDomain_def and_then_def
        gatewayGone_def quietEC2_def call_def reports_absent_def emptyPage_def io_return_def)
  note all = absent_resource_is_deleted_state [where conn = "Some gatewayGone" and h = "[]"
      and transitGatewayID = "''tgw-1''" and routeTableID = "''tgw-rtb-1''"
      and attachmentID = "''tgw-attach-1''" and domainID = "''tgw-mcast-domain-1''"]
  from all [THEN conjunct1, rule_format, OF d1]
    all [THEN conjunct2, THEN conjunct1, rule_format, OF d2]
    all [THEN conjunct2, THEN conjunct2, THEN conjunct1, rule_format, OF d3]
    all [THEN conjunct2, THEN conjunct2, THEN conjunct2, THEN conjunct1, rule_format, OF d4]
    all [THEN conjunct2, THEN conjunct2, THEN conjunct2, THEN conjunct2, THEN conjunct1,
      rule_format, OF d5]
    all [THEN conjunct2, THEN conjunct2, THEN conjunct2, THEN conjunct2, THEN conjunct2,
      rule_format, OF d6]
  show ?thesis
    by (simp add: TransitGatewayStateDeleted_def TransitGatewayRouteTableStateDeleted_def
        TransitGatewayAttachmentStateDeleted_def TransitGatewayMulticastDomainStateDeleted_def)
qed

section \<open>The claim about the deletion waits\<close>

text \<open>
  Claim C6. Each of the seven deletion and disassociation wait functions returns nil
  whenever its state wait ends with a resource-not-found error, whatever the state wait
  is.
\<close>

theorem not_found_wait_is_success:
  "(WaitForState engine (waitForEc2TransitGatewayDeletion_stateConf conn transitGatewayID) h
        = Some (Return (result1, err1), h1)
      \<and> isResourceNotFoundError err1 \<longrightarrow>
    waitForEc2TransitGatewayDeletion engine conn transitGatewayID h
      = Some (Return None, h1))
   \<and> (WaitForState engine
        (waitForEc2TransitGatewayRouteTableDeletion_stateConf conn routeTableID) h
        = Some (Return (result2, err2), h2)
      \<and> isResourceNotFoundError err2 \<longrightarrow>
    waitForEc2TransitGatewayRouteTableDeletion engine conn routeTableID h
      = Some (Return None, h2))
   \<and> (WaitForState engine
        (waitForEc2TransitGatewayRouteTableAssociationDeletion_stateConf conn routeTableID
           attachmentID) h
        = Some (Return (result3, err3), h3)
      \<and> isResourceNotFoundError err3 \<longrightarrow>
    waitForEc2TransitGatewayRouteTableAssociationDeletion engine conn routeTableID
        attachmentID h
      = Some (Return None, h3))
   \<and> (WaitForState engine
        (waitForEc2TransitGatewayPeeringAttachmentDeletion_stateConf conn attachmentID) h
        = Some (Return (result4, err4), h4)
      \<and> isResourceNotFoundError err4 \<longrightarrow>
    waitForEc2TransitGatewayPeeringAttachmentDeletion engine conn attachmentID h
      = Some (Return None, h4))
   \<and> (WaitForState engine
        (waitForEc2TransitGatewayVpcAttachmentDeletion_stateConf conn attachmentID) h
        = Some (Return (result5, err5), h5)
      \<and> isResourceNotFoundError err5 \<longrightarrow>
    waitForEc2TransitGatewayVpcAttachmentDeletion engine conn attachmentID h
      = Some (Return None, h5))
   \<and> (WaitForState engine
        (waitForEc2TransitGatewayMulticastDomainDeletion_stateConf conn domainID) h
        = Some (Return (result6, err6), h6)
      \<and> isResourceNotFoundError err6 \<longrightarrow>
    waitForEc2TransitGatewayMulticastDomainDeletion engine conn domainID h
      = Some (Return None, h6))
   \<and> (WaitForState engine
        (waitForEc2TransitGatewayMulticastDomainDisassociation_stateConf orders conn domainID
           subnetIDs) h
        = Some (Return (result7, err7), h7)
      \<and> isResourceNotFoundError err7 \<longrightarrow>
    waitForEc2TransitGatewayMulticastDomainDisassociation engine orders conn domainID
        subnetIDs h
      = Some (Return None, h7))"
  by (simp add: waitForEc2TransitGatewayDeletion_def
      waitForEc2TransitGatewayRouteTableDeletion_def
      waitForEc2TransitGatewayRouteTableAssociationDeletion_def
      waitForEc2TransitGatewayPeeringAttachmentDeletion_def
      waitForEc2TransitGatewayVpcAttachmentDeletion_def
      waitForEc2TransitGatewayMulticastDomainDeletion_def
      waitForEc2TransitGatewayMulticastDomainDisassociation_def
      and_then_def io_return_def)

lemma WaitForState_alreadyGone:
  "WaitForState alreadyGone stateConf h
     = Some (Return (None, Some NotFoundError),
             h @ [WaitForStateCalled (Pending stateConf) (Target stateConf)])
   \<and> isResourceNotFoundError (Some NotFoundError)"
  by (simp add: WaitForState_def alreadyGone_def isResourceNotFoundError_def)

text \<open>
  With a state wait that ends with the not-found error at once, all seven return nil.
\<close>

theorem not_found_wait_is_success_witness:
  "waitForEc2TransitGatewayDeletion alreadyGone (Some quietEC2) ''tgw-1'' []
     = Some (Return None, [WaitForStateCalled [''available'', ''deleting''] [''deleted'']])
   \<and> waitForEc2TransitGatewayRouteTableDeletion alreadyGone (Some quietEC2) ''tgw-rtb-1'' []
     = Some (Return None, [WaitForStateCalled [''available'', ''deleting''] [''deleted'']])
   \<and> waitForEc2TransitGatewayRouteTableAssociationDeletion alreadyGone (Some quietEC2)
       ''tgw-rtb-1'' ''tgw-attach-1'' []
     = Some (Return None, [WaitForStateCalled [''associated'', ''disassociating''] [[]]])
   \<and> waitForEc2TransitGatewayPeeringAttachmentDeletion alreadyGone (Some quietEC2)
       ''tgw-attach-1'' []
     = Some (Return None,
         [WaitForStateCalled [''available'', ''deleting'', ''pendingAcceptance'', ''rejected'']
            [''deleted'']])
   \<and> waitForEc2TransitGatewayVpcAttachmentDeletion alreadyGone (Some quietEC2)
       ''tgw-attach-1'' []
     = Some (Return None, [WaitForStateCalled [''available'', ''deleting''] [''deleted'']])
   \<and> waitForEc2TransitGatewayMulticastDomainDeletion alreadyGone (Some quietEC2)
       ''tgw-mcast-domain-1'' []
     = Some (Return None, [WaitForStateCalled [''available'', ''deleting''] [''deleted'']])
   \<and> waitForEc2TransitGatewayMulticastDomainDisassociation alreadyGone
       (\<lambda>h. ([''subnet-a''], [''subnet-a''])) (Some quietEC2) ''tgw-mcast-domain-1''
       [Some ''subnet-a''] []
     = Some (Return None,
         [WaitForStateCalled [''associated'', ''disassociating''] [''disassociated'']])"
proof -
  note all = not_found_wait_is_success [where engine = alreadyGone and conn = "Some quietEC2"
      and h = "[]" and transitGatewayID = "''tgw-1''" and routeTableID = "''tgw-rtb-1''"
      and attachmentID = "''tgw-attach-1''" and domainID = "''tgw-mcast-domain-1''"
      and orders = "\<lambda>h. ([''subnet-a''], [''subnet-a''])" and subnetIDs = "[Some ''subnet-a'']"]
  from all [THEN conjunct1, rule_format, OF WaitForState_alreadyGone]
    all [THEN conjunct2, THEN conjunct1, rule_format, OF WaitForState_alreadyGone]
    all [THEN conjunct2, THEN conjunct2, THEN conjunct1, rule_format,
      OF WaitForState_alreadyGone]
    all [THEN conjunct2, THEN conjunct2, THEN conjunct2, THEN conjunct1, rule_format,
      OF WaitForState_alreadyGone]
    all [THEN conjunct2, THEN conjunct2, THEN conjunct2, THEN conjunct2, THEN conjunct1,
      rule_format, OF WaitForState_alreadyGone]
    all [THEN conjunct2, THEN conjunct2, THEN conjunct2, THEN conjunct2, THEN conjunct2,
      THEN conjunct1, rule_format, OF WaitForState_alreadyGone]
    all [THEN conjunct2, THEN conjunct2, THEN conjunct2, THEN conjunct2, THEN conjunct2,
      THEN conjunct2, rule_format, OF WaitForState_alreadyGone]
  show ?thesis
    by (simp add: waitForEc2TransitGatewayDeletion_stateConf_def
      waitForEc2TransitGatewayRouteTableDeletion_stateConf_def
      waitForEc2TransitGatewayRouteTableAssociationDeletion_stateConf_def
      waitForEc2TransitGatewayPeeringAttachmentDeletion_stateConf_def
      waitForEc2TransitGatewayVpcAttachmentDeletion_stateConf_def
      waitForEc2TransitGatewayMulticastDomainDeletion_stateConf_def
      waitForEc2TransitGatewayMulticastDomainDisassociation_stateConf_def
      TransitGatewayStateAvailable_def TransitGatewayStateDeleting_def
      TransitGatewayStateDeleted_def TransitGatewayRouteTableStateAvailable_def
      TransitGatewayRouteTableStateDeleting_def TransitGatewayRouteTableStateDeleted_def
      TransitGatewayAssociationStateAssociated_def
      TransitGatewayAssociationStateDisassociating_def
      TransitGatewayAttachmentStateAvailable_def TransitGatewayAttachmentStateDeleting_def
      TransitGatewayAttachmentStateDeleted_def TransitGatewayAttachmentStatePendingAcceptance_def
      TransitGatewayAttachmentStateRejected_def TransitGatewayMulticastDomainStateAvailable_def
      TransitGatewayMulticastDomainStateDeleting_def
      TransitGatewayMulticastDomainStateDeleted_def label_defs)
qed

section \<open>The claim about the failed peering attachment\<close>

lemma failed_poll_ends_the_wait:
  "Refresh stateConf h = Some (Return (result, label, Some e), h') \<Longrightarrow>
   ConvergenceEngine_poll n stateConf h = Some (Return (None, Some e), h')"
  by (cases n) (simp_all add: ConvergenceEngine_transition_def)

lemma failed_poll_ends_the_engine:
  "Refresh stateConf h = Some (Return (result, label, Some e), h') \<Longrightarrow>
   ConvergenceEngine stateConf h = Some (Return (None, Some e))"
  by (simp add: ConvergenceEngine_def failed_poll_ends_the_wait)

lemma failed_peering_refresh:
  assumes "ec2DescribeTransitGatewayPeeringAttachment conn transitGatewayAttachmentID h
             = Some (Return (Some attachment, None), h')"
    and "StringValue (TransitGatewayPeeringAttachment.State attachment)
           = TransitGatewayAttachmentStateFailed"
    and "Status attachment = Some status"
  shows "ec2TransitGatewayPeeringAttachmentRefreshFunc conn transitGatewayAttachmentID h
         = Some (Return (Some (PeeringAttachmentPayload attachment),
                   TransitGatewayAttachmentStateFailed,
                   Some (ErrorString (StringValue (Code status) @ '': ''
                     @ StringValue (Message status)))), h')"
  using assms
  by (simp add: ec2TransitGatewayPeeringAttachmentRefreshFunc_def and_then_def io_return_def
      isAWSErr_None)

text \<open>
  Claim C8. Let a peering attachment be in the state "failed" with a status that is not
  nil. When the describe helper returns it, the peering attachment refresh function
  returns the attachment, the label "failed" and a non-nil error whose text is the
  status code, a colon and the status message; and the convergence engine of the spec, on
  any configuration that polls with this refresh function, fails with that very error
  at this poll: its history is the one after the single describe call, so it polls no
  further. The three peering attachment waits (acceptance, creation, deletion), run
  with that engine, return this error.
\<close>

theorem failed_peering_attachment_is_an_error:
  assumes failed: "StringValue (TransitGatewayPeeringAttachment.State attachment)
                     = TransitGatewayAttachmentStateFailed"
    and status: "Status attachment = Some status"
  shows
    "(ec2DescribeTransitGatewayPeeringAttachment conn transitGatewayAttachmentID h
        = Some (Return (Some attachment, None), h') \<longrightarrow>
      ec2TransitGatewayPeeringAttachmentRefreshFunc conn transitGatewayAttachmentID h
        = Some (Return (Some (PeeringAttachmentPayload attachment),
                  TransitGatewayAttachmentStateFailed,
                  Some (ErrorString (StringValue (Code status) @ '': ''
                    @ StringValue (Message status)))), h')
      \<and> (Refresh stateConf
            = ec2TransitGatewayPeeringAttachmentRefreshFunc conn transitGatewayAttachmentID
          \<longrightarrow>
          ConvergenceEngine_poll n stateConf h
            = Some (Return (None,
                      Some (ErrorString (StringValue (Code status) @ '': ''
                        @ StringValue (Message status)))), h')))
     \<and> (ec2DescribeTransitGatewayPeeringAttachment conn transitGatewayAttachmentID
          (h @ [WaitForStateCalled
                  (Pending (waitForEc2TransitGatewayPeeringAttachmentAcceptance_stateConf conn
                     transitGatewayAttachmentID))
                  (Target (waitForEc2TransitGatewayPeeringAttachmentAcceptance_stateConf conn
                     transitGatewayAttachmentID))])
        = Some (Return (Some attachment, None), h1) \<longrightarrow>
      waitForEc2TransitGatewayPeeringAttachmentAcceptance ConvergenceEngine conn
          transitGatewayAttachmentID h
        = Some (Return (Some (ErrorString (StringValue (Code status) @ '': ''
                  @ StringValue (Message status)))),
                h @ [WaitForStateCalled
                  (Pending (waitForEc2TransitGatewayPeeringAttachmentAcceptance_stateConf conn
                     transitGatewayAttachmentID))
                  (Target (waitForEc2TransitGatewayPeeringAttachmentAcceptance_stateConf conn
                     transitGatewayAttachmentID))]))
     \<and> (ec2DescribeTransitGatewayPeeringAttachment conn transitGatewayAttachmentID
          (h @ [WaitForStateCalled
                  (Pending (waitForEc2TransitGatewayPeeringAttachmentCreation_stateConf conn
                     transitGatewayAttachmentID))
                  (Target (waitForEc2TransitGatewayPeeringAttachmentCreation_stateConf conn
                     transitGatewayAttachmentID))])
        = Some (Return (Some attachment, None), h2) \<longrightarrow>
      waitForEc2TransitGatewayPeeringAttachmentCreation ConvergenceEngine conn
          transitGatewayAttachmentID h
        = Some (Return (Some (ErrorString (StringValue (Code status) @ '': ''
                  @ StringValue (Message status)))),
                h @ [WaitForStateCalled
                  (Pending (waitForEc2TransitGatewayPeeringAttachmentCreation_stateConf conn
                     transitGatewayAttachmentID))
                  (Target (waitForEc2TransitGatewayPeeringAttachmentCreation_stateConf conn
                     transitGatewayAttachmentID))]))
     \<and> (ec2DescribeTransitGatewayPeeringAttachment conn transitGatewayAttachmentID
          (h @ [WaitForStateCalled
                  (Pending (waitForEc2TransitGatewayPeeringAttachmentDeletion_stateConf conn
                     transitGatewayAttachmentID))
                  (Target (waitForEc2TransitGatewayPeeringAttachmentDeletion_stateConf conn
                     transitGatewayAttachmentID))])
        = Some (Return (Some attachment, None), h3) \<longrightarrow>
      waitForEc2TransitGatewayPeeringAttachmentDeletion ConvergenceEngine conn
          transitGatewayAttachmentID h
        = Some (Return (Some (ErrorString (StringValue (Code status) @ '': ''
                  @ StringValue (Message status)))),
                h @ [WaitForStateCalled
                  (Pending (waitForEc2TransitGatewayPeeringAttachmentDeletion_stateConf conn
                     transitGatewayAttachmentID))
                  (Target (waitForEc2TransitGatewayPeeringAttachmentDeletion_stateConf conn
                     transitGatewayAttachmentID))]))"
proof (intro conjI impI)
  assume describe: "ec2DescribeTransitGatewayPeeringAttachment conn transitGatewayAttachmentID h
                      = Some (Return (Some attachment, None), h')"
  from failed_peering_refresh [OF describe failed status]
  show refresh: "ec2TransitGatewayPeeringAttachmentRefreshFunc conn transitGatewayAttachmentID h
        = Some (Return (Some (PeeringAttachmentPayload attachment),
                  TransitGatewayAttachmentStateFailed,
                  Some (ErrorString (StringValue (Code status) @ '': ''
                    @ StringValue (Message status)))), h')" .
  assume "Refresh stateConf
            = ec2TransitGatewayPeeringAttachmentRefreshFunc conn transitGatewayAttachmentID"
  with refresh have "Refresh stateConf h
        = Some (Return (Some (PeeringAttachmentPayload attachment),
                  TransitGatewayAttachmentStateFailed,
                  Some (ErrorString (StringValue (Code status) @ '': ''
                    @ StringValue (Message status)))), h')"
    by simp
  then show "ConvergenceEngine_poll n stateConf h
            = Some (Return (None,
                      Some (ErrorString (StringValue (Code status) @ '': ''
                        @ StringValue (Message status)))), h')"
    by (rule failed_poll_ends_the_wait)
next
  let ?conf = "waitForEc2TransitGatewayPeeringAttachmentAcceptance_stateConf conn
                 transitGatewayAttachmentID"
  assume "ec2DescribeTransitGatewayPeeringAttachment conn transitGatewayAttachmentID
            (h @ [WaitForStateCalled (Pending ?conf) (Target ?conf)])
          = Some (Return (Some attachment, None), h1)"
  from failed_peering_refresh [OF this failed status]
  have "Refresh ?conf (h @ [WaitForStateCalled (Pending ?conf) (Target ?conf)])
        = Some (Return (Some (PeeringAttachmentPayload attachment),
                  TransitGatewayAttachmentStateFailed,
                  Some (ErrorString (StringValue (Code status) @ '': ''
                    @ StringValue (Message status)))), h1)"
    by (simp add: waitForEc2TransitGatewayPeeringAttachmentAcceptance_stateConf_def)
  from failed_poll_ends_the_engine [OF this]
  show "waitForEc2TransitGatewayPeeringAttachmentAcceptance ConvergenceEngine conn
          transitGatewayAttachmentID h
        = Some (Return (Some (ErrorString (StringValue (Code status) @ '': ''
                  @ StringValue (Message status)))),
                h @ [WaitForStateCalled (Pending ?conf) (Target ?conf)])"
    by (simp add: waitForEc2TransitGatewayPeeringAttachmentAcceptance_def and_then_def
        WaitForState_def io_return_def)
next
  let ?conf = "waitForEc2TransitGatewayPeeringAttachmentCreation_stateConf conn
                 transitGatewayAttachmentID"
  assume "ec2DescribeTransitGatewayPeeringAttachment conn transitGatewayAttachmentID
            (h @ [WaitForStateCalled (Pending ?conf) (Target ?conf)])
          = Some (Return (Some attachment, None), h2)"
  from failed_peering_refresh [OF this failed status]
  have "Refresh ?conf (h @ [WaitForStateCalled (Pending ?conf) (Target ?conf)])
        = Some (Return (Some (PeeringAttachmentPayload attachment),
                  TransitGatewayAttachmentStateFailed,
                  Some (ErrorString (StringValue (Code status) @ '': ''
                    @ StringValue (Message status)))), h2)"
    by (simp add: waitForEc2TransitGatewayPeeringAttachmentCreation_stateConf_def)
  from failed_poll_ends_the_engine [OF this]
  show "waitForEc2TransitGatewayPeeringAttachmentCreation ConvergenceEngine conn
          transitGatewayAttachmentID h
        = Some (Return (Some (ErrorString (StringValue (Code status) @ '': ''
                  @ StringValue (Message status)))),
                h @ [WaitForStateCalled (Pending ?conf) (Target ?conf)])"
    by (simp add: waitForEc2TransitGatewayPeeringAttachmentCreation_def and_then_def
        WaitForState_def io_return_def)
next
  let ?conf = "waitForEc2TransitGatewayPeeringAttachmentDeletion_stateConf conn
                 transitGatewayAttachmentID"
  assume "ec2DescribeTransitGatewayPeeringAttachment conn transitGatewayAttachmentID
            (h @ [WaitForStateCalled (Pending ?conf) (Target ?conf)])
          = Some (Return (Some attachment, None), h3)"
  from failed_peering_refresh [OF this failed status]
  have "Refresh ?conf (h @ [WaitForStateCalled (Pending ?conf) (Target ?conf)])
        = Some (Return (Some (PeeringAttachmentPayload attachment),
                  TransitGatewayAttachmentStateFailed,
                  Some (ErrorString (StringValue (Code status) @ '': ''
                    @ StringValue (Message status)))), h3)"
    by (simp add: waitForEc2TransitGatewayPeeringAttachmentDeletion_stateConf_def)
  from failed_poll_ends_the_engine [OF this]
  show "waitForEc2TransitGatewayPeeringAttachmentDeletion ConvergenceEngine conn
          transitGatewayAttachmentID h
        = Some (Return (Some (ErrorString (StringValue (Code status) @ '': ''
                  @ StringValue (Message status)))),
                h @ [WaitForStateCalled (Pending ?conf) (Target ?conf)])"
    by (simp add: waitForEc2TransitGatewayPeeringAttachmentDeletion_def and_then_def
        WaitForState_def io_return_def isResourceNotFoundError_def)
qed

lemma describe_failedPeering:
  "ec2DescribeTransitGatewayPeeringAttachment (Some (peeringWith failedPeering))
     ''tgw-attach-1'' h
   = Some (Return (Some failedPeering, None),
           h @ [Called DescribeTransitGatewayPeeringAttachmentsOp])"
  unfolding ec2DescribeTransitGatewayPeeringAttachment_def
  by (subst describeLoop.simps)
     (simp add: peeringWith_def quietEC2_def call_def failedPeering_def StringValue_def)

text \<open>
  A failed attachment with the status code "invalidPeer": the refresh function returns
  the error, the engine ends after the one describe call, and the three waits return the
  error.
\<close>

theorem failed_peering_attachment_is_an_error_witness:
  "ec2TransitGatewayPeeringAttachmentRefreshFunc (Some (peeringWith failedPeering))
     ''tgw-attach-1'' []
   = Some (Return (Some (PeeringAttachmentPayload failedPeering), ''failed'',
             Some (ErrorString ''invalidPeer: the peer transit gateway does not exist'')),
           [Called DescribeTransitGatewayPeeringAttachmentsOp])
   \<and> ConvergenceEngine_poll 599
       (waitForEc2TransitGatewayPeeringAttachmentCreation_stateConf
          (Some (peeringWith failedPeering)) ''tgw-attach-1'') []
   = Some (Return (None,
             Some (ErrorString ''invalidPeer: the peer transit gateway does not exist'')),
           [Called DescribeTransitGatewayPeeringAttachmentsOp])
   \<and> waitForEc2TransitGatewayPeeringAttachmentAcceptance ConvergenceEngine
       (Some (peeringWith failedPeering)) ''tgw-attach-1'' []
   = Some (Return (Some (ErrorString ''invalidPeer: the peer transit gateway does not exist'')),
           [WaitForStateCalled [''pending'', ''pendingAcceptance''] [''available'']])
   \<and> waitForEc2TransitGatewayPeeringAttachmentCreation ConvergenceEngine
       (Some (peeringWith failedPeering)) ''tgw-attach-1'' []
   = Some (Return (Some (ErrorString ''invalidPeer: the peer transit gateway does not exist'')),
           [WaitForStateCalled [''failing'', ''pending'', ''initiatingRequest'']
              [''available'', ''pendingAcceptance'']])
   \<and> waitForEc2TransitGatewayPeeringAttachmentDeletion ConvergenceEngine
       (Some (peeringWith failedPeering)) ''tgw-attach-1'' []
   = Some (Return (Some (ErrorString ''invalidPeer: the peer transit gateway does not exist'')),
           [WaitForStateCalled [''available'', ''deleting'', ''pendingAcceptance'', ''rejected'']
              [''deleted'']])"
proof -
  have failed: "StringValue (TransitGatewayPeeringAttachment.State failedPeering)
                  = TransitGatewayAttachmentStateFailed"
    by (simp add: failedPeering_def StringValue_def TransitGatewayAttachmentStateFailed_def)
  have status: "Status failedPeering
                  = Some \<lparr>Code = Some ''invalidPeer'',
                           Message = Some ''the peer transit gateway does not exist''\<rparr>"
    by (simp add: failedPeering_def)
  have conf: "Refresh (waitForEc2TransitGatewayPeeringAttachmentCreation_stateConf
                 (Some (peeringWith failedPeering)) ''tgw-attach-1'')
              = ec2TransitGatewayPeeringAttachmentRefreshFunc
                  (Some (peeringWith failedPeering)) ''tgw-attach-1''"
    by (simp add: waitForEc2TransitGatewayPeeringAttachmentCreation_stateConf_def)
  note all = failed_peering_attachment_is_an_error [OF failed status,
      where conn = "Some (peeringWith failedPeering)"
        and transitGatewayAttachmentID = "''tgw-attach-1''" and h = "[]"]
  note first = all [THEN conjunct1, rule_format, OF describe_failedPeering]
  from first [THEN conjunct1]
    first [THEN conjunct2, rule_format, OF conf, of 599]
    all [THEN conjunct2, THEN conjunct1, rule_format, OF describe_failedPeering]
    all [THEN conjunct2, THEN conjunct2, THEN conjunct1, rule_format,
      OF describe_failedPeering]
    all [THEN conjunct2, THEN conjunct2, THEN conjunct2, rule_format,
      OF describe_failedPeering]
  show ?thesis
    by (simp add: StringValue_def TransitGatewayAttachmentStateFailed_def
        waitForEc2TransitGatewayPeeringAttachmentAcceptance_stateConf_def
        waitForEc2TransitGatewayPeeringAttachmentCreation_stateConf_def
        waitForEc2TransitGatewayPeeringAttachmentDeletion_stateConf_def
        TransitGatewayAttachmentStatePending_def TransitGatewayAttachmentStateFailing_def
        TransitGatewayAttachmentStatePendingAcceptance_def
        TransitGatewayAttachmentStateAvailable_def TransitGatewayAttachmentStateDeleting_def
        TransitGatewayAttachmentStateDeleted_def TransitGatewayAttachmentStateRejected_def)
qed

section \<open>The claim about the update helpers\<close>

lemma describe_association_history:
  "ec2DescribeTransitGatewayRouteTableAssociation conn routeTableID attachmentID h
     = Some (outcome, h1) \<Longrightarrow>
   h1 = h \<or> h1 = h @ [Called GetTransitGatewayRouteTableAssociationsOp]"
  by (auto simp: ec2DescribeTransitGatewayRouteTableAssociation_def and_then_def call_def
      io_return_def split: if_splits option.splits list.splits prod.splits)

lemma describe_propagation_history:
  "ec2DescribeTransitGatewayRouteTablePropagation conn routeTableID attachmentID h
     = Some (outcome, h1) \<Longrightarrow>
   h1 = h \<or> h1 = h @ [Called GetTransitGatewayRouteTablePropagationsOp]"
  by (auto simp: ec2DescribeTransitGatewayRouteTablePropagation_def and_then_def call_def
      io_return_def split: if_splits option.splits list.splits prod.splits)

lemma creation_wait_history:
  "waitForEc2TransitGatewayRouteTableAssociationCreation engine conn routeTableID attachmentID h
     = Some (outcome, h1) \<Longrightarrow>
   h1 = h @ [WaitForStateCalled [TransitGatewayAssociationStateAssociating]
               [TransitGatewayAssociationStateAssociated]]"
  by (auto simp: waitForEc2TransitGatewayRouteTableAssociationCreation_def and_then_def
      WaitForState_def waitForEc2TransitGatewayRouteTableAssociationCreation_stateConf_def
      io_return_def split: option.splits go.splits)

lemma deletion_wait_history:
  "waitForEc2TransitGatewayRouteTableAssociationDeletion engine conn routeTableID attachmentID h
     = Some (outcome, h1) \<Longrightarrow>
   h1 = h @ [WaitForStateCalled [TransitGatewayAssociationStateAssociated,
               TransitGatewayAssociationStateDisassociating] [[]]]"
  by (auto simp: waitForEc2TransitGatewayRouteTableAssociationDeletion_def and_then_def
      WaitForState_def waitForEc2TransitGatewayRouteTableAssociationDeletion_stateConf_def
      io_return_def split: option.splits go.splits if_splits)

lemma association_update_steps:
  assumes run: "ec2TransitGatewayRouteTableAssociationUpdate engine conn routeTableID
                  attachmentID associate h = Some (Return err, h')"
  shows "\<exists>h1 steps. h' = h1 @ steps
           \<and> (h1 = h \<or> h1 = h @ [Called GetTransitGatewayRouteTableAssociationsOp])
           \<and> (steps = []
              \<or> (err \<noteq> None \<and> (steps = [Called AssociateTransitGatewayRouteTableOp]
                     \<or> steps = [Called DisassociateTransitGatewayRouteTableOp]))
              \<or> steps = [Called AssociateTransitGatewayRouteTableOp,
                   WaitForStateCalled [TransitGatewayAssociationStateAssociating]
                     [TransitGatewayAssociationStateAssociated]]
              \<or> steps = [Called DisassociateTransitGatewayRouteTableOp,
                   WaitForStateCalled [TransitGatewayAssociationStateAssociated,
                     TransitGatewayAssociationStateDisassociating] [[]]])"
proof -
  from run obtain existing derr h1 where
    describe: "ec2DescribeTransitGatewayRouteTableAssociation conn routeTableID attachmentID h
                 = Some (Return (existing, derr), h1)"
    by (auto simp: ec2TransitGatewayRouteTableAssociationUpdate_def and_then_def
        split: option.splits prod.splits go.splits)
  from describe_association_history [OF describe]
  have h1: "h1 = h \<or> h1 = h @ [Called GetTransitGatewayRouteTableAssociationsOp]" .
  show ?thesis
  proof (cases derr)
    case (Some e)
    with run describe have "h' = h1 @ []"
      by (simp add: ec2TransitGatewayRouteTableAssociationUpdate_def and_then_def io_return_def)
    with h1 show ?thesis by blast
  next
    case None
    show ?thesis
    proof (cases "associate \<and> existing = None")
      case True
      from run describe None True obtain merr h2 where
        mutate: "call AssociateTransitGatewayRouteTableOp AssociateTransitGatewayRouteTable conn
                   (routeTableInput routeTableID attachmentID) h1 = Some (Return merr, h2)"
        and rest: "(case merr of
                      Some e \<Rightarrow> io_return (Some (ErrorString
                        (''error associating EC2 Transit Gateway Route Table (''
                           @ routeTableID @ '') association ('' @ attachmentID @ ''): ''
                           @ Error e)))
                    | None \<Rightarrow>
                        and_then
                          (waitForEc2TransitGatewayRouteTableAssociationCreation engine conn
                             routeTableID attachmentID)
                          (\<lambda>err. case err of
                             Some e \<Rightarrow> io_return (Some (ErrorString
                               (''error waiting for EC2 Transit Gateway Route Table (''
                                  @ routeTableID @ '') association ('' @ attachmentID
                                  @ ''): '' @ Error e)))
                           | None \<Rightarrow> io_return None)) h2 = Some (Return err, h')"
        by (auto simp: ec2TransitGatewayRouteTableAssociationUpdate_def and_then_def
            split: option.splits prod.splits go.splits)
      from mutate have h2: "h2 = h1 @ [Called AssociateTransitGatewayRouteTableOp]"
        by (auto simp: call_def split: option.splits)
      show ?thesis
      proof (cases merr)
        case (Some e)
        with rest h2 have "h' = h1 @ [Called AssociateTransitGatewayRouteTableOp] \<and> err \<noteq> None"
          by (auto simp: io_return_def)
        with h1 show ?thesis by blast
      next
        case None
        with rest obtain werr h3 where
          wait: "waitForEc2TransitGatewayRouteTableAssociationCreation engine conn
                   routeTableID attachmentID h2 = Some (werr, h3)"
          and h3: "h' = h3"
          by (auto simp: and_then_def io_return_def split: option.splits prod.splits go.splits)
        from creation_wait_history [OF wait] h2 h3
        have "h' = h1 @ [Called AssociateTransitGatewayRouteTableOp,
                WaitForStateCalled [TransitGatewayAssociationStateAssociating]
                  [TransitGatewayAssociationStateAssociated]]"
          by simp
        with h1 show ?thesis by blast
      qed
    next
      case False
      note not_associate = False
      show ?thesis
      proof (cases "\<not> associate \<and> existing \<noteq> None")
        case True
        from run describe None not_associate True obtain merr h2 where
          mutate: "call DisassociateTransitGatewayRouteTableOp
                     DisassociateTransitGatewayRouteTable conn
                     (routeTableInput routeTableID attachmentID) h1 = Some (Return merr, h2)"
          and rest: "(case merr of
                        Some e \<Rightarrow> io_return (Some (ErrorString
                          (''error disassociating EC2 Transit Gateway Route Table (''
                             @ routeTableID @ '') disassociation ('' @ attachmentID @ ''): ''
                             @ Error e)))
                      | None \<Rightarrow>
                          and_then
                            (waitForEc2TransitGatewayRouteTableAssociationDeletion engine conn
                               routeTableID attachmentID)
                            (\<lambda>err. case err of
                               Some e \<Rightarrow> io_return (Some (ErrorString
                                 (''error waiting for EC2 Transit Gateway Route Table (''
                                    @ routeTableID @ '') disassociation ('' @ attachmentID
                                    @ ''): '' @ Error e)))
                             | None \<Rightarrow> io_return None)) h2 = Some (Return err, h')"
          by (auto simp: ec2TransitGatewayRouteTableAssociationUpdate_def and_then_def
              split: option.splits prod.splits go.splits)
        from mutate have h2: "h2 = h1 @ [Called DisassociateTransitGatewayRouteTableOp]"
          by (auto simp: call_def split: option.splits)
        show ?thesis
        proof (cases merr)
          case (Some e)
          with rest h2
          have "h' = h1 @ [Called DisassociateTransitGatewayRouteTableOp] \<and> err \<noteq> None"
            by (auto simp: io_return_def)
          with h1 show ?thesis by blast
        next
          case None
          with rest obtain werr h3 where
            wait: "waitForEc2TransitGatewayRouteTableAssociationDeletion engine conn
                     routeTableID attachmentID h2 = Some (werr, h3)"
            and h3: "h' = h3"
            by (auto simp: and_then_def io_return_def split: option.splits prod.splits go.splits)
          from deletion_wait_history [OF wait] h2 h3
          have "h' = h1 @ [Called DisassociateTransitGatewayRouteTableOp,
                  WaitForStateCalled [TransitGatewayAssociationStateAssociated,
                    TransitGatewayAssociationStateDisassociating] [[]]]"
            by simp
          with h1 show ?thesis by blast
        qed
      next
        case False
        with run describe None not_associate have "h' = h1 @ []"
          by (auto simp: ec2TransitGatewayRouteTableAssociationUpdate_def and_then_def
              io_return_def)
        with h1 show ?thesis by blast
      qed
    qed
  qed
qed

lemma propagation_update_steps:
  assumes run: "ec2TransitGatewayRouteTablePropagationUpdate conn routeTableID attachmentID
                  enablePropagation h = Some (outcome, h')"
  shows "\<exists>h1 steps. h' = h1 @ steps
           \<and> (h1 = h \<or> h1 = h @ [Called GetTransitGatewayRouteTablePropagationsOp])
           \<and> (steps = [] \<or> steps = [Called EnableTransitGatewayRouteTablePropagationOp]
              \<or> steps = [Called DisableTransitGatewayRouteTablePropagationOp])"
proof -
  from run obtain described h1 where
    describe: "ec2DescribeTransitGatewayRouteTablePropagation conn routeTableID attachmentID h
                 = Some (described, h1)"
    by (auto simp: ec2TransitGatewayRouteTablePropagationUpdate_def and_then_def
        split: option.splits)
  from describe_propagation_history [OF describe]
  have h1: "h1 = h \<or> h1 = h @ [Called GetTransitGatewayRouteTablePropagationsOp]" .
  from run describe
  have "h' = h1 \<or> h' = h1 @ [Called EnableTransitGatewayRouteTablePropagationOp]
        \<or> h' = h1 @ [Called DisableTransitGatewayRouteTablePropagationOp]"
    by (auto simp: ec2TransitGatewayRouteTablePropagationUpdate_def and_then_def call_def
        io_return_def split: option.splits prod.splits go.splits if_splits)
  with h1 show ?thesis by auto
qed

lemma mutation_simps:
  "is_mutation (Called GetTransitGatewayRouteTableAssociationsOp) = False"
  "is_mutation (Called GetTransitGatewayRouteTablePropagationsOp) = False"
  "is_mutation (WaitForStateCalled pending target) = False"
  "is_mutation (Called AssociateTransitGatewayRouteTableOp) = True"
  "is_mutation (Called DisassociateTransitGatewayRouteTableOp) = True"
  "is_mutation (Called EnableTransitGatewayRouteTablePropagationOp) = True"
  "is_mutation (Called DisableTransitGatewayRouteTablePropagationOp) = True"
  by (simp_all add: is_mutation_def)

lemma association_update_associates:
  assumes describe: "ec2DescribeTransitGatewayRouteTableAssociation (Some c) routeTableID
                       attachmentID h = Some (Return (None, None), h1)"
    and mutation: "AssociateTransitGatewayRouteTable c h1
                     (routeTableInput routeTableID attachmentID) = None"
    and wait: "engine
                 (waitForEc2TransitGatewayRouteTableAssociationCreation_stateConf (Some c)
                    routeTableID attachmentID)
                 (h1 @ [Called AssociateTransitGatewayRouteTableOp,
                        WaitForStateCalled [TransitGatewayAssociationStateAssociating]
                          [TransitGatewayAssociationStateAssociated]]) = Some outcome"
  shows "\<exists>returned.
           ec2TransitGatewayRouteTableAssociationUpdate engine (Some c) routeTableID
             attachmentID True h
           = Some (returned,
               h1 @ [Called AssociateTransitGatewayRouteTableOp,
                     WaitForStateCalled [TransitGatewayAssociationStateAssociating]
                       [TransitGatewayAssociationStateAssociated]])
           \<and> (returned = Return None \<longleftrightarrow> (\<exists>result. outcome = Return (result, None)))"
proof -
  have started: "WaitForState engine
          (waitForEc2TransitGatewayRouteTableAssociationCreation_stateConf (Some c)
             routeTableID attachmentID)
          (h1 @ [Called AssociateTransitGatewayRouteTableOp])
        = Some (outcome,
            h1 @ [Called AssociateTransitGatewayRouteTableOp,
                  WaitForStateCalled [TransitGatewayAssociationStateAssociating]
                    [TransitGatewayAssociationStateAssociated]])"
    using wait
    by (simp add: WaitForState_def
        waitForEc2TransitGatewayRouteTableAssociationCreation_stateConf_def)
  show ?thesis
  proof (cases outcome)
    case Panic
    with describe mutation started show ?thesis
      by (simp add: ec2TransitGatewayRouteTableAssociationUpdate_def and_then_def call_def
          waitForEc2TransitGatewayRouteTableAssociationCreation_def)
  next
    case (Return pair)
    obtain result werr where pair: "pair = (result, werr)" by (cases pair)
    show ?thesis
    proof (cases werr)
      case None
      with describe mutation started Return pair show ?thesis
        by (simp add: ec2TransitGatewayRouteTableAssociationUpdate_def and_then_def call_def
            waitForEc2TransitGatewayRouteTableAssociationCreation_def io_return_def)
    next
      case (Some e)
      with describe mutation started Return pair show ?thesis
        by (simp add: ec2TransitGatewayRouteTableAssociationUpdate_def and_then_def call_def
            waitForEc2TransitGatewayRouteTableAssociationCreation_def io_return_def)
    qed
  qed
qed

lemma association_update_disassociates:
  assumes describe: "ec2DescribeTransitGatewayRouteTableAssociation (Some c) routeTableID
                       attachmentID h = Some (Return (Some existing, None), h1)"
    and mutation: "DisassociateTransitGatewayRouteTable c h1
                     (routeTableInput routeTableID attachmentID) = None"
    and wait: "engine
                 (waitForEc2TransitGatewayRouteTableAssociationDeletion_stateConf (Some c)
                    routeTableID attachmentID)
                 (h1 @ [Called DisassociateTransitGatewayRouteTableOp,
                        WaitForStateCalled [TransitGatewayAssociationStateAssociated,
                          TransitGatewayAssociationStateDisassociating] [[]]]) = Some outcome"
  shows "\<exists>returned.
           ec2TransitGatewayRouteTableAssociationUpdate engine (Some c) routeTableID
             attachmentID False h
           = Some (returned,
               h1 @ [Called DisassociateTransitGatewayRouteTableOp,
                     WaitForStateCalled [TransitGatewayAssociationStateAssociated,
                       TransitGatewayAssociationStateDisassociating] [[]]])
           \<and> (returned = Return None \<longleftrightarrow>
                (\<exists>result werr. outcome = Return (result, werr)
                   \<and> (werr = None \<or> isResourceNotFoundError werr)))"
proof -
  have started: "WaitForState engine
          (waitForEc2TransitGatewayRouteTableAssociationDeletion_stateConf (Some c)
             routeTableID attachmentID)
          (h1 @ [Called DisassociateTransitGatewayRouteTableOp])
        = Some (outcome,
            h1 @ [Called DisassociateTransitGatewayRouteTableOp,
                  WaitForStateCalled [TransitGatewayAssociationStateAssociated,
                    TransitGatewayAssociationStateDisassociating] [[]]])"
    using wait
    by (simp add: WaitForState_def
        waitForEc2TransitGatewayRouteTableAssociationDeletion_stateConf_def)
  show ?thesis
  proof (cases outcome)
    case Panic
    with describe mutation started show ?thesis
      by (simp add: ec2TransitGatewayRouteTableAssociationUpdate_def and_then_def call_def
          waitForEc2TransitGatewayRouteTableAssociationDeletion_def)
  next
    case (Return pair)
    obtain result werr where pair: "pair = (result, werr)" by (cases pair)
    show ?thesis
    proof (cases werr)
      case None
      with describe mutation started Return pair show ?thesis
        by (simp add: ec2TransitGatewayRouteTableAssociationUpdate_def and_then_def call_def
            waitForEc2TransitGatewayRouteTableAssociationDeletion_def io_return_def
            isResourceNotFoundError_def)
    next
      case (Some e)
      show ?thesis
      proof (cases "isResourceNotFoundError (Some e)")
        case True
        with describe mutation started Return pair Some show ?thesis
          by (simp add: ec2TransitGatewayRouteTableAssociationUpdate_def and_then_def call_def
              waitForEc2TransitGatewayRouteTableAssociationDeletion_def io_return_def)
      next
        case False
        with describe mutation started Return pair Some show ?thesis
          by (simp add: ec2TransitGatewayRouteTableAssociationUpdate_def and_then_def call_def
              waitForEc2TransitGatewayRouteTableAssociationDeletion_def io_return_def)
      qed
    qed
  qed
qed

lemma succeeded_poll_ends_the_engine:
  "Refresh stateConf h = Some (Return observed, h') \<Longrightarrow>
   ConvergenceEngine_transition stateConf observed = Succeeded result \<Longrightarrow>
   ConvergenceEngine stateConf h = Some (Return (result, None))"
  by (cases "Timeout stateConf - 1") (simp_all add: ConvergenceEngine_def)

lemma unexpected_poll_ends_the_engine:
  "Refresh stateConf h = Some (Return observed, h') \<Longrightarrow>
   ConvergenceEngine_transition stateConf observed = Failed e \<Longrightarrow>
   ConvergenceEngine stateConf h = Some (Return (None, Some e))"
  by (cases "Timeout stateConf - 1") (simp_all add: ConvergenceEngine_def)

lemma accepted:
  "AssociateTransitGatewayRouteTable quietEC2 h input = None"
  "AssociateTransitGatewayRouteTable tracking h input = None"
  "DisassociateTransitGatewayRouteTable tracking h input = None"
  "EnableTransitGatewayRouteTablePropagation tracking h input = None"
  "DisableTransitGatewayRouteTablePropagation tracking h input = None"
  by (simp_all add: tracking_def quietEC2_def)

lemma refused:
  "AssociateTransitGatewayRouteTable refusing h input
   = Some (AWSError ''UnauthorizedOperation''
             ''You are not authorized to perform this operation.'')"
  "DisassociateTransitGatewayRouteTable refusing h input
   = Some (AWSError ''UnauthorizedOperation''
             ''You are not authorized to perform this operation.'')"
  by (simp_all add: refusing_def)

lemma describe_association_tracking:
  "ec2DescribeTransitGatewayRouteTableAssociation (Some tracking) ''tgw-rtb-1''
     ''tgw-attach-1'' h
   = Some (Return
       (if switched_on AssociateTransitGatewayRouteTableOp
             DisassociateTransitGatewayRouteTableOp h
        then Some association1 else None, None),
       h @ [Called GetTransitGatewayRouteTableAssociationsOp])"
  by (simp add: ec2DescribeTransitGatewayRouteTableAssociation_def and_then_def call_def
      tracking_def quietEC2_def emptyPage_def io_return_def)

lemma describe_association_refusing:
  "ec2DescribeTransitGatewayRouteTableAssociation (Some refusing) ''tgw-rtb-1''
     ''tgw-attach-1'' h
   = Some (Return
       (if switched_on AssociateTransitGatewayRouteTableOp
             DisassociateTransitGatewayRouteTableOp h
        then Some association1 else None, None),
       h @ [Called GetTransitGatewayRouteTableAssociationsOp])"
  by (simp add: ec2DescribeTransitGatewayRouteTableAssociation_def and_then_def call_def
      refusing_def tracking_def quietEC2_def emptyPage_def io_return_def)

lemma describe_association_quietEC2:
  "ec2DescribeTransitGatewayRouteTableAssociation (Some quietEC2) ''tgw-rtb-1''
     ''tgw-attach-1'' h
   = Some (Return (None, None), h @ [Called GetTransitGatewayRouteTableAssociationsOp])"
  by (simp add: ec2DescribeTransitGatewayRouteTableAssociation_def and_then_def call_def
      quietEC2_def emptyPage_def io_return_def)

lemma describe_propagation_tracking:
  "ec2DescribeTransitGatewayRouteTablePropagation (Some tracking) ''tgw-rtb-1''
     ''tgw-attach-1'' h
   = Some (Return
       (if switched_on EnableTransitGatewayRouteTablePropagationOp
             DisableTransitGatewayRouteTablePropagationOp h
        then Some propagation1 else None, None),
       h @ [Called GetTransitGatewayRouteTablePropagationsOp])"
  by (simp add: ec2DescribeTransitGatewayRouteTablePropagation_def and_then_def call_def
      tracking_def quietEC2_def emptyPage_def io_return_def)

lemma refresh_association_tracking:
  "ec2TransitGatewayRouteTableAssociationRefreshFunc (Some tracking) ''tgw-rtb-1''
     ''tgw-attach-1'' h
   = Some (Return
       (if switched_on AssociateTransitGatewayRouteTableOp
             DisassociateTransitGatewayRouteTableOp h
        then (Some (RouteTableAssociationPayload association1), ''associated'', None)
        else (None, ''deleted'', None)),
       h @ [Called GetTransitGatewayRouteTableAssociationsOp])"
  by (simp add: ec2TransitGatewayRouteTableAssociationRefreshFunc_def and_then_def
      describe_association_tracking isAWSErr_def io_return_def association1_def
      StringValue_def TransitGatewayRouteTableStateDeleted_def)

lemma refresh_association_quietEC2:
  "ec2TransitGatewayRouteTableAssociationRefreshFunc (Some quietEC2) ''tgw-rtb-1''
     ''tgw-attach-1'' h
   = Some (Return (None, ''deleted'', None),
       h @ [Called GetTransitGatewayRouteTableAssociationsOp])"
  by (simp add: ec2TransitGatewayRouteTableAssociationRefreshFunc_def and_then_def
      describe_association_quietEC2 isAWSErr_def io_return_def
      TransitGatewayRouteTableStateDeleted_def)

text \<open>
  Claim C9, as amended. On a connection that is not nil both helpers read the current
  state first.
  \<^item> Association update, state differs from the request: the requested mutation
    (associate when no association exists, disassociate when one exists) is issued, and
    it is the one mutation the call adds to the history. When that call returns no error, the state wait over the labels that belong to the
    mutation is started right after it, and the helper returns when the wait does, with
    the history ending in that mutation and that wait, whether the wait succeeds, fails
    or panics; the helper returns nil exactly when the wait ends without error (or, for
    the disassociation, with the not-found error). When the call returns an error, the
    helper returns an error right after the mutation, with no wait.
  \<^item> Propagation update, state differs from the request: the requested mutation (enable
    when no propagation exists, disable when one exists) is issued, it is the one mutation
    the call adds to the history, and the helper returns right after it, nil exactly when the call returned no error. No state wait is
    started.
  \<^item> State already as requested: either helper returns nil right after the read.
  \<^item> In every run that returns, at most one mutation is added to the history; a run of the
    association update that returns nil has every mutation followed by its wait, and a
    run of the propagation update has no wait at all.
\<close>

theorem update_helpers_mutate_once:
  "(ec2DescribeTransitGatewayRouteTableAssociation (Some c) routeTableID attachmentID h
        = Some (Return (None, None), h1)
      \<and> AssociateTransitGatewayRouteTable c h1 (routeTableInput routeTableID attachmentID)
        = None
      \<and> engine
          (waitForEc2TransitGatewayRouteTableAssociationCreation_stateConf (Some c)
             routeTableID attachmentID)
          (h1 @ [Called AssociateTransitGatewayRouteTableOp,
                 WaitForStateCalled [TransitGatewayAssociationStateAssociating]
                   [TransitGatewayAssociationStateAssociated]]) = Some outcome1 \<longrightarrow>
      (\<exists>returned.
         ec2TransitGatewayRouteTableAssociationUpdate engine (Some c) routeTableID
           attachmentID True h
         = Some (returned,
             h1 @ [Called AssociateTransitGatewayRouteTableOp,
                 WaitForStateCalled [TransitGatewayAssociationStateAssociating]
                   [TransitGatewayAssociationStateAssociated]])
         \<and> (returned = Return None \<longleftrightarrow>
              (\<exists>result. outcome1 = Return (result, None))))
      \<and> filter is_mutation
          (issued h
             (h1 @ [Called AssociateTransitGatewayRouteTableOp,
                 WaitForStateCalled [TransitGatewayAssociationStateAssociating]
                   [TransitGatewayAssociationStateAssociated]]))
        = [Called AssociateTransitGatewayRouteTableOp])
   \<and> (ec2DescribeTransitGatewayRouteTableAssociation (Some c) routeTableID attachmentID h
        = Some (Return (None, None), h1)
      \<and> AssociateTransitGatewayRouteTable c h1 (routeTableInput routeTableID attachmentID)
        = Some e1 \<longrightarrow>
      (ec2TransitGatewayRouteTableAssociationUpdate engine (Some c) routeTableID
        attachmentID True h
      = Some (Return (Some (ErrorString
                (''error associating EC2 Transit Gateway Route Table ('' @ routeTableID
                   @ '') association ('' @ attachmentID @ ''): '' @ Error e1))),
              h1 @ [Called AssociateTransitGatewayRouteTableOp]))
      \<and> filter is_mutation (issued h (h1 @ [Called AssociateTransitGatewayRouteTableOp]))
        = [Called AssociateTransitGatewayRouteTableOp])
   \<and> (ec2DescribeTransitGatewayRouteTableAssociation (Some c) routeTableID attachmentID h
        = Some (Return (Some existing, None), h1)
      \<and> DisassociateTransitGatewayRouteTable c h1 (routeTableInput routeTableID attachmentID)
        = None
      \<and> engine
          (waitForEc2TransitGatewayRouteTableAssociationDeletion_stateConf (Some c)
             routeTableID attachmentID)
          (h1 @ [Called DisassociateTransitGatewayRouteTableOp,
                 WaitForStateCalled [TransitGatewayAssociationStateAssociated,
                   TransitGatewayAssociationStateDisassociating] [[]]]) = Some outcome2 \<longrightarrow>
      (\<exists>returned.
         ec2TransitGatewayRouteTableAssociationUpdate engine (Some c) routeTableID
           attachmentID False h
         = Some (returned,
             h1 @ [Called DisassociateTransitGatewayRouteTableOp,
                 WaitForStateCalled [TransitGatewayAssociationStateAssociated,
                   TransitGatewayAssociationStateDisassociating] [[]]])
         \<and> (returned = Return None \<longleftrightarrow>
              (\<exists>result werr. outcome2 = Return (result, werr)
                 \<and> (werr = None \<or> isResourceNotFoundError werr))))
      \<and> filter is_mutation
          (issued h
             (h1 @ [Called DisassociateTransitGatewayRouteTableOp,
                 WaitForStateCalled [TransitGatewayAssociationStateAssociated,
                   TransitGatewayAssociationStateDisassociating] [[]]]))
        = [Called DisassociateTransitGatewayRouteTableOp])
   \<and> (ec2DescribeTransitGatewayRouteTableAssociation (Some c) routeTableID attachmentID h
        = Some (Return (Some existing, None), h1)
      \<and> DisassociateTransitGatewayRouteTable c h1 (routeTableInput routeTableID attachmentID)
        = Some e2 \<longrightarrow>
      (ec2TransitGatewayRouteTableAssociationUpdate engine (Some c) routeTableID
        attachmentID False h
      = Some (Return (Some (ErrorString
                (''error disassociating EC2 Transit Gateway Route Table ('' @ routeTableID
                   @ '') disassociation ('' @ attachmentID @ ''): '' @ Error e2))),
              h1 @ [Called DisassociateTransitGatewayRouteTableOp]))
      \<and> filter is_mutation (issued h (h1 @ [Called DisassociateTransitGatewayRouteTableOp]))
        = [Called DisassociateTransitGatewayRouteTableOp])
   \<and> (ec2DescribeTransitGatewayRouteTablePropagation (Some c) routeTableID attachmentID h
        = Some (Return (None, None), h2) \<longrightarrow>
      (\<exists>err.
         ec2TransitGatewayRouteTablePropagationUpdate (Some c) routeTableID attachmentID
           True h
         = Some (Return err, h2 @ [Called EnableTransitGatewayRouteTablePropagationOp])
         \<and> (err = None \<longleftrightarrow>
              EnableTransitGatewayRouteTablePropagation c h2
                (routeTableInput routeTableID attachmentID) = None))
      \<and> filter is_mutation (issued h (h2 @ [Called EnableTransitGatewayRouteTablePropagationOp]))
        = [Called EnableTransitGatewayRouteTablePropagationOp])
   \<and> (ec2DescribeTransitGatewayRouteTablePropagation (Some c) routeTableID attachmentID h
        = Some (Return (Some enabled, None), h2) \<longrightarrow>
      (\<exists>err.
         ec2TransitGatewayRouteTablePropagationUpdate (Some c) routeTableID attachmentID
           False h
         = Some (Return err, h2 @ [Called DisableTransitGatewayRouteTablePropagationOp])
         \<and> (err = None \<longleftrightarrow>
              DisableTransitGatewayRouteTablePropagation c h2
                (routeTableInput routeTableID attachmentID) = None))
      \<and> filter is_mutation (issued h (h2 @ [Called DisableTransitGatewayRouteTablePropagationOp]))
        = [Called DisableTransitGatewayRouteTablePropagationOp])
   \<and> (ec2DescribeTransitGatewayRouteTableAssociation conn routeTableID attachmentID h
        = Some (Return (described, None), h1)
      \<and> (associate \<longleftrightarrow> described \<noteq> None) \<longrightarrow>
      ec2TransitGatewayRouteTableAssociationUpdate engine conn routeTableID attachmentID
        associate h = Some (Return None, h1))
   \<and> (ec2DescribeTransitGatewayRouteTablePropagation conn routeTableID attachmentID h
        = Some (Return (propagation, None), h2)
      \<and> (enablePropagation \<longleftrightarrow> propagation \<noteq> None) \<longrightarrow>
      ec2TransitGatewayRouteTablePropagationUpdate conn routeTableID attachmentID
        enablePropagation h = Some (Return None, h2))
   \<and> (ec2TransitGatewayRouteTableAssociationUpdate engine conn routeTableID attachmentID
        associate h = Some (Return err, h') \<longrightarrow>
      take (length h) h' = h
      \<and> length (filter is_mutation (issued h h')) \<le> 1
      \<and> (err = None \<longrightarrow> wait_after_every_mutation (issued h h')))
   \<and> (ec2TransitGatewayRouteTablePropagationUpdate conn routeTableID attachmentID
        enablePropagation h = Some (returned, h'') \<longrightarrow>
      take (length h) h'' = h
      \<and> length (filter is_mutation (issued h h'')) \<le> 1
      \<and> \<not> list_ex is_wait (issued h h''))"
proof (intro conjI impI)
  assume hyp: "ec2DescribeTransitGatewayRouteTableAssociation (Some c) routeTableID attachmentID h
        = Some (Return (None, None), h1)
      \<and> AssociateTransitGatewayRouteTable c h1 (routeTableInput routeTableID attachmentID)
        = None
      \<and> engine
          (waitForEc2TransitGatewayRouteTableAssociationCreation_stateConf (Some c)
             routeTableID attachmentID)
          (h1 @ [Called AssociateTransitGatewayRouteTableOp,
                 WaitForStateCalled [TransitGatewayAssociationStateAssociating]
                   [TransitGatewayAssociationStateAssociated]]) = Some outcome1"
  then show "\<exists>returned.
         ec2TransitGatewayRouteTableAssociationUpdate engine (Some c) routeTableID
           attachmentID True h
         = Some (returned,
             h1 @ [Called AssociateTransitGatewayRouteTableOp,
                 WaitForStateCalled [TransitGatewayAssociationStateAssociating]
                   [TransitGatewayAssociationStateAssociated]])
         \<and> (returned = Return None \<longleftrightarrow>
              (\<exists>result. outcome1 = Return (result, None)))"
    by (intro association_update_associates) simp_all
  from hyp have "h1 = h \<or> h1 = h @ [Called GetTransitGatewayRouteTableAssociationsOp]"
    by (auto dest: describe_association_history)
  then show "filter is_mutation
          (issued h
             (h1 @ [Called AssociateTransitGatewayRouteTableOp,
                 WaitForStateCalled [TransitGatewayAssociationStateAssociating]
                   [TransitGatewayAssociationStateAssociated]]))
        = [Called AssociateTransitGatewayRouteTableOp]"
    by (auto simp: issued_def mutation_simps)
next
  assume hyp: "ec2DescribeTransitGatewayRouteTableAssociation (Some c) routeTableID attachmentID h
        = Some (Return (None, None), h1)
      \<and> AssociateTransitGatewayRouteTable c h1 (routeTableInput routeTableID attachmentID)
        = Some e1"
  then show "ec2TransitGatewayRouteTableAssociationUpdate engine (Some c) routeTableID
        attachmentID True h
      = Some (Return (Some (ErrorString
                (''error associating EC2 Transit Gateway Route Table ('' @ routeTableID
                   @ '') association ('' @ attachmentID @ ''): '' @ Error e1))),
              h1 @ [Called AssociateTransitGatewayRouteTableOp])"
    by (simp add: ec2TransitGatewayRouteTableAssociationUpdate_def and_then_def call_def
        io_return_def)
  from hyp have "h1 = h \<or> h1 = h @ [Called GetTransitGatewayRouteTableAssociationsOp]"
    by (auto dest: describe_association_history)
  then show "filter is_mutation (issued h (h1 @ [Called AssociateTransitGatewayRouteTableOp]))
        = [Called AssociateTransitGatewayRouteTableOp]"
    by (auto simp: issued_def mutation_simps)
next
  assume hyp: "ec2DescribeTransitGatewayRouteTableAssociation (Some c) routeTableID attachmentID h
        = Some (Return (Some existing, None), h1)
      \<and> DisassociateTransitGatewayRouteTable c h1 (routeTableInput routeTableID attachmentID)
        = None
      \<and> engine
          (waitForEc2TransitGatewayRouteTableAssociationDeletion_stateConf (Some c)
             routeTableID attachmentID)
          (h1 @ [Called DisassociateTransitGatewayRouteTableOp,
                 WaitForStateCalled [TransitGatewayAssociationStateAssociated,
                   TransitGatewayAssociationStateDisassociating] [[]]]) = Some outcome2"
  then show "\<exists>returned.
         ec2TransitGatewayRouteTableAssociationUpdate engine (Some c) routeTableID
           attachmentID False h
         = Some (returned,
             h1 @ [Called DisassociateTransitGatewayRouteTableOp,
                 WaitForStateCalled [TransitGatewayAssociationStateAssociated,
                   TransitGatewayAssociationStateDisassociating] [[]]])
         \<and> (returned = Return None \<longleftrightarrow>
              (\<exists>result werr. outcome2 = Return (result, werr)
                 \<and> (werr = None \<or> isResourceNotFoundError werr)))"
    by (intro association_update_disassociates) simp_all
  from hyp have "h1 = h \<or> h1 = h @ [Called GetTransitGatewayRouteTableAssociationsOp]"
    by (auto dest: describe_association_history)
  then show "filter is_mutation
          (issued h
             (h1 @ [Called DisassociateTransitGatewayRouteTableOp,
                 WaitForStateCalled [TransitGatewayAssociationStateAssociated,
                   TransitGatewayAssociationStateDisassociating] [[]]]))
        = [Called DisassociateTransitGatewayRouteTableOp]"
    by (auto simp: issued_def mutation_simps)
next
  assume hyp: "ec2DescribeTransitGatewayRouteTableAssociation (Some c) routeTableID attachmentID h
        = Some (Return (Some existing, None), h1)
      \<and> DisassociateTransitGatewayRouteTable c h1 (routeTableInput routeTableID attachmentID)
        = Some e2"
  then show "ec2TransitGatewayRouteTableAssociationUpdate engine (Some c) routeTableID
        attachmentID False h
      = Some (Return (Some (ErrorString
                (''error disassociating EC2 Transit Gateway Route Table ('' @ routeTableID
                   @ '') disassociation ('' @ attachmentID @ ''): '' @ Error e2))),
              h1 @ [Called DisassociateTransitGatewayRouteTableOp])"
    by (simp add: ec2TransitGatewayRouteTableAssociationUpdate_def and_then_def call_def
        io_return_def)
  from hyp have "h1 = h \<or> h1 = h @ [Called GetTransitGatewayRouteTableAssociationsOp]"
    by (auto dest: describe_association_history)
  then show "filter is_mutation (issued h (h1 @ [Called DisassociateTransitGatewayRouteTableOp]))
        = [Called DisassociateTransitGatewayRouteTableOp]"
    by (auto simp: issued_def mutation_simps)
next
  assume hyp: "ec2DescribeTransitGatewayRouteTablePropagation (Some c) routeTableID attachmentID h
        = Some (Return (None, None), h2)"
  show "\<exists>err.
         ec2TransitGatewayRouteTablePropagationUpdate (Some c) routeTableID attachmentID
           True h
         = Some (Return err, h2 @ [Called EnableTransitGatewayRouteTablePropagationOp])
         \<and> (err = None \<longleftrightarrow>
              EnableTransitGatewayRouteTablePropagation c h2
                (routeTableInput routeTableID attachmentID) = None)"
  proof (cases "EnableTransitGatewayRouteTablePropagation c h2
                  (routeTableInput routeTableID attachmentID)")
    case None
    with hyp show ?thesis
      by (simp add: ec2TransitGatewayRouteTablePropagationUpdate_def and_then_def call_def
          io_return_def)
  next
    case (Some e)
    with hyp show ?thesis
      by (simp add: ec2TransitGatewayRouteTablePropagationUpdate_def and_then_def call_def
          io_return_def)
  qed
  from hyp have "h2 = h \<or> h2 = h @ [Called GetTransitGatewayRouteTablePropagationsOp]"
    by (auto dest: describe_propagation_history)
  then show "filter is_mutation (issued h (h2 @ [Called EnableTransitGatewayRouteTablePropagationOp]))
        = [Called EnableTransitGatewayRouteTablePropagationOp]"
    by (auto simp: issued_def mutation_simps)
next
  assume hyp: "ec2DescribeTransitGatewayRouteTablePropagation (Some c) routeTableID attachmentID h
        = Some (Return (Some enabled, None), h2)"
  show "\<exists>err.
         ec2TransitGatewayRouteTablePropagationUpdate (Some c) routeTableID attachmentID
           False h
         = Some (Return err, h2 @ [Called DisableTransitGatewayRouteTablePropagationOp])
         \<and> (err = None \<longleftrightarrow>
              DisableTransitGatewayRouteTablePropagation c h2
                (routeTableInput routeTableID attachmentID) = None)"
  proof (cases "DisableTransitGatewayRouteTablePropagation c h2
                  (routeTableInput routeTableID attachmentID)")
    case None
    with hyp show ?thesis
      by (simp add: ec2TransitGatewayRouteTablePropagationUpdate_def and_then_def call_def
          io_return_def)
  next
    case (Some e)
    with hyp show ?thesis
      by (simp add: ec2TransitGatewayRouteTablePropagationUpdate_def and_then_def call_def
          io_return_def)
  qed
  from hyp have "h2 = h \<or> h2 = h @ [Called GetTransitGatewayRouteTablePropagationsOp]"
    by (auto dest: describe_propagation_history)
  then show "filter is_mutation (issued h (h2 @ [Called DisableTransitGatewayRouteTablePropagationOp]))
        = [Called DisableTransitGatewayRouteTablePropagationOp]"
    by (auto simp: issued_def mutation_simps)
next
  assume "ec2DescribeTransitGatewayRouteTableAssociation conn routeTableID attachmentID h
            = Some (Return (described, None), h1)
          \<and> (associate \<longleftrightarrow> described \<noteq> None)"
  then show "ec2TransitGatewayRouteTableAssociationUpdate engine conn routeTableID
               attachmentID associate h = Some (Return None, h1)"
    by (auto simp: ec2TransitGatewayRouteTableAssociationUpdate_def and_then_def io_return_def)
next
  assume "ec2DescribeTransitGatewayRouteTablePropagation conn routeTableID attachmentID h
            = Some (Return (propagation, None), h2)
          \<and> (enablePropagation \<longleftrightarrow> propagation \<noteq> None)"
  then show "ec2TransitGatewayRouteTablePropagationUpdate conn routeTableID attachmentID
               enablePropagation h = Some (Return None, h2)"
    by (auto simp: ec2TransitGatewayRouteTablePropagationUpdate_def and_then_def io_return_def)
next
  assume run: "ec2TransitGatewayRouteTableAssociationUpdate engine conn routeTableID
                 attachmentID associate h = Some (Return err, h')"
  from association_update_steps [OF run] obtain before steps where
    h': "h' = before @ steps"
    and before: "before = h \<or> before = h @ [Called GetTransitGatewayRouteTableAssociationsOp]"
    and steps: "steps = []
       \<or> (err \<noteq> None \<and> (steps = [Called AssociateTransitGatewayRouteTableOp]
              \<or> steps = [Called DisassociateTransitGatewayRouteTableOp]))
       \<or> steps = [Called AssociateTransitGatewayRouteTableOp,
            WaitForStateCalled [TransitGatewayAssociationStateAssociating]
              [TransitGatewayAssociationStateAssociated]]
       \<or> steps = [Called DisassociateTransitGatewayRouteTableOp,
            WaitForStateCalled [TransitGatewayAssociationStateAssociated,
              TransitGatewayAssociationStateDisassociating] [[]]]"
    by blast
  from h' before show "take (length h) h' = h" by auto
  from h' before steps show "length (filter is_mutation (issued h h')) \<le> 1"
    by (auto simp: issued_def mutation_simps)
  show "wait_after_every_mutation (issued h h')" if "err = None"
    using h' before steps that by (auto simp: issued_def mutation_simps awaited_by_def)
next
  assume run: "ec2TransitGatewayRouteTablePropagationUpdate conn routeTableID attachmentID
                 enablePropagation h = Some (returned, h'')"
  from propagation_update_steps [OF run] obtain before steps where
    h'': "h'' = before @ steps"
    and before: "before = h \<or> before = h @ [Called GetTransitGatewayRouteTablePropagationsOp]"
    and steps: "steps = [] \<or> steps = [Called EnableTransitGatewayRouteTablePropagationOp]
       \<or> steps = [Called DisableTransitGatewayRouteTablePropagationOp]"
    by blast
  from h'' before show "take (length h) h'' = h" by auto
  from h'' before steps show "length (filter is_mutation (issued h h'')) \<le> 1"
    by (auto simp: issued_def mutation_simps)
  from h'' before steps show "\<not> list_ex is_wait (issued h h'')"
    by (auto simp: issued_def)
qed

text \<open>
  The helpers with the Convergence Engine, on the remote side that keeps track of the
  association and the propagation, on the one that refuses the association mutations,
  and on the one where no association ever appears:
  \<^item> associating where no association exists: the associate call, then the wait, which
    sees "associated"; the helper returns nil;
  \<^item> the same where the association never appears: the associate call, then the wait,
    which fails on the label "deleted"; the helper returns an error after the wait;
  \<^item> the associate call refused: the helper returns the error after the call, no wait;
  \<^item> disassociating an existing association: the disassociate call, then the wait, which
    sees the association absent; the helper returns nil;
  \<^item> the disassociate call refused: the error after the call, no wait;
  \<^item> enabling and disabling the propagation: the one call, then nil;
  \<^item> the state already as requested: nil after the read.
\<close>

theorem update_helpers_mutate_once_witness:
  "ec2TransitGatewayRouteTableAssociationUpdate ConvergenceEngine (Some tracking)
     ''tgw-rtb-1'' ''tgw-attach-1'' True []
   = Some (Return None,
       [Called GetTransitGatewayRouteTableAssociationsOp,
        Called AssociateTransitGatewayRouteTableOp,
        WaitForStateCalled [''associating''] [''associated'']])
   \<and> (\<exists>returned.
        ec2TransitGatewayRouteTableAssociationUpdate ConvergenceEngine (Some quietEC2)
          ''tgw-rtb-1'' ''tgw-attach-1'' True []
        = Some (returned,
            [Called GetTransitGatewayRouteTableAssociationsOp,
             Called AssociateTransitGatewayRouteTableOp,
             WaitForStateCalled [''associating''] [''associated'']])
        \<and> returned \<noteq> Return None)
   \<and> ec2TransitGatewayRouteTableAssociationUpdate ConvergenceEngine (Some refusing)
       ''tgw-rtb-1'' ''tgw-attach-1'' True []
     = Some (Return (Some (ErrorString
          (''error associating EC2 Transit Gateway Route Table (tgw-rtb-1) ''
           @ ''association (tgw-attach-1): UnauthorizedOperation: ''
           @ ''You are not authorized to perform this operation.''))),
         [Called GetTransitGatewayRouteTableAssociationsOp,
          Called AssociateTransitGatewayRouteTableOp])
   \<and> ec2TransitGatewayRouteTableAssociationUpdate ConvergenceEngine (Some tracking)
       ''tgw-rtb-1'' ''tgw-attach-1'' False [Called AssociateTransitGatewayRouteTableOp]
     = Some (Return None,
         [Called AssociateTransitGatewayRouteTableOp,
          Called GetTransitGatewayRouteTableAssociationsOp,
          Called DisassociateTransitGatewayRouteTableOp,
          WaitForStateCalled [''associated'', ''disassociating''] [[]]])
   \<and> ec2TransitGatewayRouteTableAssociationUpdate ConvergenceEngine (Some refusing)
       ''tgw-rtb-1'' ''tgw-attach-1'' False [Called AssociateTransitGatewayRouteTableOp]
     = Some (Return (Some (ErrorString
          (''error disassociating EC2 Transit Gateway Route Table (tgw-rtb-1) ''
           @ ''disassociation (tgw-attach-1): UnauthorizedOperation: ''
           @ ''You are not authorized to perform this operation.''))),
         [Called AssociateTransitGatewayRouteTableOp,
          Called GetTransitGatewayRouteTableAssociationsOp,
          Called DisassociateTransitGatewayRouteTableOp])
   \<and> ec2TransitGatewayRouteTablePropagationUpdate (Some tracking) ''tgw-rtb-1''
       ''tgw-attach-1'' True []
     = Some (Return None,
         [Called GetTransitGatewayRouteTablePropagationsOp,
          Called EnableTransitGatewayRouteTablePropagationOp])
   \<and> ec2TransitGatewayRouteTablePropagationUpdate (Some tracking) ''tgw-rtb-1''
       ''tgw-attach-1'' False [Called EnableTransitGatewayRouteTablePropagationOp]
     = Some (Return None,
         [Called EnableTransitGatewayRouteTablePropagationOp,
          Called GetTransitGatewayRouteTablePropagationsOp,
          Called DisableTransitGatewayRouteTablePropagationOp])
   \<and> ec2TransitGatewayRouteTableAssociationUpdate ConvergenceEngine (Some tracking)
       ''tgw-rtb-1'' ''tgw-attach-1'' True [Called AssociateTransitGatewayRouteTableOp]
     = Some (Return None,
         [Called AssociateTransitGatewayRouteTableOp,
          Called GetTransitGatewayRouteTableAssociationsOp])
   \<and> ec2TransitGatewayRouteTablePropagationUpdate (Some tracking) ''tgw-rtb-1''
       ''tgw-attach-1'' True [Called EnableTransitGatewayRouteTablePropagationOp]
     = Some (Return None,
         [Called EnableTransitGatewayRouteTablePropagationOp,
          Called GetTransitGatewayRouteTablePropagationsOp])
   \<and> wait_after_every_mutation
       [Called GetTransitGatewayRouteTableAssociationsOp,
        Called AssociateTransitGatewayRouteTableOp,
        WaitForStateCalled [''associating''] [''associated'']]
   \<and> \<not> list_ex is_wait
       [Called GetTransitGatewayRouteTablePropagationsOp,
        Called EnableTransitGatewayRouteTablePropagationOp]"
proof -
  let ?rt = "''tgw-rtb-1''" and ?att = "''tgw-attach-1''"
  let ?get = "Called GetTransitGatewayRouteTableAssociationsOp"
  let ?getP = "Called GetTransitGatewayRouteTablePropagationsOp"
  let ?W1 = "WaitForStateCalled [TransitGatewayAssociationStateAssociating]
               [TransitGatewayAssociationStateAssociated]"
  let ?W2 = "WaitForStateCalled [TransitGatewayAssociationStateAssociated,
               TransitGatewayAssociationStateDisassociating] [[]]"
  note labels = TransitGatewayAssociationStateAssociating_def
    TransitGatewayAssociationStateAssociated_def
    TransitGatewayAssociationStateDisassociating_def
  have associated: "ConvergenceEngine
      (waitForEc2TransitGatewayRouteTableAssociationCreation_stateConf (Some tracking)
         ?rt ?att)
      ([?get] @ [Called AssociateTransitGatewayRouteTableOp, ?W1])
      = Some (Return (Some (RouteTableAssociationPayload association1), None))"
    by (rule succeeded_poll_ends_the_engine
          [where observed = "(Some (RouteTableAssociationPayload association1),
                              ''associated'', None)"])
       (simp_all add: waitForEc2TransitGatewayRouteTableAssociationCreation_stateConf_def
          refresh_association_tracking switched_on_def ConvergenceEngine_transition_def
          labels)
  have never: "ConvergenceEngine
      (waitForEc2TransitGatewayRouteTableAssociationCreation_stateConf (Some quietEC2)
         ?rt ?att)
      ([?get] @ [Called AssociateTransitGatewayRouteTableOp, ?W1])
      = Some (Return (None, Some (UnexpectedStateError ''deleted'')))"
    by (rule unexpected_poll_ends_the_engine
          [where observed = "(None, ''deleted'', None)"])
       (simp_all add: waitForEc2TransitGatewayRouteTableAssociationCreation_stateConf_def
          refresh_association_quietEC2 ConvergenceEngine_transition_def labels)
  have absent: "ConvergenceEngine
      (waitForEc2TransitGatewayRouteTableAssociationDeletion_stateConf (Some tracking)
         ?rt ?att)
      ([Called AssociateTransitGatewayRouteTableOp, ?get]
         @ [Called DisassociateTransitGatewayRouteTableOp, ?W2])
      = Some (Return (None, None))"
    by (rule succeeded_poll_ends_the_engine [where observed = "(None, ''deleted'', None)"])
       (simp_all add: waitForEc2TransitGatewayRouteTableAssociationDeletion_stateConf_def
          refresh_association_tracking switched_on_def ConvergenceEngine_transition_def)
  have a1: "ec2DescribeTransitGatewayRouteTableAssociation (Some tracking) ?rt ?att []
        = Some (Return (None, None), [?get])
      \<and> AssociateTransitGatewayRouteTable tracking [?get] (routeTableInput ?rt ?att) = None
      \<and> ConvergenceEngine
          (waitForEc2TransitGatewayRouteTableAssociationCreation_stateConf (Some tracking)
             ?rt ?att)
          ([?get] @ [Called AssociateTransitGatewayRouteTableOp, ?W1])
        = Some (Return (Some (RouteTableAssociationPayload association1), None))"
    using associated accepted
    by (simp add: describe_association_tracking switched_on_def)
  have a2: "ec2DescribeTransitGatewayRouteTableAssociation (Some quietEC2) ?rt ?att []
        = Some (Return (None, None), [?get])
      \<and> AssociateTransitGatewayRouteTable quietEC2 [?get] (routeTableInput ?rt ?att) = None
      \<and> ConvergenceEngine
          (waitForEc2TransitGatewayRouteTableAssociationCreation_stateConf (Some quietEC2)
             ?rt ?att)
          ([?get] @ [Called AssociateTransitGatewayRouteTableOp, ?W1])
        = Some (Return (None, Some (UnexpectedStateError ''deleted'')))"
    using never by (simp add: describe_association_quietEC2 accepted)
  have b: "ec2DescribeTransitGatewayRouteTableAssociation (Some refusing) ?rt ?att []
        = Some (Return (None, None), [?get])
      \<and> AssociateTransitGatewayRouteTable refusing [?get] (routeTableInput ?rt ?att)
        = Some (AWSError ''UnauthorizedOperation''
                  ''You are not authorized to perform this operation.'')"
    by (simp add: describe_association_refusing switched_on_def refused)
  have c: "ec2DescribeTransitGatewayRouteTableAssociation (Some tracking) ?rt ?att
          [Called AssociateTransitGatewayRouteTableOp]
        = Some (Return (Some association1, None),
            [Called AssociateTransitGatewayRouteTableOp, ?get])
      \<and> DisassociateTransitGatewayRouteTable tracking
          [Called AssociateTransitGatewayRouteTableOp, ?get] (routeTableInput ?rt ?att)
        = None
      \<and> ConvergenceEngine
          (waitForEc2TransitGatewayRouteTableAssociationDeletion_stateConf (Some tracking)
             ?rt ?att)
          ([Called AssociateTransitGatewayRouteTableOp, ?get]
             @ [Called DisassociateTransitGatewayRouteTableOp, ?W2])
        = Some (Return (None, None))"
    using absent accepted
    by (simp add: describe_association_tracking switched_on_def)
  have d: "ec2DescribeTransitGatewayRouteTableAssociation (Some refusing) ?rt ?att
          [Called AssociateTransitGatewayRouteTableOp]
        = Some (Return (Some association1, None),
            [Called AssociateTransitGatewayRouteTableOp, ?get])
      \<and> DisassociateTransitGatewayRouteTable refusing
          [Called AssociateTransitGatewayRouteTableOp, ?get] (routeTableInput ?rt ?att)
        = Some (AWSError ''UnauthorizedOperation''
                  ''You are not authorized to perform this operation.'')"
    by (simp add: describe_association_refusing switched_on_def refused)
  have f: "ec2DescribeTransitGatewayRouteTablePropagation (Some tracking) ?rt ?att []
        = Some (Return (None, None), [?getP])"
    by (simp add: describe_propagation_tracking switched_on_def)
  have g: "ec2DescribeTransitGatewayRouteTablePropagation (Some tracking) ?rt ?att
          [Called EnableTransitGatewayRouteTablePropagationOp]
        = Some (Return (Some propagation1, None),
            [Called EnableTransitGatewayRouteTablePropagationOp, ?getP])"
    by (simp add: describe_propagation_tracking switched_on_def)
  have e: "ec2DescribeTransitGatewayRouteTableAssociation (Some tracking) ?rt ?att
          [Called AssociateTransitGatewayRouteTableOp]
        = Some (Return (Some association1, None),
            [Called AssociateTransitGatewayRouteTableOp, ?get])
      \<and> (True \<longleftrightarrow> Some association1 \<noteq> None)"
    by (simp add: describe_association_tracking switched_on_def)
  have h: "ec2DescribeTransitGatewayRouteTablePropagation (Some tracking) ?rt ?att
          [Called EnableTransitGatewayRouteTablePropagationOp]
        = Some (Return (Some propagation1, None),
            [Called EnableTransitGatewayRouteTablePropagationOp, ?getP])
      \<and> (True \<longleftrightarrow> Some propagation1 \<noteq> None)"
    by (simp add: describe_propagation_tracking switched_on_def)
  note once = update_helpers_mutate_once [where routeTableID = ?rt and attachmentID = ?att]
  note r1 = once [where c = tracking and h = "[]" and ?h1.0 = "[?get]"
      and engine = ConvergenceEngine
      and ?outcome1.0 = "Return (Some (RouteTableAssociationPayload association1), None)",
      THEN conjunct1, rule_format, OF a1]
  note r2 = once [where c = quietEC2 and h = "[]" and ?h1.0 = "[?get]"
      and engine = ConvergenceEngine
      and ?outcome1.0 = "Return (None, Some (UnexpectedStateError ''deleted''))",
      THEN conjunct1, rule_format, OF a2]
  note r3 = once [where engine = ConvergenceEngine,
      THEN conjunct2, THEN conjunct1, rule_format, OF b]
  note r4 = once [where c = tracking and h = "[Called AssociateTransitGatewayRouteTableOp]"
      and ?h1.0 = "[Called AssociateTransitGatewayRouteTableOp, ?get]"
      and engine = ConvergenceEngine and existing = association1
      and ?outcome2.0 = "Return (None, None)",
      THEN conjunct2, THEN conjunct2, THEN conjunct1, rule_format, OF c]
  note r5 = once [where engine = ConvergenceEngine,
      THEN conjunct2, THEN conjunct2, THEN conjunct2, THEN conjunct1, rule_format, OF d]
  note r6 = once [THEN conjunct2, THEN conjunct2, THEN conjunct2, THEN conjunct2,
      THEN conjunct1, rule_format, OF f]
  note r7 = once [THEN conjunct2, THEN conjunct2, THEN conjunct2, THEN conjunct2,
      THEN conjunct2, THEN conjunct1, rule_format, OF g]
  note r8 = once [where engine = ConvergenceEngine,
      THEN conjunct2, THEN conjunct2, THEN conjunct2, THEN conjunct2,
      THEN conjunct2, THEN conjunct2, THEN conjunct1, rule_format, OF e]
  note r9 = once [THEN conjunct2, THEN conjunct2, THEN conjunct2, THEN conjunct2,
      THEN conjunct2, THEN conjunct2, THEN conjunct2, THEN conjunct1, rule_format, OF h]
  from r1 have run1: "ec2TransitGatewayRouteTableAssociationUpdate ConvergenceEngine
      (Some tracking) ?rt ?att True []
      = Some (Return None, [?get, Called AssociateTransitGatewayRouteTableOp, ?W1])"
    by auto
  from r6 have run6: "ec2TransitGatewayRouteTablePropagationUpdate (Some tracking) ?rt ?att
      True [] = Some (Return None,
        [?getP, Called EnableTransitGatewayRouteTablePropagationOp])"
    by (auto simp: accepted)
  note r10 = once [THEN conjunct2, THEN conjunct2, THEN conjunct2, THEN conjunct2,
      THEN conjunct2, THEN conjunct2, THEN conjunct2, THEN conjunct2, THEN conjunct1,
      rule_format, OF run1]
  note r11 = once [THEN conjunct2, THEN conjunct2, THEN conjunct2, THEN conjunct2,
      THEN conjunct2, THEN conjunct2, THEN conjunct2, THEN conjunct2, THEN conjunct2,
      rule_format, OF run6]
  have c1: "ec2TransitGatewayRouteTableAssociationUpdate ConvergenceEngine (Some tracking)
     ''tgw-rtb-1'' ''tgw-attach-1'' True []
   = Some (Return None,
       [Called GetTransitGatewayRouteTableAssociationsOp,
        Called AssociateTransitGatewayRouteTableOp,
        WaitForStateCalled [''associating''] [''associated'']])"
    using run1 by (simp add: labels)
  have c2: "\<exists>returned.
        ec2TransitGatewayRouteTableAssociationUpdate ConvergenceEngine (Some quietEC2)
          ''tgw-rtb-1'' ''tgw-attach-1'' True []
        = Some (returned,
            [Called GetTransitGatewayRouteTableAssociationsOp,
             Called AssociateTransitGatewayRouteTableOp,
             WaitForStateCalled [''associating''] [''associated'']])
        \<and> returned \<noteq> Return None"
    using r2 by (auto simp: labels)
  have c3: "ec2TransitGatewayRouteTableAssociationUpdate ConvergenceEngine (Some refusing)
       ''tgw-rtb-1'' ''tgw-attach-1'' True []
     = Some (Return (Some (ErrorString
          (''error associating EC2 Transit Gateway Route Table (tgw-rtb-1) ''
           @ ''association (tgw-attach-1): UnauthorizedOperation: ''
           @ ''You are not authorized to perform this operation.''))),
         [Called GetTransitGatewayRouteTableAssociationsOp,
          Called AssociateTransitGatewayRouteTableOp])"
    using r3 by simp
  have c4: "ec2TransitGatewayRouteTableAssociationUpdate ConvergenceEngine (Some tracking)
       ''tgw-rtb-1'' ''tgw-attach-1'' False [Called AssociateTransitGatewayRouteTableOp]
     = Some (Return None,
         [Called AssociateTransitGatewayRouteTableOp,
          Called GetTransitGatewayRouteTableAssociationsOp,
          Called DisassociateTransitGatewayRouteTableOp,
          WaitForStateCalled [''associated'', ''disassociating''] [[]]])"
    using r4 by (auto simp: labels)
  have c5: "ec2TransitGatewayRouteTableAssociationUpdate ConvergenceEngine (Some refusing)
       ''tgw-rtb-1'' ''tgw-attach-1'' False [Called AssociateTransitGatewayRouteTableOp]
     = Some (Return (Some (ErrorString
          (''error disassociating EC2 Transit Gateway Route Table (tgw-rtb-1) ''
           @ ''disassociation (tgw-attach-1): UnauthorizedOperation: ''
           @ ''You are not authorized to perform this operation.''))),
         [Called AssociateTransitGatewayRouteTableOp,
          Called GetTransitGatewayRouteTableAssociationsOp,
          Called DisassociateTransitGatewayRouteTableOp])"
    using r5 by simp
  have c6: "ec2TransitGatewayRouteTablePropagationUpdate (Some tracking) ''tgw-rtb-1''
       ''tgw-attach-1'' True []
     = Some (Return None,
         [Called GetTransitGatewayRouteTablePropagationsOp,
          Called EnableTransitGatewayRouteTablePropagationOp])"
    using run6 by simp
  have c7: "ec2TransitGatewayRouteTablePropagationUpdate (Some tracking) ''tgw-rtb-1''
       ''tgw-attach-1'' False [Called EnableTransitGatewayRouteTablePropagationOp]
     = Some (Return None,
         [Called EnableTransitGatewayRouteTablePropagationOp,
          Called GetTransitGatewayRouteTablePropagationsOp,
          Called DisableTransitGatewayRouteTablePropagationOp])"
    using r7 by (auto simp: accepted)
  have c8: "ec2TransitGatewayRouteTableAssociationUpdate ConvergenceEngine (Some tracking)
       ''tgw-rtb-1'' ''tgw-attach-1'' True [Called AssociateTransitGatewayRouteTableOp]
     = Some (Return None,
         [Called AssociateTransitGatewayRouteTableOp,
          Called GetTransitGatewayRouteTableAssociationsOp])"
    using r8 by simp
  have c9: "ec2TransitGatewayRouteTablePropagationUpdate (Some tracking) ''tgw-rtb-1''
       ''tgw-attach-1'' True [Called EnableTransitGatewayRouteTablePropagationOp]
     = Some (Return None,
         [Called EnableTransitGatewayRouteTablePropagationOp,
          Called GetTransitGatewayRouteTablePropagationsOp])"
    using r9 by simp
  have c10: "wait_after_every_mutation
       [Called GetTransitGatewayRouteTableAssociationsOp,
        Called AssociateTransitGatewayRouteTableOp,
        WaitForStateCalled [''associating''] [''associated'']]"
    using r10 by (simp add: issued_def labels mutation_simps awaited_by_def)
  have c11: "\<not> list_ex is_wait
       [Called GetTransitGatewayRouteTablePropagationsOp,
        Called EnableTransitGatewayRouteTablePropagationOp]"
    using r11 by (simp add: issued_def)
  from c1 c2 c3 c4 c5 c6 c7 c8 c9 c10 c11 show ?thesis
    by (intro conjI)
qed

text \<open>
  Claim C9 as stated fails in three runs. The propagation update issues the enable
  mutation and returns nil with no state wait after it. The association update, asked to
  associate what is associated already, reads the state and issues no mutation. And when
  the associate call is refused, the association update returns after the mutation call
  with no state wait.
\<close>

theorem propagation_update_starts_no_wait:
  "ec2TransitGatewayRouteTablePropagationUpdate (Some quietEC2) ''tgw-rtb-1''
     ''tgw-attach-1'' True []
   = Some (Return None,
       [Called GetTransitGatewayRouteTablePropagationsOp,
        Called EnableTransitGatewayRouteTablePropagationOp])
   \<and> is_mutation (Called EnableTransitGatewayRouteTablePropagationOp)
   \<and> \<not> list_ex is_wait
       [Called GetTransitGatewayRouteTablePropagationsOp,
        Called EnableTransitGatewayRouteTablePropagationOp]
   \<and> \<not> wait_after_every_mutation
       [Called GetTransitGatewayRouteTablePropagationsOp,
        Called EnableTransitGatewayRouteTablePropagationOp]
   \<and> ec2TransitGatewayRouteTableAssociationUpdate ConvergenceEngine (Some tracking)
       ''tgw-rtb-1'' ''tgw-attach-1'' True [Called AssociateTransitGatewayRouteTableOp]
     = Some (Return None,
         [Called AssociateTransitGatewayRouteTableOp,
          Called GetTransitGatewayRouteTableAssociationsOp])
   \<and> \<not> list_ex is_mutation
       (issued [Called AssociateTransitGatewayRouteTableOp]
          [Called AssociateTransitGatewayRouteTableOp,
           Called GetTransitGatewayRouteTableAssociationsOp])
   \<and> ec2TransitGatewayRouteTableAssociationUpdate ConvergenceEngine (Some refusing)
       ''tgw-rtb-1'' ''tgw-attach-1'' True []
     = Some (Return (Some (ErrorString
          (''error associating EC2 Transit Gateway Route Table (tgw-rtb-1) ''
           @ ''association (tgw-attach-1): UnauthorizedOperation: ''
           @ ''You are not authorized to perform this operation.''))),
         [Called GetTransitGatewayRouteTableAssociationsOp,
          Called AssociateTransitGatewayRouteTableOp])
   \<and> is_mutation (Called AssociateTransitGatewayRouteTableOp)
   \<and> \<not> list_ex is_wait
       [Called GetTransitGatewayRouteTableAssociationsOp,
        Called AssociateTransitGatewayRouteTableOp]
   \<and> \<not> wait_after_every_mutation
       [Called GetTransitGatewayRouteTableAssociationsOp,
        Called AssociateTransitGatewayRouteTableOp]"
proof -
  have propagation: "ec2TransitGatewayRouteTablePropagationUpdate (Some quietEC2)
     ''tgw-rtb-1'' ''tgw-attach-1'' True []
   = Some (Return None,
       [Called GetTransitGatewayRouteTablePropagationsOp,
        Called EnableTransitGatewayRouteTablePropagationOp])"
    by (simp add: ec2TransitGatewayRouteTablePropagationUpdate_def
        ec2DescribeTransitGatewayRouteTablePropagation_def and_then_def call_def quietEC2_def
        emptyPage_def io_return_def)
  have same: "ec2TransitGatewayRouteTableAssociationUpdate ConvergenceEngine (Some tracking)
       ''tgw-rtb-1'' ''tgw-attach-1'' True [Called AssociateTransitGatewayRouteTableOp]
     = Some (Return None,
         [Called AssociateTransitGatewayRouteTableOp,
          Called GetTransitGatewayRouteTableAssociationsOp])"
    by (simp add: ec2TransitGatewayRouteTableAssociationUpdate_def and_then_def
        describe_association_tracking switched_on_def io_return_def)
  have refusal: "ec2TransitGatewayRouteTableAssociationUpdate ConvergenceEngine
       (Some refusing) ''tgw-rtb-1'' ''tgw-attach-1'' True []
     = Some (Return (Some (ErrorString
          (''error associating EC2 Transit Gateway Route Table (tgw-rtb-1) ''
           @ ''association (tgw-attach-1): UnauthorizedOperation: ''
           @ ''You are not authorized to perform this operation.''))),
         [Called GetTransitGatewayRouteTableAssociationsOp,
          Called AssociateTransitGatewayRouteTableOp])"
    by (simp add: ec2TransitGatewayRouteTableAssociationUpdate_def and_then_def call_def
        describe_association_refusing switched_on_def io_return_def refused)
  from propagation same refusal show ?thesis
    by (simp add: issued_def mutation_simps)
qed

section \<open>The claim about empty identifiers and a nil connection\<close>

lemma no_associations_all_disassociated:
  assumes ids: "subnetIDs \<noteq> []"
    and order1: "iteration_order order1 (subnetStates_init Map.empty subnetIDs)"
    and order2: "iteration_order order2 (subnetStates_init Map.empty subnetIDs)"
  shows "compoundState_loop [] (subnetStates_mark order1 (subnetStates_init Map.empty subnetIDs))
           order2 []
         = (Some (AssociationsPayload []), AssociationStatusCodeDisassociated, None)"
proof -
  let ?marked = "subnetStates_mark order1 (subnetStates_init Map.empty subnetIDs)"
  from order1 have keys1: "set order1 = StringValue ` set subnetIDs"
    by (simp add: iteration_order_def subnetStates_init_dom)
  from order2 have keys2: "set order2 = StringValue ` set subnetIDs"
    by (simp add: iteration_order_def subnetStates_init_dom)
  from keys2 ids have nonempty: "order2 \<noteq> []"
    by auto
  have "?marked k = Some AssociationStatusCodeDisassociated" if "k \<in> set order2" for k
    using that keys1 keys2 by (simp add: subnetStates_mark_lookup subnetStates_init_lookup)
  then have all: "list_all (\<lambda>k. ?marked k = Some AssociationStatusCodeDisassociated) order2"
    by (simp add: list_all_iff)
  have "terminal AssociationStatusCodeDisassociated
        \<or> in_progress AssociationStatusCodeDisassociated"
    by (simp add: terminal_def)
  from same_label_everywhere [OF this nonempty all] show ?thesis .
qed

text \<open>
  Claim C10, as amended. With an empty route table identifier the association helper, and
  with a nil connection or an empty domain identifier the two multicast helpers, return a
  nil result and a nil error and leave the history as it was (no remote call). The
  refresh functions built on them then report "deleted", and the association refresh
  function reports "disassociated" for a non-empty set of tracked subnets.
\<close>

theorem guarded_helpers_read_as_absent:
  "ec2DescribeTransitGatewayRouteTableAssociation conn [] attachmentID h
     = Some (Return (None, None), h)
   \<and> ec2TransitGatewayRouteTableAssociationRefreshFunc conn [] attachmentID h
     = Some (Return (None, TransitGatewayRouteTableStateDeleted, None), h)
   \<and> (conn = None \<or> domainID = [] \<longrightarrow>
        ec2DescribeTransitGatewayMulticastDomain conn domainID h
          = Some (Return (None, None), h)
        \<and> ec2GetTransitGatewayMulticastDomainAssociations conn domainID h
          = Some (Return ([], None), h)
        \<and> ec2TransitGatewayMulticastDomainRefreshFunc conn domainID h
          = Some (Return (None, TransitGatewayMulticastDomainStateDeleted, None), h))
   \<and> ((conn = None \<or> domainID = []) \<and> subnetIDs \<noteq> []
        \<and> iteration_order order1 (subnetStates_init Map.empty subnetIDs)
        \<and> iteration_order order2 (subnetStates_init Map.empty subnetIDs) \<longrightarrow>
        ec2TransitGatewayMulticastDomainAssociationRefreshFunc conn domainID subnetIDs
            order1 order2 h
          = Some (Return (Some (AssociationsPayload []),
                          AssociationStatusCodeDisassociated, None), h))"
proof (intro conjI impI)
  show "ec2DescribeTransitGatewayRouteTableAssociation conn [] attachmentID h
          = Some (Return (None, None), h)"
    by (simp add: ec2DescribeTransitGatewayRouteTableAssociation_def io_return_def)
  show "ec2TransitGatewayRouteTableAssociationRefreshFunc conn [] attachmentID h
          = Some (Return (None, TransitGatewayRouteTableStateDeleted, None), h)"
    by (simp add: ec2TransitGatewayRouteTableAssociationRefreshFunc_def and_then_def
        ec2DescribeTransitGatewayRouteTableAssociation_def io_return_def isAWSErr_None)
next
  assume guard: "conn = None \<or> domainID = []"
  then show "ec2DescribeTransitGatewayMulticastDomain conn domainID h
               = Some (Return (None, None), h)"
    by (auto simp: ec2DescribeTransitGatewayMulticastDomain_def io_return_def)
  from guard show "ec2GetTransitGatewayMulticastDomainAssociations conn domainID h
               = Some (Return ([], None), h)"
    by (auto simp: ec2GetTransitGatewayMulticastDomainAssociations_def io_return_def)
  from guard show "ec2TransitGatewayMulticastDomainRefreshFunc conn domainID h
               = Some (Return (None, TransitGatewayMulticastDomainStateDeleted, None), h)"
    by (auto simp: ec2TransitGatewayMulticastDomainRefreshFunc_def and_then_def
        ec2DescribeTransitGatewayMulticastDomain_def io_return_def isAWSErr_None)
next
  assume tracked: "(conn = None \<or> domainID = []) \<and> subnetIDs \<noteq> []
        \<and> iteration_order order1 (subnetStates_init Map.empty subnetIDs)
        \<and> iteration_order order2 (subnetStates_init Map.empty subnetIDs)"
  then have poll: "ec2GetTransitGatewayMulticastDomainAssociations conn domainID h
                     = Some (Return ([], None), h)"
    by (auto simp: ec2GetTransitGatewayMulticastDomainAssociations_def io_return_def)
  have states: "subnetStates_of_poll subnetIDs [] order1
                  = Return (subnetStates_mark order1 (subnetStates_init Map.empty subnetIDs))"
    by (simp add: subnetStates_of_poll_def)
  from tracked have "compoundState_loop []
           (subnetStates_mark order1 (subnetStates_init Map.empty subnetIDs)) order2 []
         = (Some (AssociationsPayload []), AssociationStatusCodeDisassociated, None)"
    by (intro no_associations_all_disassociated) simp_all
  with refresh_of_poll [OF poll states, of order2]
  show "ec2TransitGatewayMulticastDomainAssociationRefreshFunc conn domainID subnetIDs
            order1 order2 h
          = Some (Return (Some (AssociationsPayload []),
                          AssociationStatusCodeDisassociated, None), h)"
    by simp
qed

text \<open>
  The multicast helpers on a nil connection, and the association refresh function on an
  empty domain identifier with two tracked subnets.
\<close>

theorem guarded_helpers_read_as_absent_witness:
  "ec2DescribeTransitGatewayMulticastDomain None ''tgw-mcast-domain-1'' []
     = Some (Return (None, None), [])
   \<and> ec2GetTransitGatewayMulticastDomainAssociations None ''tgw-mcast-domain-1'' []
     = Some (Return ([], None), [])
   \<and> ec2TransitGatewayMulticastDomainRefreshFunc None ''tgw-mcast-domain-1'' []
     = Some (Return (None, ''deleted'', None), [])
   \<and> ec2TransitGatewayMulticastDomainAssociationRefreshFunc (Some quietEC2) []
       [Some ''subnet-a'', Some ''subnet-b''] [''subnet-a'', ''subnet-b'']
       [''subnet-b'', ''subnet-a''] []
     = Some (Return (Some (AssociationsPayload []), ''disassociated'', None), [])"
proof -
  have nil: "(None :: EC2 option) = None \<or> ''tgw-mcast-domain-1'' = []"
    by simp
  have empty: "(Some quietEC2 = None \<or> ([] :: string) = [])
        \<and> [Some ''subnet-a'', Some ''subnet-b''] \<noteq> []
        \<and> iteration_order [''subnet-a'', ''subnet-b'']
            (subnetStates_init Map.empty [Some ''subnet-a'', Some ''subnet-b''])
        \<and> iteration_order [''subnet-b'', ''subnet-a'']
            (subnetStates_init Map.empty [Some ''subnet-a'', Some ''subnet-b''])"
    by (auto simp: iteration_order_def StringValue_def)
  from guarded_helpers_read_as_absent [THEN conjunct2, THEN conjunct2, THEN conjunct1,
      rule_format, OF nil, of "[]"]
    guarded_helpers_read_as_absent [THEN conjunct2, THEN conjunct2, THEN conjunct2,
      rule_format, OF empty, of "[]"]
  show ?thesis
    by (simp add: TransitGatewayMulticastDomainStateDeleted_def label_defs)
qed

text \<open>
  Claim C10 as stated fails for the route table association helper: it guards against an
  empty identifier only, so with a nil connection and a non-empty identifier it goes on
  to call the method on the nil connection and panics.
\<close>

theorem nil_connection_reaches_the_association_call:
  "ec2DescribeTransitGatewayRouteTableAssociation None ''tgw-rtb-1'' ''tgw-attach-1'' []
     = Some (Panic, [])
   \<and> ec2DescribeTransitGatewayRouteTableAssociation None ''tgw-rtb-1'' ''tgw-attach-1'' []
     \<noteq> Some (Return (None, None), [])"
  by (simp add: ec2DescribeTransitGatewayRouteTableAssociation_def and_then_def call_def)


end
